theory Spec2Isabelle
  imports Main "HOL-Library.AList"
begin

section \<open>Common values\<close>

text \<open>
  Points in time (\<open>datetime\<close>) and durations (\<open>timedelta\<close>) are counted in
  microseconds, the resolution of both Python types.  Every call of
  \<open>datetime.now()\<close> or \<open>datetime.utcnow()\<close> is a reading supplied by the
  environment.
\<close>

type_synonym time = int

text \<open>
  The exception classes of the PyJWT library below \<open>InvalidTokenError\<close>; the last
  stands for the remaining subclasses.
\<close>

datatype jwt_error =
    ExpiredSignatureError
  | InvalidSignatureError
  | DecodeError
  | InvalidAlgorithmError
  | ImmatureSignatureError
  | OtherInvalidToken

datatype exn =
    ValueError string
  | PermissionError string
  | TypeError string
  | KeyError
  | StopIteration
  | HTTPException nat string
  | InvalidTokenError jwt_error string
  | RecursionError string
  | Exception string

fun str_of_exn :: "exn \<Rightarrow> string" where
  "str_of_exn (ValueError msg) = msg"
| "str_of_exn (PermissionError msg) = msg"
| "str_of_exn (TypeError msg) = msg"
| "str_of_exn KeyError = ''KeyError''"
| "str_of_exn StopIteration = ''''"
| "str_of_exn (HTTPException code detail) = detail"
| "str_of_exn (InvalidTokenError kind msg) = msg"
| "str_of_exn (RecursionError msg) = msg"
| "str_of_exn (Exception msg) = msg"

subsection \<open>Python dictionaries\<close>

text \<open>
  A \<open>dict\<close> (and an \<open>OrderedDict\<close>) keeps its keys in insertion order, so it is an
  association list: \<open>d[k] = v\<close> overwrites in place or appends (\<open>AList.update\<close>),
  \<open>del d[k]\<close> raises \<open>KeyError\<close> on a missing key, \<open>move_to_end\<close> re-appends.
\<close>

type_synonym ('k, 'v) dict = "('k \<times> 'v) list"

definition dict_keys :: "('k, 'v) dict \<Rightarrow> 'k list" where
  "dict_keys d = map fst d"

definition dict_contains :: "'k \<Rightarrow> ('k, 'v) dict \<Rightarrow> bool" where
  "dict_contains k d = (k \<in> set (dict_keys d))"

definition dict_get :: "('k, 'v) dict \<Rightarrow> 'k \<Rightarrow> 'v option" where
  "dict_get d k = map_of d k"

definition dict_set :: "'k \<Rightarrow> 'v \<Rightarrow> ('k, 'v) dict \<Rightarrow> ('k, 'v) dict" where
  "dict_set k v d = AList.update k v d"

definition dict_del :: "'k \<Rightarrow> ('k, 'v) dict \<Rightarrow> exn + ('k, 'v) dict" where
  "dict_del k d = (if dict_contains k d then Inr (AList.delete k d) else Inl KeyError)"

definition move_to_end :: "'k \<Rightarrow> ('k, 'v) dict \<Rightarrow> exn + ('k, 'v) dict" where
  "move_to_end k d =
     (case map_of d k of
        None \<Rightarrow> Inl KeyError
      | Some v \<Rightarrow> Inr (AList.delete k d @ [(k, v)]))"

section \<open>The instance manager (lightrag/api/instance\_manager.py)\<close>

type_synonym cache_key = "string \<times> string"

text \<open>
  The engine handle.  The class \<open>LightRAG\<close> itself is an external collaborator; the
  manager only constructs it, hands it out and probes it for the eight storage attributes
  it finalizes.  \<open>storages\<close> says which of them the object has (\<open>hasattr\<close>) and what
  the call of \<open>finalize()\<close> on each does.
\<close>

datatype storage_name =
    llm_response_cache | text_chunks | full_docs | entities_vdb
  | relationships_vdb | chunks_vdb | chunk_entity_relation_graph | doc_status

datatype finalize_outcome = FinalizeOk | FinalizeRaises string

type_synonym llm_config = "(string, string) dict"

record instance_config =
  base :: "(string, string) dict"
  llm_model_func :: "string option"
  embedding_func :: "string option"

record LightRAG =
  rag_config :: instance_config
  rag_tenant_id :: string
  rag_project_id :: string
  storages :: "storage_name \<Rightarrow> finalize_outcome option"

datatype event =
    Finalized cache_key storage_name
  | FinalizeWarning cache_key string

record manager =
  base_config :: "(string, string) dict"
  llm_config_service :: bool
  max_instances :: int
  ttl :: int
  instances :: "(cache_key, LightRAG) dict"
  last_access :: "(cache_key, time) dict"
  trace :: "event list"

text \<open>
  What one call of \<open>get_instance\<close> gets from outside the manager: the two clock
  readings it takes (the expiry test, and the stamp it writes), the configuration
  service's answer, the factory functions and the \<open>LightRAG\<close> constructor.
\<close>

record env =
  now_check :: time
  now_touch :: time
  get_default_config :: "string \<Rightarrow> exn + llm_config option"
  create_llm_from_config :: "llm_config \<Rightarrow> exn + string"
  create_embedding_from_config :: "llm_config \<Rightarrow> exn + string option"
  new_LightRAG :: "instance_config \<Rightarrow> string \<Rightarrow> string \<Rightarrow> exn + LightRAG"

definition manager_init :: "(string, string) dict \<Rightarrow> bool \<Rightarrow> int \<Rightarrow> int \<Rightarrow> manager" where
  "manager_init bc svc max_inst ttl_minutes =
     \<lparr>base_config = bc, llm_config_service = svc, max_instances = max_inst,
      ttl = ttl_minutes * 60 * 1000000, instances = [], last_access = [], trace = []\<rparr>"

definition storage_order :: "storage_name list" where
  "storage_order =
     [llm_response_cache, text_chunks, full_docs, entities_vdb,
      relationships_vdb, chunks_vdb, chunk_entity_relation_graph, doc_status]"

text \<open>
  The \<open>try\<close> block of \<open>_remove_instance\<close>: the storages the object has are finalized
  in the fixed order; the first \<open>finalize()\<close> that raises ends the block with a warning.
\<close>

fun finalize_storages :: "cache_key \<Rightarrow> LightRAG \<Rightarrow> storage_name list \<Rightarrow> event list" where
  "finalize_storages key inst [] = []"
| "finalize_storages key inst (s # ss) =
     (case storages inst s of
        None \<Rightarrow> finalize_storages key inst ss
      | Some FinalizeOk \<Rightarrow> Finalized key s # finalize_storages key inst ss
      | Some (FinalizeRaises msg) \<Rightarrow> [FinalizeWarning key msg])"

definition remove_instance :: "manager \<Rightarrow> cache_key \<Rightarrow> (exn + unit) \<times> manager" where
  "remove_instance m key =
     (case dict_get (instances m) key of
        None \<Rightarrow> (Inr (), m)
      | Some inst \<Rightarrow>
          (let m1 = m\<lparr>trace := trace m @ finalize_storages key inst storage_order\<rparr>;
               m2 = m1\<lparr>instances := AList.delete key (instances m1)\<rparr>
           in case dict_del key (last_access m2) of
                Inl e \<Rightarrow> (Inl e, m2)
              | Inr la \<Rightarrow> (Inr (), m2\<lparr>last_access := la\<rparr>)))"

text \<open>
  Lines 96--112: the default configuration of the project, when a service is set.  Every
  exception of the \<open>try\<close> block is raised again as a \<open>ValueError\<close>: the service's own,
  the one for a missing configuration, and the \<open>KeyError\<close> of the log line that reads
  the configuration's \<open>provider\<close> and \<open>model_name\<close>.
\<close>

definition quoted :: "string \<Rightarrow> string" where
  "quoted s = CHR 0x27 # s @ [CHR 0x27]"

definition fetch_llm_config :: "env \<Rightarrow> manager \<Rightarrow> string \<Rightarrow> exn + llm_config option" where
  "fetch_llm_config e m project_id =
     (if llm_config_service m then
        (case get_default_config e project_id of
           Inl ex \<Rightarrow> Inl (ValueError (''Failed to fetch LLM configuration: '' @ str_of_exn ex))
         | Inr None \<Rightarrow>
             Inl (ValueError (''Failed to fetch LLM configuration: '' @
                    ''No default LLM configuration found for project '' @ project_id @
                    ''. Please create an LLM configuration via /llm-configs endpoint.''))
         | Inr (Some []) \<Rightarrow>
             Inl (ValueError (''Failed to fetch LLM configuration: '' @
                    ''No default LLM configuration found for project '' @ project_id @
                    ''. Please create an LLM configuration via /llm-configs endpoint.''))
         | Inr (Some cfg) \<Rightarrow>
             (if \<not> dict_contains ''provider'' cfg then
                Inl (ValueError (''Failed to fetch LLM configuration: '' @ quoted ''provider''))
              else if \<not> dict_contains ''model_name'' cfg then
                Inl (ValueError (''Failed to fetch LLM configuration: '' @ quoted ''model_name''))
              else Inr (Some cfg)))
      else Inr None)"

text \<open>Lines 114--136: the configuration of the new instance, and its construction.\<close>

definition make_instance_config :: "env \<Rightarrow> manager \<Rightarrow> llm_config option \<Rightarrow> exn + instance_config" where
  "make_instance_config e m llm_cfg =
     (let ic = \<lparr>base = base_config m, llm_model_func = None, embedding_func = None\<rparr>
      in case llm_cfg of
           None \<Rightarrow> Inr ic
         | Some [] \<Rightarrow> Inr ic
         | Some cfg \<Rightarrow>
             (case create_llm_from_config e cfg of
                Inl ex \<Rightarrow> Inl ex
              | Inr f \<Rightarrow>
                  (case create_embedding_from_config e cfg of
                     Inl ex \<Rightarrow> Inl ex
                   | Inr None \<Rightarrow> Inr (ic\<lparr>llm_model_func := Some f\<rparr>)
                   | Inr (Some g) \<Rightarrow>
                       Inr (ic\<lparr>llm_model_func := Some f, embedding_func := Some g\<rparr>))))"

definition build_instance :: "env \<Rightarrow> manager \<Rightarrow> string \<Rightarrow> string \<Rightarrow> exn + LightRAG" where
  "build_instance e m tenant_id project_id =
     (case fetch_llm_config e m project_id of
        Inl ex \<Rightarrow> Inl ex
      | Inr llm_cfg \<Rightarrow>
          (case make_instance_config e m llm_cfg of
             Inl ex \<Rightarrow> Inl ex
           | Inr ic \<Rightarrow> new_LightRAG e ic tenant_id project_id))"

text \<open>Lines 138--140: the new entry and its stamp.\<close>

definition cache_insert :: "manager \<Rightarrow> cache_key \<Rightarrow> LightRAG \<Rightarrow> time \<Rightarrow> manager" where
  "cache_insert m key inst now =
     m\<lparr>instances := dict_set key inst (instances m),
       last_access := dict_set key now (last_access m)\<rparr>"

text \<open>Lines 142--149: the capacity check after the insertion.\<close>

definition enforce_max_instances :: "manager \<Rightarrow> (exn + unit) \<times> manager" where
  "enforce_max_instances m =
     (if int (length (instances m)) > max_instances m then
        (case instances m of
           [] \<Rightarrow> (Inl StopIteration, m)
         | (oldest_key, _) # _ \<Rightarrow> remove_instance m oldest_key)
      else (Inr (), m))"

text \<open>Lines 96--156: the path of a miss.\<close>

definition get_instance_miss :: "env \<Rightarrow> manager \<Rightarrow> string \<Rightarrow> string \<Rightarrow> (exn + LightRAG) \<times> manager" where
  "get_instance_miss e m tenant_id project_id =
     (case build_instance e m tenant_id project_id of
        Inl ex \<Rightarrow> (Inl ex, m)
      | Inr inst \<Rightarrow>
          (case enforce_max_instances (cache_insert m (tenant_id, project_id) inst (now_touch e)) of
             (Inl ex, m') \<Rightarrow> (Inl ex, m')
           | (Inr _, m') \<Rightarrow> (Inr inst, m')))"

text \<open>The test of line 85: a missing stamp counts as not expired.\<close>

definition is_expired :: "manager \<Rightarrow> cache_key \<Rightarrow> time \<Rightarrow> bool" where
  "is_expired m key now =
     (case dict_get (last_access m) key of
        None \<Rightarrow> False
      | Some la \<Rightarrow> now - la > ttl m)"

text \<open>Lines 90--94: the path of a hit.\<close>

definition get_instance_hit :: "env \<Rightarrow> manager \<Rightarrow> cache_key \<Rightarrow> (exn + LightRAG) \<times> manager" where
  "get_instance_hit e m key =
     (case move_to_end key (instances m) of
        Inl ex \<Rightarrow> (Inl ex, m)
      | Inr d \<Rightarrow>
          (let m' = m\<lparr>instances := d, last_access := dict_set key (now_touch e) (last_access m)\<rparr>
           in case dict_get (instances m') key of
                None \<Rightarrow> (Inl KeyError, m')
              | Some inst \<Rightarrow> (Inr inst, m')))"

definition get_instance :: "env \<Rightarrow> manager \<Rightarrow> string \<Rightarrow> string \<Rightarrow> (exn + LightRAG) \<times> manager" where
  "get_instance e m tenant_id project_id =
     (let key = (tenant_id, project_id) in
      if dict_contains key (instances m) then
        (if is_expired m key (now_check e) then
           (case remove_instance m key of
              (Inl ex, m') \<Rightarrow> (Inl ex, m')
            | (Inr _, m') \<Rightarrow> get_instance_miss e m' tenant_id project_id)
         else get_instance_hit e m key)
      else get_instance_miss e m tenant_id project_id)"

text \<open>The loops of \<open>cleanup_expired\<close> and \<open>shutdown\<close>: an exception ends the loop.\<close>

fun remove_instances :: "manager \<Rightarrow> cache_key list \<Rightarrow> (exn + unit) \<times> manager" where
  "remove_instances m [] = (Inr (), m)"
| "remove_instances m (key # keys) =
     (case remove_instance m key of
        (Inl ex, m') \<Rightarrow> (Inl ex, m')
      | (Inr _, m') \<Rightarrow> remove_instances m' keys)"

definition expired_keys :: "manager \<Rightarrow> time \<Rightarrow> cache_key list" where
  "expired_keys m now = map fst (filter (\<lambda>(key, la). now - la > ttl m) (last_access m))"

definition cleanup_expired :: "manager \<Rightarrow> time \<Rightarrow> (exn + unit) \<times> manager" where
  "cleanup_expired m now = remove_instances m (expired_keys m now)"

definition shutdown :: "manager \<Rightarrow> (exn + unit) \<times> manager" where
  "shutdown m = remove_instances m (dict_keys (instances m))"

subsection \<open>Invariant, recency order and runs of calls\<close>

definition cache_inv :: "manager \<Rightarrow> bool" where
  "cache_inv m =
     (distinct (dict_keys (instances m)) \<and> distinct (dict_keys (last_access m)) \<and>
      set (dict_keys (instances m)) = set (dict_keys (last_access m)))"

definition lru_touch :: "'k \<Rightarrow> 'k list \<Rightarrow> 'k list" where
  "lru_touch k ks = removeAll k ks @ [k]"

definition lru_evict :: "int \<Rightarrow> 'k list \<Rightarrow> 'k list" where
  "lru_evict cap ks = (if int (length ks) > cap then tl ks else ks)"

definition live_hit :: "env \<Rightarrow> manager \<Rightarrow> cache_key \<Rightarrow> bool" where
  "live_hit e m key = (dict_contains key (instances m) \<and> \<not> is_expired m key (now_check e))"

datatype call = GetInstance env string string | CleanupExpired time | Shutdown

fun call_step :: "manager \<Rightarrow> call \<Rightarrow> manager" where
  "call_step m (GetInstance e tenant_id project_id) = snd (get_instance e m tenant_id project_id)"
| "call_step m (CleanupExpired now) = snd (cleanup_expired m now)"
| "call_step m Shutdown = snd (shutdown m)"

definition run_calls :: "manager \<Rightarrow> call list \<Rightarrow> manager" where
  "run_calls m cs = foldl call_step m cs"

section \<open>The data store\<close>

text \<open>
  The tables the services read and write, each a list of rows in storage order.
  \<open>fetchrow\<close> and \<open>fetchval\<close> answer with the first row that matches, or \<open>None\<close>;
  \<open>UPDATE\<close> maps over the rows, \<open>DELETE\<close> filters them.  Identifiers are the
  text the services pass around (\<open>str(row['id'])\<close>).
\<close>

type_synonym ident = string

record user_row =
  u_id :: ident
  u_email :: string
  u_password_hash :: string
  u_name :: string
  u_phone :: "string option"
  u_is_active :: bool
  u_is_verified :: bool
  u_created_at :: time
  u_last_login_at :: "time option"
  u_password_reset_token :: "string option"
  u_password_reset_expires_at :: "time option"

record refresh_token_row =
  rt_id :: ident
  rt_user_id :: ident
  rt_token :: string
  rt_expires_at :: time
  rt_revoked_at :: "time option"
  rt_replaced_by :: "ident option"

record project_row =
  p_id :: string
  p_tenant_id :: string

record member_row =
  pm_id :: ident
  pm_project_id :: string
  pm_tenant_id :: string
  pm_user_id :: ident
  pm_role :: string
  pm_joined_at :: time

datatype scopes_col = ScopesText string | ScopesList "string list"

record api_key_row =
  ak_id :: ident
  ak_user_id :: ident
  ak_tenant_id :: string
  ak_project_id :: string
  ak_name :: string
  ak_key_prefix :: string
  ak_key_hash :: string
  ak_scopes :: scopes_col
  ak_expires_at :: "time option"
  ak_is_active :: bool
  ak_revoked_at :: "time option"
  ak_revoked_by :: "ident option"
  ak_last_used_at :: "time option"
  ak_created_at :: time

record database =
  users :: "user_row list"
  refresh_tokens :: "refresh_token_row list"
  projects :: "project_row list"
  project_members :: "member_row list"
  api_keys :: "api_key_row list"

definition startswith :: "string \<Rightarrow> string \<Rightarrow> bool" where
  "startswith s p = (take (length p) s = p)"

section \<open>Project membership (lightrag/api/services/project\_service.py)\<close>

datatype UserRole = OWNER | ADMIN | MEMBER | VIEWER

fun role_value :: "UserRole \<Rightarrow> string" where
  "role_value OWNER = ''owner''"
| "role_value ADMIN = ''admin''"
| "role_value MEMBER = ''member''"
| "role_value VIEWER = ''viewer''"

text \<open>The enum constructor \<open>UserRole(value)\<close>, which raises \<open>ValueError\<close> on any other text.\<close>

definition UserRole_of :: "string \<Rightarrow> exn + UserRole" where
  "UserRole_of v =
     (if v = ''owner'' then Inr OWNER
      else if v = ''admin'' then Inr ADMIN
      else if v = ''member'' then Inr MEMBER
      else if v = ''viewer'' then Inr VIEWER
      else Inl (ValueError (v @ '' is not a valid UserRole'')))"

record ProjectMemberResponse =
  pmr_id :: string
  pmr_user_id :: string
  pmr_user_email :: string
  pmr_user_name :: string
  pmr_role :: UserRole
  pmr_joined_at :: time

text \<open>\<open>SELECT role FROM lightrag_project_members WHERE project_id = $1 AND user_id = $2\<close>\<close>

definition select_member_role :: "database \<Rightarrow> string \<Rightarrow> ident \<Rightarrow> string option" where
  "select_member_role db project_id user_id =
     map_option pm_role
       (find (\<lambda>r. pm_project_id r = project_id \<and> pm_user_id r = user_id) (project_members db))"

text \<open>\<open>SELECT COUNT(*) FROM lightrag_project_members WHERE project_id = $1 AND role = $2\<close>\<close>

definition count_members_with_role :: "database \<Rightarrow> string \<Rightarrow> string \<Rightarrow> nat" where
  "count_members_with_role db project_id role =
     length (filter (\<lambda>r. pm_project_id r = project_id \<and> pm_role r = role) (project_members db))"

text \<open>The member row joined with its user row, as both services' \<open>JOIN\<close> queries read it.\<close>

definition select_member_with_user ::
  "database \<Rightarrow> string \<Rightarrow> ident \<Rightarrow> (member_row \<times> user_row) option" where
  "select_member_with_user db project_id user_id =
     (case [(r, u). r \<leftarrow> project_members db, u \<leftarrow> users db,
                    u_id u = pm_user_id r,
                    pm_project_id r = project_id \<and> pm_user_id r = user_id] of
        [] \<Rightarrow> None
      | x # _ \<Rightarrow> Some x)"

definition check_user_access :: "database \<Rightarrow> ident \<Rightarrow> string \<Rightarrow> string \<Rightarrow> exn + UserRole option" where
  "check_user_access db user_id tenant_id project_id =
     (case find (\<lambda>r. pm_user_id r = user_id \<and> pm_tenant_id r = tenant_id \<and>
                      pm_project_id r = project_id) (project_members db) of
        None \<Rightarrow> Inr None
      | Some r \<Rightarrow>
          (if pm_role r = [] then Inr None
           else case UserRole_of (pm_role r) of
                  Inl ex \<Rightarrow> Inl ex
                | Inr role \<Rightarrow> Inr (Some role)))"

definition update_member_role ::
  "database \<Rightarrow> string \<Rightarrow> ident \<Rightarrow> UserRole \<Rightarrow> ident \<Rightarrow> (exn + ProjectMemberResponse) \<times> database" where
  "update_member_role db project_id target_user_id new_role updated_by =
     (if select_member_role db project_id updated_by \<noteq> Some (role_value OWNER) then
        (Inl (PermissionError ''Only owners can update member roles''), db)
      else
        (let db' = db\<lparr>project_members :=
                      map (\<lambda>r. if pm_project_id r = project_id \<and> pm_user_id r = target_user_id
                                then r\<lparr>pm_role := role_value new_role\<rparr> else r)
                          (project_members db)\<rparr>
         in case select_member_with_user db' project_id target_user_id of
              None \<Rightarrow> (Inl (TypeError ''NoneType object is not subscriptable''), db')
            | Some (r, u) \<Rightarrow>
                (case UserRole_of (pm_role r) of
                   Inl ex \<Rightarrow> (Inl ex, db')
                 | Inr role \<Rightarrow>
                     (Inr \<lparr>pmr_id = pm_id r, pmr_user_id = pm_user_id r,
                           pmr_user_email = u_email u, pmr_user_name = u_name u,
                           pmr_role = role, pmr_joined_at = pm_joined_at r\<rparr>, db'))))"

definition remove_member :: "database \<Rightarrow> string \<Rightarrow> ident \<Rightarrow> ident \<Rightarrow> (exn + unit) \<times> database" where
  "remove_member db project_id target_user_id removed_by =
     (if select_member_role db project_id removed_by \<noteq> Some (role_value OWNER) then
        (Inl (PermissionError ''Only owners can remove members''), db)
      else if select_member_role db project_id target_user_id = Some (role_value OWNER) \<and>
              count_members_with_role db project_id (role_value OWNER) \<le> 1 then
        (Inl (ValueError ''Cannot remove the last owner''), db)
      else
        (Inr (), db\<lparr>project_members :=
                     filter (\<lambda>r. \<not> (pm_project_id r = project_id \<and> pm_user_id r = target_user_id))
                       (project_members db)\<rparr>))"

text \<open>
  The membership table keeps one row for each project and user (the conflict target of
  the \<open>INSERT\<close> of \<open>accept_invitation\<close>).
\<close>

definition members_unique :: "database \<Rightarrow> bool" where
  "members_unique db = distinct (map (\<lambda>r. (pm_project_id r, pm_user_id r)) (project_members db))"

definition owner_count :: "database \<Rightarrow> string \<Rightarrow> nat" where
  "owner_count db project_id = count_members_with_role db project_id (role_value OWNER)"

section \<open>Sessions (lightrag/api/services/auth\_service.py)\<close>

text \<open>
  The values of a token's payload.  The libraries the services call (PyJWT, bcrypt,
  \<open>json\<close>) are parameters of the model: \<open>jwt_decode\<close> is \<open>jwt.decode\<close> at the
  moment of the call, answering with the payload or with the exception it raises.
\<close>

datatype jvalue = JNull | JBool bool | JNum int | JStr string | JTime time

type_synonym payload = "(string, jvalue) dict"

record libs =
  jwt_encode :: "payload \<Rightarrow> string \<Rightarrow> string \<Rightarrow> string"
  jwt_decode :: "string \<Rightarrow> string \<Rightarrow> string list \<Rightarrow> exn + payload"
  bcrypt_hashpw :: "string \<Rightarrow> string \<Rightarrow> string"
  bcrypt_checkpw :: "string \<Rightarrow> string \<Rightarrow> bool"
  json_dumps :: "string list \<Rightarrow> string"
  json_loads :: "string \<Rightarrow> string list"

record auth_service =
  secret_key :: string
  access_token_expire_minutes :: int
  refresh_token_expire_days :: int
  algorithm :: string

definition minutes :: "int \<Rightarrow> time" where
  "minutes n = n * 60 * 1000000"

definition hours :: "int \<Rightarrow> time" where
  "hours n = n * 3600 * 1000000"

definition days :: "int \<Rightarrow> time" where
  "days n = n * 86400 * 1000000"

definition create_access_token ::
  "auth_service \<Rightarrow> libs \<Rightarrow> time \<Rightarrow> time \<Rightarrow> string \<Rightarrow> string \<Rightarrow> string" where
  "create_access_token svc lib now_exp now_iat user_id email =
     (let expires = now_exp + minutes (access_token_expire_minutes svc);
          pl = [(''sub'', JStr user_id), (''email'', JStr email), (''exp'', JTime expires),
                (''iat'', JTime now_iat), (''type'', JStr ''access'')]
      in jwt_encode lib pl (secret_key svc) (algorithm svc))"

definition decode_access_token :: "auth_service \<Rightarrow> libs \<Rightarrow> string \<Rightarrow> exn + payload option" where
  "decode_access_token svc lib token =
     (case jwt_decode lib token (secret_key svc) [algorithm svc] of
        Inr pl \<Rightarrow>
          (if dict_get pl ''type'' \<noteq> Some (JStr ''access'') then Inr None else Inr (Some pl))
      | Inl (InvalidTokenError ExpiredSignatureError msg) \<Rightarrow> Inr None
      | Inl (InvalidTokenError kind msg) \<Rightarrow> Inr None
      | Inl ex \<Rightarrow> Inl ex)"

record UserResponse =
  ur_id :: string
  ur_email :: string
  ur_name :: string
  ur_phone :: "string option"
  ur_is_active :: bool
  ur_is_verified :: bool
  ur_created_at :: time
  ur_last_login_at :: "time option"

record AuthTokenResponse =
  access_token :: string
  refresh_token :: string
  token_type :: string
  expires_in :: int
  user :: UserResponse

text \<open>
  What one call of \<open>refresh_access_token\<close> gets from outside: its five clock readings in
  the order they are taken, the text \<open>secrets.token_urlsafe(64)\<close> draws, and the
  identifier the store gives the inserted row (\<open>RETURNING id\<close>).
\<close>

record refresh_env =
  now_lookup :: time
  now_exp :: time
  now_iat :: time
  now_store :: time
  now_revoke :: time
  token_urlsafe_64 :: string
  returned_id :: ident

text \<open>The \<open>SELECT\<close> of \<open>refresh_access_token\<close>: the token row joined with its user.\<close>

definition select_refresh_token ::
  "database \<Rightarrow> string \<Rightarrow> time \<Rightarrow> (refresh_token_row \<times> user_row) option" where
  "select_refresh_token db tok now =
     (case [(rt, u). rt \<leftarrow> refresh_tokens db, u \<leftarrow> users db,
                     u_id u = rt_user_id rt,
                     rt_token rt = tok \<and> rt_expires_at rt > now \<and> rt_revoked_at rt = None] of
        [] \<Rightarrow> None
      | x # _ \<Rightarrow> Some x)"

definition refresh_access_token ::
  "auth_service \<Rightarrow> libs \<Rightarrow> database \<Rightarrow> refresh_env \<Rightarrow> string \<Rightarrow> AuthTokenResponse option \<times> database" where
  "refresh_access_token svc lib db e tok =
     (case select_refresh_token db tok (now_lookup e) of
        None \<Rightarrow> (None, db)
      | Some (row, u) \<Rightarrow>
          (let access = create_access_token svc lib (now_exp e) (now_iat e) (rt_user_id row) (u_email u);
               new_refresh_token = token_urlsafe_64 e;
               refresh_expires = now_store e + days (refresh_token_expire_days svc);
               new_token_id = returned_id e;
               db1 = db\<lparr>refresh_tokens := refresh_tokens db @
                        [\<lparr>rt_id = new_token_id, rt_user_id = rt_user_id row,
                          rt_token = new_refresh_token, rt_expires_at = refresh_expires,
                          rt_revoked_at = None, rt_replaced_by = None\<rparr>]\<rparr>;
               db2 = db1\<lparr>refresh_tokens :=
                        map (\<lambda>r. if rt_id r = rt_id row
                                  then r\<lparr>rt_revoked_at := Some (now_revoke e),
                                         rt_replaced_by := Some new_token_id\<rparr>
                                  else r)
                            (refresh_tokens db1)\<rparr>;
               usr = \<lparr>ur_id = rt_user_id row, ur_email = u_email u, ur_name = u_name u,
                      ur_phone = u_phone u, ur_is_active = u_is_active u,
                      ur_is_verified = u_is_verified u, ur_created_at = u_created_at u,
                      ur_last_login_at = u_last_login_at u\<rparr>
           in (Some \<lparr>access_token = access, refresh_token = new_refresh_token,
                     token_type = ''bearer'',
                     expires_in = access_token_expire_minutes svc * 60, user = usr\<rparr>, db2)))"

text \<open>
  What one call of \<open>request_password_reset\<close> gets from outside: a fault of the data
  store (the one way the service raises), the text \<open>secrets.token_urlsafe(32)\<close> draws,
  and its clock reading.
\<close>

record reset_env =
  db_fault :: "exn option"
  token_urlsafe_32 :: string
  now_reset :: time

definition request_password_reset ::
  "database \<Rightarrow> reset_env \<Rightarrow> string \<Rightarrow> (exn + string option) \<times> database" where
  "request_password_reset db e email =
     (case db_fault e of
        Some ex \<Rightarrow> (Inl ex, db)
      | None \<Rightarrow>
          (case find (\<lambda>u. u_email u = email \<and> u_is_active u) (users db) of
             None \<Rightarrow> (Inr None, db)
           | Some u \<Rightarrow>
               (if u_id u = [] then (Inr None, db)
                else
                  (let reset_token = token_urlsafe_32 e;
                       reset_expires = now_reset e + hours 2
                   in (Inr (Some reset_token),
                       db\<lparr>users :=
                            map (\<lambda>r. if u_id r = u_id u
                                      then r\<lparr>u_password_reset_token := Some reset_token,
                                             u_password_reset_expires_at := Some reset_expires\<rparr>
                                      else r)
                                (users db)\<rparr>)))))"

subsection \<open>The route (lightrag/api/routers/auth\_routes.py)\<close>

datatype log_entry = LogInfo string | LogWarning string | LogError string

text \<open>
  What the handler of \<open>POST /auth/password-reset/request\<close> produces: the body sent to
  the caller, the store, and the lines it writes to the server's log.
\<close>

record route_result =
  response_body :: "(string, string) dict"
  store :: database
  logged :: "log_entry list"

definition request_password_reset_route :: "database \<Rightarrow> reset_env \<Rightarrow> string \<Rightarrow> route_result" where
  "request_password_reset_route db e email =
     (case request_password_reset db e email of
        (Inr token, db') \<Rightarrow>
          \<lparr>response_body =
             [(''message'', ''If the email exists, a password reset link has been sent'')],
           store = db',
           logged = (case token of
                       None \<Rightarrow> []
                     | Some tok \<Rightarrow>
                         (if tok = [] then []
                          else [LogInfo (''Password reset requested for: '' @ email @
                                         '', token: '' @ tok)]))\<rparr>
      | (Inl ex, db') \<Rightarrow>
          \<lparr>response_body =
             [(''message'', ''If the email exists, a password reset link has been sent'')],
           store = db',
           logged = [LogError (''Password reset request error: '' @ str_of_exn ex)]\<rparr>)"

text \<open>
  The two writes of a successful refresh: the row inserted for the new token, and the
  \<open>UPDATE\<close> that revokes the row of the presented one.
\<close>

definition successor_row :: "auth_service \<Rightarrow> refresh_env \<Rightarrow> refresh_token_row \<Rightarrow> refresh_token_row" where
  "successor_row svc e row =
     \<lparr>rt_id = returned_id e, rt_user_id = rt_user_id row, rt_token = token_urlsafe_64 e,
      rt_expires_at = now_store e + days (refresh_token_expire_days svc),
      rt_revoked_at = None, rt_replaced_by = None\<rparr>"

definition revoke_row :: "refresh_env \<Rightarrow> refresh_token_row \<Rightarrow> refresh_token_row \<Rightarrow> refresh_token_row" where
  "revoke_row e row r =
     (if rt_id r = rt_id row
      then r\<lparr>rt_revoked_at := Some (now_revoke e), rt_replaced_by := Some (returned_id e)\<rparr>
      else r)"

section \<open>API keys (lightrag/api/services/api\_key\_service.py)\<close>

datatype APIKeyScope = QUERY | INSERT | DELETE | ADMIN_SCOPE

fun scope_value :: "APIKeyScope \<Rightarrow> string" where
  "scope_value QUERY = ''query''"
| "scope_value INSERT = ''insert''"
| "scope_value DELETE = ''delete''"
| "scope_value ADMIN_SCOPE = ''admin''"

text \<open>
  What one call of \<open>create_api_key\<close> gets from outside: the text
  \<open>secrets.token_urlsafe(32)\<close> draws, the salt of \<open>bcrypt.gensalt()\<close>, and the
  identifier and creation time the store gives the inserted row.
\<close>

record create_env =
  token_urlsafe_32k :: string
  gensalt :: string
  returned_key_id :: ident
  store_now :: time

definition generate_api_key :: "libs \<Rightarrow> create_env \<Rightarrow> string \<times> string \<times> string" where
  "generate_api_key lib e =
     (let random_part = token_urlsafe_32k e;
          full_key = ''lrag_'' @ random_part;
          key_prefix = take 12 full_key @ ''...'';
          key_hash = bcrypt_hashpw lib full_key (gensalt e)
      in (full_key, key_prefix, key_hash))"

definition verify_api_key :: "libs \<Rightarrow> string \<Rightarrow> string \<Rightarrow> bool" where
  "verify_api_key lib key key_hash = bcrypt_checkpw lib key key_hash"

text \<open>\<open>json.loads(row['scopes']) if isinstance(row['scopes'], str) else row['scopes']\<close>\<close>

definition parse_scopes :: "libs \<Rightarrow> scopes_col \<Rightarrow> string list" where
  "parse_scopes lib col = (case col of ScopesText s \<Rightarrow> json_loads lib s | ScopesList xs \<Rightarrow> xs)"

record APIKeyCreateResponse =
  akr_id :: string
  akr_name :: string
  akr_key :: string
  akr_key_prefix :: string
  akr_project_id :: string
  akr_tenant_id :: string
  akr_scopes :: "string list"
  akr_expires_at :: "time option"
  akr_created_at :: time

text \<open>
  Modelled from the spec: the declaration of the table \<open>lightrag_api_keys\<close> is not among
  the sources, so the values of the columns the \<open>INSERT\<close> leaves out are taken from the
  life cycle the spec gives a key (created active; revocation and use come later): a new
  row is active, not revoked and never used, and is stamped with the store's time.
\<close>

definition insert_api_key ::
  "database \<Rightarrow> create_env \<Rightarrow> ident \<Rightarrow> string \<Rightarrow> string \<Rightarrow> string \<Rightarrow> string \<Rightarrow> string \<Rightarrow>
   string \<Rightarrow> time option \<Rightarrow> database" where
  "insert_api_key db e user_id tenant_id project_id name key_prefix key_hash scope_json expires_at =
     db\<lparr>api_keys := api_keys db @
          [\<lparr>ak_id = returned_key_id e, ak_user_id = user_id, ak_tenant_id = tenant_id,
            ak_project_id = project_id, ak_name = name, ak_key_prefix = key_prefix,
            ak_key_hash = key_hash, ak_scopes = ScopesText scope_json,
            ak_expires_at = expires_at, ak_is_active = True, ak_revoked_at = None,
            ak_revoked_by = None, ak_last_used_at = None, ak_created_at = store_now e\<rparr>]\<rparr>"

definition create_api_key ::
  "libs \<Rightarrow> database \<Rightarrow> create_env \<Rightarrow> ident \<Rightarrow> string \<Rightarrow> string \<Rightarrow> APIKeyScope list \<Rightarrow>
   time option \<Rightarrow> (exn + APIKeyCreateResponse) \<times> database" where
  "create_api_key lib db e user_id project_id name scopes expires_at =
     (case find (\<lambda>p. p_id p = project_id) (projects db) of
        None \<Rightarrow> (Inl (ValueError ''Project not found''), db)
      | Some project \<Rightarrow>
          (if \<not> list_ex (\<lambda>r. pm_project_id r = project_id \<and> pm_user_id r = user_id)
                  (project_members db) then
             (Inl (PermissionError ''You don't have access to this project''), db)
           else
             (case generate_api_key lib e of
                (full_key, key_prefix, key_hash) \<Rightarrow>
                  (let scope_values = map scope_value scopes;
                       scope_json = json_dumps lib scope_values;
                       db' = insert_api_key db e user_id (p_tenant_id project) project_id name
                               key_prefix key_hash scope_json expires_at;
                       key_id = returned_key_id e
                   in case find (\<lambda>r. ak_id r = key_id) (api_keys db') of
                        None \<Rightarrow> (Inl (TypeError ''NoneType object is not subscriptable''), db')
                      | Some row \<Rightarrow>
                          (Inr \<lparr>akr_id = ak_id row, akr_name = ak_name row, akr_key = full_key,
                                akr_key_prefix = ak_key_prefix row,
                                akr_project_id = ak_project_id row,
                                akr_tenant_id = ak_tenant_id row,
                                akr_scopes = parse_scopes lib (ak_scopes row),
                                akr_expires_at = ak_expires_at row,
                                akr_created_at = ak_created_at row\<rparr>, db')))))"

record api_key_context =
  ctx_key_id :: string
  ctx_user_id :: string
  ctx_tenant_id :: string
  ctx_project_id :: string
  ctx_scopes :: "string list"

text \<open>The rows the \<open>SELECT\<close> of \<open>validate_api_key\<close> fetches.\<close>

definition active_api_keys :: "database \<Rightarrow> time \<Rightarrow> api_key_row list" where
  "active_api_keys db now =
     filter (\<lambda>r. ak_is_active r \<and> ak_revoked_at r = None \<and>
                 (case ak_expires_at r of None \<Rightarrow> True | Some x \<Rightarrow> x > now))
       (api_keys db)"

text \<open>The loop of \<open>validate_api_key\<close>: the first fetched row whose hash verifies the key.\<close>

fun check_each_key ::
  "libs \<Rightarrow> database \<Rightarrow> time \<Rightarrow> string \<Rightarrow> api_key_row list \<Rightarrow> api_key_context option \<times> database" where
  "check_each_key lib db now_used key [] = (None, db)"
| "check_each_key lib db now_used key (row # rows) =
     (if verify_api_key lib key (ak_key_hash row) then
        (Some \<lparr>ctx_key_id = ak_id row, ctx_user_id = ak_user_id row,
               ctx_tenant_id = ak_tenant_id row, ctx_project_id = ak_project_id row,
               ctx_scopes = parse_scopes lib (ak_scopes row)\<rparr>,
         db\<lparr>api_keys := map (\<lambda>r. if ak_id r = ak_id row
                                   then r\<lparr>ak_last_used_at := Some now_used\<rparr> else r)
                              (api_keys db)\<rparr>)
      else check_each_key lib db now_used key rows)"

definition validate_api_key ::
  "libs \<Rightarrow> database \<Rightarrow> time \<Rightarrow> time \<Rightarrow> string \<Rightarrow> api_key_context option \<times> database" where
  "validate_api_key lib db now_query now_used key =
     (if \<not> startswith key ''lrag_'' then (None, db)
      else check_each_key lib db now_used key (active_api_keys db now_query))"

text \<open>\<open>SELECT user_id = $1 FROM lightrag_api_keys WHERE id = $2\<close>\<close>

definition select_is_owner :: "database \<Rightarrow> ident \<Rightarrow> ident \<Rightarrow> bool option" where
  "select_is_owner db user_id key_id =
     map_option (\<lambda>r. ak_user_id r = user_id) (find (\<lambda>r. ak_id r = key_id) (api_keys db))"

definition revoke_api_key :: "database \<Rightarrow> time \<Rightarrow> ident \<Rightarrow> ident \<Rightarrow> (exn + bool) \<times> database" where
  "revoke_api_key db now key_id user_id =
     (if select_is_owner db user_id key_id \<noteq> Some True then
        (Inl (PermissionError ''You don't own this API key''), db)
      else
        (Inr True,
         db\<lparr>api_keys := map (\<lambda>r. if ak_id r = key_id
                                   then r\<lparr>ak_is_active := False, ak_revoked_at := Some now,
                                          ak_revoked_by := Some user_id\<rparr>
                                   else r)
                              (api_keys db)\<rparr>))"

section \<open>Access control (lightrag/api/middleware/auth\_middleware.py)\<close>

text \<open>
  The attributes the middleware sets on \<open>request.state\<close>; \<open>None\<close> is an attribute that
  was never set, which \<open>getattr(request.state, name, None)\<close> reads as \<open>None\<close>.  Of a
  session token's claims only text is kept: the service issues no other.
\<close>

record request_state =
  st_user_id :: "string option"
  st_user_email :: "string option"
  st_tenant_id :: "string option"
  st_project_id :: "string option"
  st_scopes :: "string list option"
  st_auth_type :: "string option"

definition empty_state :: request_state where
  "empty_state =
     \<lparr>st_user_id = None, st_user_email = None, st_tenant_id = None, st_project_id = None,
      st_scopes = None, st_auth_type = None\<rparr>"

record middleware =
  mw_auth_service :: auth_service
  mw_api_key_service :: bool

definition public_paths :: "string list" where
  "public_paths =
     [''/auth/register'', ''/auth/login'', ''/auth/verify-email'',
      ''/auth/password-reset/request'', ''/auth/password-reset/confirm'',
      ''/auth/refresh'', ''/docs'', ''/redoc'', ''/openapi.json'', ''/health'',
      ''/auth-status'']"

text \<open>\<open>str.replace(old, new)\<close> for a non-empty \<open>old\<close>: every occurrence, left to right.\<close>

function str_replace :: "string \<Rightarrow> string \<Rightarrow> string \<Rightarrow> string" where
  "str_replace old new s =
     (if s = [] \<or> old = [] then s
      else if startswith s old then new @ str_replace old new (drop (length old) s)
      else hd s # str_replace old new (tl s))"
  by pat_completeness auto
termination
  by (relation "measure (\<lambda>(old, new, s). length s)") auto

declare str_replace.simps [simp del]

definition text_claim :: "payload \<Rightarrow> string \<Rightarrow> string option" where
  "text_claim pl name = (case dict_get pl name of Some (JStr s) \<Rightarrow> Some s | _ \<Rightarrow> None)"

text \<open>
  \<open>AuthMiddleware.dispatch\<close> up to the call of the next handler: the state the request
  carries on, and the store (a validated key is stamped as used).
\<close>

definition dispatch ::
  "middleware \<Rightarrow> libs \<Rightarrow> database \<Rightarrow> time \<Rightarrow> time \<Rightarrow> string \<Rightarrow> string option \<Rightarrow>
   request_state \<times> database" where
  "dispatch mw lib db now_query now_used path authorization =
     (if list_ex (\<lambda>p. startswith path p) public_paths then (empty_state, db)
      else case authorization of
        None \<Rightarrow> (empty_state, db)
      | Some auth_header \<Rightarrow>
          (if auth_header = [] \<or> \<not> startswith auth_header ''Bearer '' then (empty_state, db)
           else
             (let token = str_replace ''Bearer '' [] auth_header in
              if startswith token ''lrag_'' \<and> mw_api_key_service mw then
                (case validate_api_key lib db now_query now_used token of
                   (Some ctx, db') \<Rightarrow>
                     (empty_state\<lparr>st_user_id := Some (ctx_user_id ctx),
                                  st_tenant_id := Some (ctx_tenant_id ctx),
                                  st_project_id := Some (ctx_project_id ctx),
                                  st_scopes := Some (ctx_scopes ctx),
                                  st_auth_type := Some ''api_key''\<rparr>, db')
                 | (None, db') \<Rightarrow> (empty_state, db'))
              else
                (case decode_access_token (mw_auth_service mw) lib token of
                   Inr (Some pl) \<Rightarrow>
                     (if pl = [] then (empty_state, db)
                      else (empty_state\<lparr>st_user_id := text_claim pl ''sub'',
                                        st_user_email := text_claim pl ''email'',
                                        st_auth_type := Some ''jwt''\<rparr>, db))
                 | Inr None \<Rightarrow> (empty_state, db)
                 | Inl ex \<Rightarrow> (empty_state, db)))))"

definition require_auth :: "request_state \<Rightarrow> exn + string" where
  "require_auth st =
     (case st_user_id st of
        None \<Rightarrow> Inl (HTTPException 401 ''Authentication required'')
      | Some uid \<Rightarrow>
          (if uid = [] then Inl (HTTPException 401 ''Authentication required'') else Inr uid))"

datatype access = ApiKeyAccess | RoleAccess UserRole

text \<open>
  \<open>required_roles\<close> is \<open>None\<close> or a list of role names; both \<open>None\<close> and the empty list
  are false in the test \<open>if required_roles\<close>.
\<close>

definition truthy_roles :: "string list option \<Rightarrow> bool" where
  "truthy_roles rr = (case rr of None \<Rightarrow> False | Some xs \<Rightarrow> xs \<noteq> [])"

definition check_project_access ::
  "request_state \<Rightarrow> database \<Rightarrow> string \<Rightarrow> string \<Rightarrow> string list option \<Rightarrow> exn + access" where
  "check_project_access st db tenant_id project_id required_roles =
     (if st_auth_type st = Some ''api_key'' then
        (let api_tenant_id = st_tenant_id st;
             api_project_id = st_project_id st
         in if api_tenant_id \<noteq> Some tenant_id \<or> api_project_id \<noteq> Some project_id then
              Inl (HTTPException 403 ''API key is not authorized for this project'')
            else
              (let scopes = (case st_scopes st of None \<Rightarrow> [] | Some xs \<Rightarrow> xs) in
               if ''admin'' \<in> set scopes then Inr ApiKeyAccess
               else if truthy_roles required_roles \<and> ''admin'' \<notin> set scopes then
                 Inl (HTTPException 403 ''This operation requires admin API key scope'')
               else Inr ApiKeyAccess))
      else
        (case require_auth st of
           Inl ex \<Rightarrow> Inl ex
         | Inr user_id \<Rightarrow>
             (case check_user_access db user_id tenant_id project_id of
                Inl ex \<Rightarrow> Inl ex
              | Inr None \<Rightarrow> Inl (HTTPException 403 ''You don't have access to this project'')
              | Inr (Some user_role) \<Rightarrow>
                  (if truthy_roles required_roles \<and>
                      role_value user_role \<notin> set (case required_roles of None \<Rightarrow> [] | Some xs \<Rightarrow> xs)
                   then Inl (HTTPException 403
                          (''This operation requires one of these roles: '' @
                           concat (case required_roles of None \<Rightarrow> []
                                   | Some xs \<Rightarrow> (case xs of [] \<Rightarrow> []
                                       | y # ys \<Rightarrow> y # map (\<lambda>z. '', '' @ z) ys))))
                   else Inr (RoleAccess user_role)))))"

definition require_scope :: "request_state \<Rightarrow> string \<Rightarrow> exn + unit" where
  "require_scope st required_scope =
     (if st_auth_type st = Some ''api_key'' then
        (let scopes = (case st_scopes st of None \<Rightarrow> [] | Some xs \<Rightarrow> xs) in
         if ''admin'' \<in> set scopes \<or> required_scope \<in> set scopes then Inr ()
         else Inl (HTTPException 403
                (''API key requires '' @ required_scope @ '' scope for this operation'')))
      else Inr ())"

section \<open>Concrete states\<close>

text \<open>Small states and environments on which the theorems below are instantiated.\<close>

definition example_rag :: "string \<Rightarrow> string \<Rightarrow> (storage_name \<Rightarrow> finalize_outcome option) \<Rightarrow> LightRAG" where
  "example_rag t p sts =
     \<lparr>rag_config = \<lparr>base = [], llm_model_func = None, embedding_func = None\<rparr>,
      rag_tenant_id = t, rag_project_id = p, storages = sts\<rparr>"

definition all_ok :: "storage_name \<Rightarrow> finalize_outcome option" where
  "all_ok s = Some FinalizeOk"

definition text_chunks_broken :: "storage_name \<Rightarrow> finalize_outcome option" where
  "text_chunks_broken s = (if s = text_chunks then Some (FinalizeRaises ''closed'') else Some FinalizeOk)"

definition example_env :: "time \<Rightarrow> env" where
  "example_env now =
     \<lparr>now_check = now, now_touch = now,
      get_default_config = (\<lambda>p. Inr None),
      create_llm_from_config = (\<lambda>c. Inr ''llm''),
      create_embedding_from_config = (\<lambda>c. Inr None),
      new_LightRAG = (\<lambda>ic t p. Inr \<lparr>rag_config = ic, rag_tenant_id = t, rag_project_id = p,
                                      storages = all_ok\<rparr>)\<rparr>"

definition example_manager :: manager where
  "example_manager =
     \<lparr>base_config = [(''working_dir'', ''/data'')], llm_config_service = False,
      max_instances = 2, ttl = 100,
      instances = [((''acme'', ''a''), example_rag ''acme'' ''a'' text_chunks_broken),
                   ((''acme'', ''b''), example_rag ''acme'' ''b'' all_ok)],
      last_access = [((''acme'', ''a''), 0), ((''acme'', ''b''), 50)],
      trace = []\<rparr>"

definition example_db :: database where
  "example_db =
     \<lparr>users =
        [\<lparr>u_id = ''u1'', u_email = ''alice@x.com'', u_password_hash = ''h1'', u_name = ''Alice'',
          u_phone = None, u_is_active = True, u_is_verified = True, u_created_at = 0,
          u_last_login_at = None, u_password_reset_token = None,
          u_password_reset_expires_at = None\<rparr>,
         \<lparr>u_id = ''u2'', u_email = ''bob@x.com'', u_password_hash = ''h2'', u_name = ''Bob'',
          u_phone = None, u_is_active = True, u_is_verified = True, u_created_at = 0,
          u_last_login_at = None, u_password_reset_token = None,
          u_password_reset_expires_at = None\<rparr>],
      refresh_tokens =
        [\<lparr>rt_id = ''r1'', rt_user_id = ''u1'', rt_token = ''tok1'', rt_expires_at = 1000,
          rt_revoked_at = None, rt_replaced_by = None\<rparr>],
      projects = [\<lparr>p_id = ''proj1'', p_tenant_id = ''acme''\<rparr>],
      project_members =
        [\<lparr>pm_id = ''m1'', pm_project_id = ''proj1'', pm_tenant_id = ''acme'',
          pm_user_id = ''u1'', pm_role = ''owner'', pm_joined_at = 0\<rparr>,
         \<lparr>pm_id = ''m2'', pm_project_id = ''proj1'', pm_tenant_id = ''acme'',
          pm_user_id = ''u2'', pm_role = ''member'', pm_joined_at = 5\<rparr>],
      api_keys = []\<rparr>"

definition example_libs :: libs where
  "example_libs =
     \<lparr>jwt_encode = (\<lambda>pl key alg.
         if pl = [(''sub'', JStr ''u1''), (''email'', JStr ''alice@x.com''),
                  (''exp'', JTime 3600000101), (''iat'', JTime 102), (''type'', JStr ''access'')] \<and>
            key = ''secret'' \<and> alg = ''HS256''
         then ''jwt-for-u1'' else ''jwt-other''),
      jwt_decode = (\<lambda>tok key algs.
         if tok = ''jwt-for-u1'' then
           Inr [(''sub'', JStr ''u1''), (''email'', JStr ''alice@x.com''), (''type'', JStr ''access'')]
         else if tok = ''jwt-refresh'' then Inr [(''sub'', JStr ''u1''), (''type'', JStr ''refresh'')]
         else if tok = ''jwt-old'' then Inl (InvalidTokenError ExpiredSignatureError ''Signature has expired'')
         else Inl (InvalidTokenError InvalidSignatureError ''Signature verification failed'')),
      bcrypt_hashpw = (\<lambda>key salt. salt @ key),
      bcrypt_checkpw = (\<lambda>key h. drop 4 h = key),
      json_dumps = (\<lambda>xs. concat (map (\<lambda>x. x @ '';'') xs)),
      json_loads = (\<lambda>s. if s = ''query;'' then [''query''] else if s = ''admin;'' then [''admin''] else [])\<rparr>"

definition example_auth_service :: auth_service where
  "example_auth_service =
     \<lparr>secret_key = ''secret'', access_token_expire_minutes = 60,
      refresh_token_expire_days = 30, algorithm = ''HS256''\<rparr>"

definition example_refresh_env :: refresh_env where
  "example_refresh_env = \<lparr>now_lookup = 100, now_exp = 101, now_iat = 102, now_store = 103,
     now_revoke = 104, token_urlsafe_64 = ''tok2'', returned_id = ''r2''\<rparr>"

definition example_create_env :: create_env where
  "example_create_env =
     \<lparr>token_urlsafe_32k = ''abc'', gensalt = ''salt'', returned_key_id = ''k1'', store_now = 10\<rparr>"

definition example_key_db :: database where
  "example_key_db =
     snd (create_api_key example_libs example_db example_create_env ''u1'' ''proj1'' ''ci''
            [QUERY] (Some 100))"

definition example_middleware :: middleware where
  "example_middleware = \<lparr>mw_auth_service = example_auth_service, mw_api_key_service = True\<rparr>"

definition example_admin_key_db :: database where
  "example_admin_key_db =
     snd (create_api_key example_libs example_db example_create_env ''u1'' ''proj1'' ''ops''
            [ADMIN_SCOPE] None)"

text \<open>
  A store with two active keys: an earlier one (\<open>k0\<close>, made for another tenant's
  project, whose hash does not verify the token below) and the admin key \<open>k1\<close>.
\<close>

definition example_two_keys_db :: database where
  "example_two_keys_db =
     example_db\<lparr>api_keys :=
       [\<lparr>ak_id = ''k0'', ak_user_id = ''u2'', ak_tenant_id = ''globex'',
         ak_project_id = ''proj9'', ak_name = ''old'', ak_key_prefix = ''lrag_zzz...'',
         ak_key_hash = ''saltlrag_zzz'', ak_scopes = ScopesText ''admin;'',
         ak_expires_at = None, ak_is_active = True, ak_revoked_at = None,
         ak_revoked_by = None, ak_last_used_at = None, ak_created_at = 1\<rparr>] @
       api_keys example_admin_key_db\<rparr>"

text \<open>
  A manager with a configuration service, and an environment in which the service knows
  a default configuration for project \<open>a\<close> only and the factories name what they make
  after the configuration's model.
\<close>

definition example_service_manager :: manager where
  "example_service_manager = example_manager\<lparr>llm_config_service := True\<rparr>"

definition example_config_env :: "time \<Rightarrow> env" where
  "example_config_env now =
     \<lparr>now_check = now, now_touch = now,
      get_default_config =
        (\<lambda>p. if p = ''a'' then Inr (Some [(''provider'', ''openai''), (''model_name'', ''gpt'')])
             else Inr None),
      create_llm_from_config =
        (\<lambda>c. Inr (''llm-'' @ (case map_of c ''model_name'' of Some n \<Rightarrow> n | None \<Rightarrow> []))),
      create_embedding_from_config =
        (\<lambda>c. Inr (Some (''emb-'' @ (case map_of c ''model_name'' of Some n \<Rightarrow> n | None \<Rightarrow> [])))),
      new_LightRAG = (\<lambda>ic t p. Inr \<lparr>rag_config = ic, rag_tenant_id = t, rag_project_id = p,
                                      storages = all_ok\<rparr>)\<rparr>"

text \<open>
  A token whose header segment is the base64url text of a thousand opening brackets.
  \<open>jwt.decode\<close> decodes the segment and parses it with \<open>json.loads\<close>, turning only
  \<open>ValueError\<close> into \<open>DecodeError\<close>; on a thousand nested arrays \<open>json.loads\<close>
  exceeds the interpreter's recursion limit and raises \<open>RecursionError\<close>, which is
  neither.  \<open>example_pyjwt_libs\<close> is \<open>example_libs\<close> with that behaviour of the library
  at that token.
\<close>

definition example_nested_token :: string where
  "example_nested_token = concat (replicate 333 ''W1tb'') @ ''Ww'' @ ''.e30.x''"

definition example_pyjwt_libs :: libs where
  "example_pyjwt_libs =
     example_libs\<lparr>jwt_decode :=
       (\<lambda>tok key algs.
          if tok = example_nested_token then
            Inl (RecursionError ''maximum recursion depth exceeded while decoding a JSON array'')
          else jwt_decode example_libs tok key algs)\<rparr>"

section \<open>Proofs: the instance manager\<close>

lemma dict_get_None_iff: "dict_get d k = None \<longleftrightarrow> \<not> dict_contains k d"
  by (simp add: dict_get_def dict_contains_def dict_keys_def map_of_eq_None_iff)

lemma remove_instance_absent:
  assumes "\<not> dict_contains key (instances m)"
  shows "remove_instance m key = (Inr (), m)"
proof -
  from assms have "dict_get (instances m) key = None" by (simp add: dict_get_None_iff)
  then show ?thesis by (simp add: remove_instance_def)
qed

lemma remove_instance_present:
  assumes "cache_inv m" and "dict_get (instances m) key = Some inst"
  shows "remove_instance m key =
           (Inr (), m\<lparr>trace := trace m @ finalize_storages key inst storage_order,
                      instances := AList.delete key (instances m),
                      last_access := AList.delete key (last_access m)\<rparr>)"
proof -
  from assms(2) have "dict_contains key (instances m)"
    using dict_get_None_iff [of "instances m" key] by simp
  with assms(1) have "dict_contains key (last_access m)"
    by (simp add: cache_inv_def dict_contains_def)
  with assms(2) show ?thesis
    by (simp add: remove_instance_def dict_del_def Let_def)
qed

lemma delete_absent: "\<not> dict_contains k d \<Longrightarrow> AList.delete k d = d"
  by (simp add: dict_contains_def dict_keys_def)

lemma remove_instance_eq:
  assumes "cache_inv m"
  shows "\<exists>evs. remove_instance m key =
           (Inr (), m\<lparr>trace := trace m @ evs,
                      instances := AList.delete key (instances m),
                      last_access := AList.delete key (last_access m)\<rparr>)"
proof (cases "dict_get (instances m) key")
  case None
  then have a: "\<not> dict_contains key (instances m)" by (simp add: dict_get_None_iff)
  with assms have b: "\<not> dict_contains key (last_access m)"
    by (simp add: cache_inv_def dict_contains_def)
  have "remove_instance m key = (Inr (), m\<lparr>trace := trace m @ [],
                      instances := AList.delete key (instances m),
                      last_access := AList.delete key (last_access m)\<rparr>)"
    using a b by (simp add: remove_instance_absent delete_absent)
  then show ?thesis by blast
next
  case (Some inst)
  from remove_instance_present [OF assms Some] show ?thesis by blast
qed

lemma remove_instance_state:
  assumes "cache_inv m"
  shows "fst (remove_instance m key) = Inr ()"
    and "instances (snd (remove_instance m key)) = AList.delete key (instances m)"
    and "last_access (snd (remove_instance m key)) = AList.delete key (last_access m)"
    and "max_instances (snd (remove_instance m key)) = max_instances m"
    and "ttl (snd (remove_instance m key)) = ttl m"
    and "llm_config_service (snd (remove_instance m key)) = llm_config_service m"
    and "base_config (snd (remove_instance m key)) = base_config m"
  using remove_instance_eq [OF assms, of key] by auto

lemma cache_inv_delete:
  assumes "cache_inv m"
    and "instances m' = AList.delete key (instances m)"
    and "last_access m' = AList.delete key (last_access m)"
  shows "cache_inv m'"
  using assms
  by (simp add: cache_inv_def dict_keys_def AList.delete_keys distinct_removeAll)

lemma remove_instance_inv:
  assumes "cache_inv m"
  shows "cache_inv (snd (remove_instance m key))"
  using assms remove_instance_state(2,3) [OF assms] by (rule cache_inv_delete)

lemma removeAll_hd_distinct: "distinct (x # xs) \<Longrightarrow> removeAll x (x # xs) = xs"
  by simp

lemma enforce_max_instances_eq:
  assumes "cache_inv m" and "instances m \<noteq> []"
  shows "\<exists>evs. enforce_max_instances m =
           (Inr (), m\<lparr>trace := trace m @ evs,
              instances := (if int (length (instances m)) > max_instances m
                            then tl (instances m) else instances m),
              last_access := (if int (length (instances m)) > max_instances m
                            then AList.delete (fst (hd (instances m))) (last_access m)
                            else last_access m)\<rparr>)"
proof (cases "int (length (instances m)) > max_instances m")
  case False
  then have "enforce_max_instances m = (Inr (), m\<lparr>trace := trace m @ [],
              instances := (if int (length (instances m)) > max_instances m
                            then tl (instances m) else instances m),
              last_access := (if int (length (instances m)) > max_instances m
                            then AList.delete (fst (hd (instances m))) (last_access m)
                            else last_access m)\<rparr>)"
    by (simp add: enforce_max_instances_def)
  then show ?thesis by blast
next
  case True
  from assms(2) obtain k v rest where d: "instances m = (k, v) # rest"
    by (cases "instances m") auto
  from assms(1) d have "k \<notin> fst ` set rest"
    by (auto simp: cache_inv_def dict_keys_def)
  then have del: "AList.delete k (instances m) = rest"
    using d by simp
  from remove_instance_eq [OF assms(1), of k] obtain evs where
    "remove_instance m k = (Inr (), m\<lparr>trace := trace m @ evs,
                      instances := AList.delete k (instances m),
                      last_access := AList.delete k (last_access m)\<rparr>)" by blast
  with True d del have "enforce_max_instances m = (Inr (), m\<lparr>trace := trace m @ evs,
              instances := (if int (length (instances m)) > max_instances m
                            then tl (instances m) else instances m),
              last_access := (if int (length (instances m)) > max_instances m
                            then AList.delete (fst (hd (instances m))) (last_access m)
                            else last_access m)\<rparr>)"
    by (simp add: enforce_max_instances_def)
  then show ?thesis by blast
qed

lemma cache_insert_fresh:
  assumes "cache_inv m" and "\<not> dict_contains key (instances m)"
  shows "instances (cache_insert m key inst now) = instances m @ [(key, inst)]"
    and "last_access (cache_insert m key inst now) = last_access m @ [(key, now)]"
    and "cache_inv (cache_insert m key inst now)"
proof -
  from assms have a: "key \<notin> fst ` set (instances m)" "key \<notin> fst ` set (last_access m)"
    by (auto simp: cache_inv_def dict_contains_def dict_keys_def)
  have upd: "\<And>(d :: (cache_key \<times> 'a) list) v. key \<notin> fst ` set d \<Longrightarrow> AList.update key v d = d @ [(key, v)]"
  proof -
    fix d :: "(cache_key \<times> 'a) list" and v
    show "key \<notin> fst ` set d \<Longrightarrow> AList.update key v d = d @ [(key, v)]"
      by (induction d) auto
  qed
  show i: "instances (cache_insert m key inst now) = instances m @ [(key, inst)]"
    using a by (simp add: cache_insert_def dict_set_def upd)
  show l: "last_access (cache_insert m key inst now) = last_access m @ [(key, now)]"
    using a by (simp add: cache_insert_def dict_set_def upd)
  show "cache_inv (cache_insert m key inst now)"
    using assms a by (auto simp: cache_inv_def i l dict_keys_def)
qed

lemma fetch_llm_config_cong:
  "llm_config_service m' = llm_config_service m \<Longrightarrow>
   fetch_llm_config e m' p = fetch_llm_config e m p"
  by (simp add: fetch_llm_config_def)

lemma make_instance_config_cong:
  "base_config m' = base_config m \<Longrightarrow>
   make_instance_config e m' c = make_instance_config e m c"
  by (simp add: make_instance_config_def)

lemma build_instance_cong:
  assumes "base_config m' = base_config m" and "llm_config_service m' = llm_config_service m"
  shows "build_instance e m' t p = build_instance e m t p"
  by (simp add: build_instance_def fetch_llm_config_cong [OF assms(2)]
      make_instance_config_cong [OF assms(1)] cong: sum.case_cong)

lemma get_instance_miss_fail:
  "build_instance e m t p = Inl ex \<Longrightarrow> get_instance_miss e m t p = (Inl ex, m)"
  by (simp add: get_instance_miss_def)

lemma get_instance_miss_ok:
  assumes inv: "cache_inv m" and fresh: "\<not> dict_contains (t, p) (instances m)"
    and build: "build_instance e m t p = Inr inst"
  shows "fst (get_instance_miss e m t p) = Inr inst"
    and "instances (snd (get_instance_miss e m t p)) =
           (if int (length (instances m)) + 1 > max_instances m
            then tl (instances m @ [((t, p), inst)]) else instances m @ [((t, p), inst)])"
    and "last_access (snd (get_instance_miss e m t p)) =
           (if int (length (instances m)) + 1 > max_instances m
            then AList.delete (fst (hd (instances m @ [((t, p), inst)])))
                   (last_access m @ [((t, p), now_touch e)])
            else last_access m @ [((t, p), now_touch e)])"
    and "max_instances (snd (get_instance_miss e m t p)) = max_instances m"
    and "ttl (snd (get_instance_miss e m t p)) = ttl m"
    and "llm_config_service (snd (get_instance_miss e m t p)) = llm_config_service m"
    and "base_config (snd (get_instance_miss e m t p)) = base_config m"
proof -
  let ?m1 = "cache_insert m (t, p) inst (now_touch e)"
  note ins = cache_insert_fresh [OF inv fresh, of inst "now_touch e"]
  have ne: "instances ?m1 \<noteq> []" by (simp add: ins(1))
  have flds: "max_instances ?m1 = max_instances m" "ttl ?m1 = ttl m"
    "llm_config_service ?m1 = llm_config_service m" "base_config ?m1 = base_config m"
    by (simp_all add: cache_insert_def)
  from enforce_max_instances_eq [OF ins(3) ne] obtain evs where
    enf: "enforce_max_instances ?m1 =
           (Inr (), ?m1\<lparr>trace := trace ?m1 @ evs,
              instances := (if int (length (instances ?m1)) > max_instances ?m1
                            then tl (instances ?m1) else instances ?m1),
              last_access := (if int (length (instances ?m1)) > max_instances ?m1
                            then AList.delete (fst (hd (instances ?m1))) (last_access ?m1)
                            else last_access ?m1)\<rparr>)" by blast
  have g: "get_instance_miss e m t p =
           (Inr inst, ?m1\<lparr>trace := trace ?m1 @ evs,
              instances := (if int (length (instances ?m1)) > max_instances ?m1
                            then tl (instances ?m1) else instances ?m1),
              last_access := (if int (length (instances ?m1)) > max_instances ?m1
                            then AList.delete (fst (hd (instances ?m1))) (last_access ?m1)
                            else last_access ?m1)\<rparr>)"
    by (simp add: get_instance_miss_def build enf)
  show "fst (get_instance_miss e m t p) = Inr inst" by (simp add: g)
  show "instances (snd (get_instance_miss e m t p)) =
           (if int (length (instances m)) + 1 > max_instances m
            then tl (instances m @ [((t, p), inst)]) else instances m @ [((t, p), inst)])"
    by (simp add: g ins(1) flds)
  show "last_access (snd (get_instance_miss e m t p)) =
           (if int (length (instances m)) + 1 > max_instances m
            then AList.delete (fst (hd (instances m @ [((t, p), inst)])))
                   (last_access m @ [((t, p), now_touch e)])
            else last_access m @ [((t, p), now_touch e)])"
    by (simp add: g ins(1,2) flds)
  show "max_instances (snd (get_instance_miss e m t p)) = max_instances m"
    and "ttl (snd (get_instance_miss e m t p)) = ttl m"
    and "llm_config_service (snd (get_instance_miss e m t p)) = llm_config_service m"
    and "base_config (snd (get_instance_miss e m t p)) = base_config m"
    by (simp_all add: g flds)
qed

lemma get_instance_miss_inv:
  assumes inv: "cache_inv m" and fresh: "\<not> dict_contains (t, p) (instances m)"
  shows "cache_inv (snd (get_instance_miss e m t p))"
proof (cases "build_instance e m t p")
  case (Inl ex)
  then show ?thesis using inv by (simp add: get_instance_miss_fail)
next
  case (Inr inst)
  let ?m1 = "cache_insert m (t, p) inst (now_touch e)"
  note ins = cache_insert_fresh [OF inv fresh, of inst "now_touch e"]
  note ok = get_instance_miss_ok [OF inv fresh Inr]
  show ?thesis
  proof (cases "int (length (instances m)) + 1 > max_instances m")
    case False
    then have "instances (snd (get_instance_miss e m t p)) = instances ?m1"
      and "last_access (snd (get_instance_miss e m t p)) = last_access ?m1"
      by (simp_all add: ok ins)
    with ins(3) show ?thesis by (simp add: cache_inv_def)
  next
    case True
    have "instances ?m1 \<noteq> []" by (simp add: ins(1))
    then obtain kv rest where "instances ?m1 = kv # rest"
      unfolding neq_Nil_conv by blast
    then obtain k v where d: "instances ?m1 = (k, v) # rest"
      by (cases kv) simp
    from ins(3) d have "k \<notin> fst ` set rest" by (auto simp: cache_inv_def dict_keys_def)
    then have "AList.delete k (instances ?m1) = rest" using d by simp
    with True d have a: "instances (snd (get_instance_miss e m t p)) = AList.delete k (instances ?m1)"
      using ok(2) ins(1) by simp
    from True d have b: "last_access (snd (get_instance_miss e m t p)) = AList.delete k (last_access ?m1)"
      using ok(3) ins(1,2) by simp
    from ins(3) a b show ?thesis by (rule cache_inv_delete)
  qed
qed

lemma get_instance_hit_eq:
  assumes inv: "cache_inv m" and pres: "dict_get (instances m) key = Some inst"
  shows "get_instance_hit e m key =
           (Inr inst, m\<lparr>instances := AList.delete key (instances m) @ [(key, inst)],
                        last_access := AList.update key (now_touch e) (last_access m)\<rparr>)"
proof -
  have mv: "move_to_end key (instances m) = Inr (AList.delete key (instances m) @ [(key, inst)])"
    using pres by (simp add: move_to_end_def dict_get_def)
  have "map_of (AList.delete key (instances m)) key = None"
    by (simp add: AList.delete_conv')
  then have "dict_get (AList.delete key (instances m) @ [(key, inst)]) key = Some inst"
    by (simp add: dict_get_def map_add_def)
  then show ?thesis
    by (simp add: get_instance_hit_def mv dict_set_def Let_def)
qed

lemma get_instance_hit_inv:
  assumes inv: "cache_inv m" and pres: "dict_get (instances m) key = Some inst"
  shows "cache_inv (snd (get_instance_hit e m key))"
proof -
  from pres have c: "dict_contains key (instances m)"
    using dict_get_None_iff [of "instances m" key] by simp
  then have k: "key \<in> set (map fst (instances m))" by (simp add: dict_contains_def dict_keys_def)
  with inv have k': "key \<in> set (map fst (last_access m))" by (simp add: cache_inv_def dict_keys_def)
  have "set (removeAll key (map fst (instances m))) \<union> {key} = set (map fst (instances m))"
    using k by auto
  with inv k k' show ?thesis
    by (simp add: get_instance_hit_eq [OF inv pres] cache_inv_def dict_keys_def
        AList.delete_keys AList.update_keys distinct_removeAll)
qed

lemma get_instance_live:
  assumes "live_hit e m (t, p)"
  shows "get_instance e m t p = get_instance_hit e m (t, p)"
  using assms by (simp add: get_instance_def live_hit_def)

lemma get_instance_absent:
  assumes "\<not> dict_contains (t, p) (instances m)"
  shows "get_instance e m t p = get_instance_miss e m t p"
  using assms by (simp add: get_instance_def)

lemma get_instance_expired:
  assumes inv: "cache_inv m" and "dict_contains (t, p) (instances m)"
    and "is_expired m (t, p) (now_check e)"
  shows "get_instance e m t p = get_instance_miss e (snd (remove_instance m (t, p))) t p"
proof -
  obtain r m' where rm: "remove_instance m (t, p) = (r, m')" by (cases "remove_instance m (t, p)")
  with remove_instance_state(1) [OF inv, of "(t, p)"] have "r = Inr ()" by simp
  with rm assms(2,3) show ?thesis by (simp add: get_instance_def)
qed

lemma removed_not_contained:
  assumes "cache_inv m"
  shows "\<not> dict_contains key (instances (snd (remove_instance m key)))"
  using AList.delete_notin_dom [of key "instances m"]
  by (simp add: remove_instance_state(2) [OF assms] dict_contains_def dict_keys_def)

lemma get_instance_inv:
  assumes inv: "cache_inv m"
  shows "cache_inv (snd (get_instance e m t p))"
proof (cases "dict_contains (t, p) (instances m)")
  case False
  then show ?thesis
    by (simp add: get_instance_absent get_instance_miss_inv [OF inv])
next
  case True
  show ?thesis
  proof (cases "is_expired m (t, p) (now_check e)")
    case True
    note c = \<open>dict_contains (t, p) (instances m)\<close>
    show ?thesis
      by (simp add: get_instance_expired [OF inv c True]
          get_instance_miss_inv [OF remove_instance_inv [OF inv] removed_not_contained [OF inv]])
  next
    case False
    with True have lh: "live_hit e m (t, p)" by (simp add: live_hit_def)
    from True obtain inst where "dict_get (instances m) (t, p) = Some inst"
      using dict_get_None_iff [of "instances m" "(t, p)"] by auto
    then show ?thesis
      by (simp add: get_instance_live [OF lh] get_instance_hit_inv [OF inv])
  qed
qed

lemma get_instance_miss_fst:
  assumes inv: "cache_inv m" and fresh: "\<not> dict_contains (t, p) (instances m)"
  shows "fst (get_instance_miss e m t p) = build_instance e m t p"
proof (cases "build_instance e m t p")
  case (Inl ex) then show ?thesis by (simp add: get_instance_miss_fail)
next
  case (Inr inst) then show ?thesis by (simp add: get_instance_miss_ok(1) [OF inv fresh])
qed

lemma get_instance_keys_ok:
  assumes inv: "cache_inv m" and ok: "fst (get_instance e m t p) = Inr inst"
  shows "dict_keys (instances (snd (get_instance e m t p))) =
           (if live_hit e m (t, p) then lru_touch (t, p) (dict_keys (instances m))
            else lru_evict (max_instances m) (lru_touch (t, p) (dict_keys (instances m))))"
proof (cases "dict_contains (t, p) (instances m)")
  case False
  then have nl: "\<not> live_hit e m (t, p)" by (simp add: live_hit_def)
  from False have g: "get_instance e m t p = get_instance_miss e m t p"
    by (rule get_instance_absent)
  from ok g have b: "build_instance e m t p = Inr inst"
    by (simp add: get_instance_miss_fst [OF inv False])
  from False have ra: "removeAll (t, p) (map fst (instances m)) = map fst (instances m)"
    by (simp add: dict_contains_def dict_keys_def)
  show ?thesis
    using nl by (simp add: g get_instance_miss_ok(2) [OF inv False b] lru_touch_def
        lru_evict_def ra dict_keys_def map_tl)
next
  case True
  then obtain old where old: "dict_get (instances m) (t, p) = Some old"
    using dict_get_None_iff [of "instances m" "(t, p)"] by auto
  show ?thesis
  proof (cases "is_expired m (t, p) (now_check e)")
    case False
    with True have lh: "live_hit e m (t, p)" by (simp add: live_hit_def)
    show ?thesis
      using lh by (simp add: get_instance_live [OF lh] get_instance_hit_eq [OF inv old]
          lru_touch_def dict_keys_def AList.delete_keys)
  next
    case exp: True
    then have nl: "\<not> live_hit e m (t, p)" by (simp add: live_hit_def)
    let ?m1 = "snd (remove_instance m (t, p))"
    note inv1 = remove_instance_inv [OF inv, of "(t, p)"]
    note fresh1 = removed_not_contained [OF inv, of "(t, p)"]
    note st = remove_instance_state [OF inv, of "(t, p)"]
    have g: "get_instance e m t p = get_instance_miss e ?m1 t p"
      by (rule get_instance_expired [OF inv True exp])
    from ok g have b: "build_instance e ?m1 t p = Inr inst"
      by (simp add: get_instance_miss_fst [OF inv1 fresh1])
    have ln: "length (AList.delete (t, p) (instances m)) =
            length (removeAll (t, p) (map fst (instances m)))"
      by (simp add: AList.delete_keys [symmetric])
    show ?thesis
      using nl by (simp add: g get_instance_miss_ok(2) [OF inv1 fresh1 b] lru_touch_def
          lru_evict_def dict_keys_def map_tl st AList.delete_keys ln)
  qed
qed

lemma get_instance_keys_fail:
  assumes inv: "cache_inv m" and fail: "fst (get_instance e m t p) = Inl ex"
  shows "dict_keys (instances (snd (get_instance e m t p))) =
           removeAll (t, p) (dict_keys (instances m))"
    and "\<not> live_hit e m (t, p)"
proof -
  have "dict_keys (instances (snd (get_instance e m t p))) =
           removeAll (t, p) (dict_keys (instances m)) \<and> \<not> live_hit e m (t, p)"
  proof (cases "dict_contains (t, p) (instances m)")
    case False
    then have nl: "\<not> live_hit e m (t, p)" by (simp add: live_hit_def)
    from False have g: "get_instance e m t p = get_instance_miss e m t p"
      by (rule get_instance_absent)
    from False have ra: "removeAll (t, p) (dict_keys (instances m)) = dict_keys (instances m)"
      by (simp add: dict_contains_def)
    from fail g have b: "build_instance e m t p = Inl ex"
      by (simp add: get_instance_miss_fst [OF inv False])
    show ?thesis using nl by (simp add: g get_instance_miss_fail [OF b] ra)
  next
    case True
    then obtain old where old: "dict_get (instances m) (t, p) = Some old"
      using dict_get_None_iff [of "instances m" "(t, p)"] by auto
    show ?thesis
    proof (cases "is_expired m (t, p) (now_check e)")
      case False
      with True have lh: "live_hit e m (t, p)" by (simp add: live_hit_def)
      with fail show ?thesis
        by (simp add: get_instance_live [OF lh] get_instance_hit_eq [OF inv old])
    next
      case exp: True
      then have nl: "\<not> live_hit e m (t, p)" by (simp add: live_hit_def)
      let ?m1 = "snd (remove_instance m (t, p))"
      note inv1 = remove_instance_inv [OF inv, of "(t, p)"]
      note fresh1 = removed_not_contained [OF inv, of "(t, p)"]
      note st = remove_instance_state [OF inv, of "(t, p)"]
      have g: "get_instance e m t p = get_instance_miss e ?m1 t p"
        by (rule get_instance_expired [OF inv True exp])
      from fail g have b: "build_instance e ?m1 t p = Inl ex"
        by (simp add: get_instance_miss_fst [OF inv1 fresh1])
      show ?thesis
        using nl by (simp add: g get_instance_miss_fail [OF b] st dict_keys_def AList.delete_keys)
    qed
  qed
  then show "dict_keys (instances (snd (get_instance e m t p))) =
           removeAll (t, p) (dict_keys (instances m))"
    and "\<not> live_hit e m (t, p)" by simp_all
qed

lemma get_instance_max_instances:
  assumes inv: "cache_inv m"
  shows "max_instances (snd (get_instance e m t p)) = max_instances m"
proof (cases "dict_contains (t, p) (instances m)")
  case False
  note g = get_instance_absent [OF False]
  show ?thesis
  proof (cases "build_instance e m t p")
    case (Inl ex) then show ?thesis by (simp add: g get_instance_miss_fail)
  next
    case (Inr inst) then show ?thesis by (simp add: g get_instance_miss_ok(4) [OF inv False])
  qed
next
  case True
  then obtain old where old: "dict_get (instances m) (t, p) = Some old"
    using dict_get_None_iff [of "instances m" "(t, p)"] by auto
  show ?thesis
  proof (cases "is_expired m (t, p) (now_check e)")
    case False
    with True have lh: "live_hit e m (t, p)" by (simp add: live_hit_def)
    show ?thesis by (simp add: get_instance_live [OF lh] get_instance_hit_eq [OF inv old])
  next
    case exp: True
    let ?m1 = "snd (remove_instance m (t, p))"
    note inv1 = remove_instance_inv [OF inv, of "(t, p)"]
    note fresh1 = removed_not_contained [OF inv, of "(t, p)"]
    note st = remove_instance_state [OF inv, of "(t, p)"]
    note g = get_instance_expired [OF inv True exp]
    show ?thesis
    proof (cases "build_instance e ?m1 t p")
      case (Inl ex) then show ?thesis by (simp add: g get_instance_miss_fail st)
    next
      case (Inr inst) then show ?thesis
        by (simp add: g get_instance_miss_ok(4) [OF inv1 fresh1] st)
    qed
  qed
qed

lemma length_lru_touch:
  "distinct ks \<Longrightarrow> length (lru_touch k ks) = (if k \<in> set ks then length ks else length ks + 1)"
  using length_pos_if_in_set [of k ks]
  by (auto simp: lru_touch_def distinct_remove1_removeAll [symmetric] length_remove1)

lemma get_instance_count:
  assumes inv: "cache_inv m" and le: "int (length (instances m)) \<le> max_instances m"
  shows "int (length (instances (snd (get_instance e m t p)))) \<le> max_instances m"
proof -
  let ?ks = "dict_keys (instances m)"
  let ?ks' = "dict_keys (instances (snd (get_instance e m t p)))"
  have d: "distinct ?ks" using inv by (simp add: cache_inv_def)
  have len: "length ?ks = length (instances m)" by (simp add: dict_keys_def)
  have "int (length ?ks') \<le> max_instances m"
  proof (cases "fst (get_instance e m t p)")
    case (Inl ex)
    have "length (removeAll (t, p) ?ks) \<le> length ?ks" by (rule length_removeAll_less_eq)
    with le len show ?thesis by (simp add: get_instance_keys_fail(1) [OF inv Inl])
  next
    case (Inr inst)
    show ?thesis
    proof (cases "live_hit e m (t, p)")
      case True
      then have "(t, p) \<in> set ?ks" by (simp add: live_hit_def dict_contains_def)
      with True le len show ?thesis
        by (simp add: get_instance_keys_ok [OF inv Inr] length_lru_touch [OF d])
    next
      case False
      with le len show ?thesis
        by (simp add: get_instance_keys_ok [OF inv Inr] length_lru_touch [OF d] lru_evict_def)
    qed
  qed
  then show ?thesis by (simp add: dict_keys_def)
qed

lemma remove_instances_state:
  assumes "cache_inv m"
  shows "fst (remove_instances m ks) = Inr () \<and>
         instances (snd (remove_instances m ks)) =
           filter (\<lambda>(k, v). k \<notin> set ks) (instances m) \<and>
         last_access (snd (remove_instances m ks)) =
           filter (\<lambda>(k, v). k \<notin> set ks) (last_access m) \<and>
         max_instances (snd (remove_instances m ks)) = max_instances m \<and>
         ttl (snd (remove_instances m ks)) = ttl m \<and>
         cache_inv (snd (remove_instances m ks))"
  using assms
proof (induction ks arbitrary: m)
  case Nil
  then show ?case by simp
next
  case (Cons k ks)
  let ?m1 = "snd (remove_instance m k)"
  note st = remove_instance_state [OF Cons.prems, of k]
  obtain r m1 where rm: "remove_instance m k = (r, m1)" by (cases "remove_instance m k")
  with st(1) have "r = Inr ()" by simp
  with rm have step: "remove_instances m (k # ks) = remove_instances ?m1 ks"
    by simp
  have f: "\<And>(d :: (cache_key \<times> 'a) list).
             filter (\<lambda>(k', v). k' \<notin> set ks) (AList.delete k d) =
             filter (\<lambda>(k', v). k' \<notin> set (k # ks)) d"
    by (auto simp: AList.delete_eq intro: filter_cong)
  from Cons.IH [OF remove_instance_inv [OF Cons.prems, of k]]
  show ?case by (simp only: step st f) 
qed

lemma cleanup_expired_sweeps:
  assumes "cache_inv m"
  shows "fst (cleanup_expired m now) = Inr ()"
    and "\<forall>(k, la) \<in> set (last_access (snd (cleanup_expired m now))). \<not> now - la > ttl m"
    and "cache_inv (snd (cleanup_expired m now))"
    and "\<forall>k \<in> set (dict_keys (instances (snd (cleanup_expired m now)))).
           \<not> is_expired (snd (cleanup_expired m now)) k now"
proof -
  note st = remove_instances_state [OF assms, of "expired_keys m now"]
  show "fst (cleanup_expired m now) = Inr ()" using st by (simp add: cleanup_expired_def)
  show inv': "cache_inv (snd (cleanup_expired m now))" using st by (simp add: cleanup_expired_def)
  show la: "\<forall>(k, la) \<in> set (last_access (snd (cleanup_expired m now))). \<not> now - la > ttl m"
    using st by (force simp: cleanup_expired_def expired_keys_def)
  show "\<forall>k \<in> set (dict_keys (instances (snd (cleanup_expired m now)))).
           \<not> is_expired (snd (cleanup_expired m now)) k now"
  proof
    fix k assume "k \<in> set (dict_keys (instances (snd (cleanup_expired m now))))"
    have t: "ttl (snd (cleanup_expired m now)) = ttl m" using st by (simp add: cleanup_expired_def)
    show "\<not> is_expired (snd (cleanup_expired m now)) k now"
    proof (cases "dict_get (last_access (snd (cleanup_expired m now))) k")
      case None
      then show ?thesis by (simp add: is_expired_def)
    next
      case (Some la)
      then have "(k, la) \<in> set (last_access (snd (cleanup_expired m now)))"
        by (simp add: dict_get_def map_of_SomeD)
      with la have "\<not> now - la > ttl m" by blast
      with Some t show ?thesis by (simp add: is_expired_def)
    qed
  qed
qed

lemma shutdown_state:
  assumes "cache_inv m"
  shows "fst (shutdown m) = Inr ()" and "instances (snd (shutdown m)) = []"
    and "last_access (snd (shutdown m)) = []" and "cache_inv (snd (shutdown m))"
    and "max_instances (snd (shutdown m)) = max_instances m"
proof -
  note st = remove_instances_state [OF assms, of "dict_keys (instances m)"]
  show "fst (shutdown m) = Inr ()" using st by (simp add: shutdown_def)
  show "cache_inv (snd (shutdown m))" using st by (simp add: shutdown_def)
  show "max_instances (snd (shutdown m)) = max_instances m" using st by (simp add: shutdown_def)
  have "filter (\<lambda>(k, v). k \<notin> set (dict_keys (instances m))) (instances m) = []"
    by (force simp: filter_empty_conv dict_keys_def)
  then show "instances (snd (shutdown m)) = []" using st by (simp add: shutdown_def)
  have "filter (\<lambda>(k, v). k \<notin> set (dict_keys (instances m))) (last_access m) = []"
    using assms by (force simp: filter_empty_conv cache_inv_def dict_keys_def)
  then show "last_access (snd (shutdown m)) = []" using st by (simp add: shutdown_def)
qed

lemma call_step_inv:
  assumes "cache_inv m"
  shows "cache_inv (call_step m c)"
proof (cases c)
  case (GetInstance e t p)
  then show ?thesis by (simp add: get_instance_inv [OF assms])
next
  case (CleanupExpired now)
  then show ?thesis by (simp add: cleanup_expired_sweeps(3) [OF assms])
next
  case Shutdown
  then show ?thesis by (simp add: shutdown_state(4) [OF assms])
qed

lemma run_calls_inv: "cache_inv m \<Longrightarrow> cache_inv (run_calls m cs)"
  unfolding run_calls_def
  by (induction cs arbitrary: m) (simp_all add: call_step_inv)

lemma manager_init_inv: "cache_inv (manager_init bc svc n mins)"
  by (simp add: cache_inv_def manager_init_def dict_keys_def)

lemma call_step_count:
  assumes "cache_inv m" and "int (length (instances m)) \<le> max_instances m"
  shows "int (length (instances (call_step m c))) \<le> max_instances (call_step m c)
         \<and> max_instances (call_step m c) = max_instances m"
proof (cases c)
  case (GetInstance e t p)
  then show ?thesis
    by (simp add: get_instance_count [OF assms] get_instance_max_instances [OF assms(1)])
next
  case (CleanupExpired now)
  note st = remove_instances_state [OF assms(1), of "expired_keys m now"]
  have "length (instances (snd (cleanup_expired m now))) \<le> length (instances m)"
    using st by (simp add: cleanup_expired_def)
  moreover have "max_instances (snd (cleanup_expired m now)) = max_instances m"
    using st by (simp add: cleanup_expired_def)
  ultimately show ?thesis using CleanupExpired assms(2) by simp
next
  case Shutdown
  note st = remove_instances_state [OF assms(1), of "dict_keys (instances m)"]
  have "length (instances (snd (shutdown m))) \<le> length (instances m)"
    using st by (simp add: shutdown_def)
  moreover have "max_instances (snd (shutdown m)) = max_instances m"
    using st by (simp add: shutdown_def)
  ultimately show ?thesis using Shutdown assms(2) by simp
qed

lemma run_calls_count:
  "cache_inv m \<Longrightarrow> int (length (instances m)) \<le> max_instances m \<Longrightarrow>
   int (length (instances (run_calls m cs))) \<le> max_instances m"
  unfolding run_calls_def
proof (induction cs arbitrary: m)
  case Nil
  then show ?case by simp
next
  case (Cons c cs)
  from call_step_count [OF Cons.prems, of c] call_step_inv [OF Cons.prems(1), of c]
    Cons.IH [of "call_step m c"]
  show ?case by simp
qed

text \<open>
  Claim C1.  The keys of the index, front to back, are the recency order of the completed
  accesses: \<open>lru_touch\<close> moves the key of a call to the back, and the front is the
  least recently used entry.  A call of \<open>get_instance\<close> that returns an instance and
  is a hit on a live entry evicts nothing; one that inserts (a miss, or a hit on an
  expired entry) evicts nothing while the count after the insertion is at most
  \<open>max_instances\<close>, and otherwise drops exactly the front entry of the order, which need
  not be the inserted one.  A call that raises evicts nothing either (it leaves the
  index without the key it was called for).  So from a count of at most
  \<open>max_instances\<close>, and from a new manager with a capacity that is not negative, the
  count is at most \<open>max_instances\<close> after every sequence of calls.
\<close>

theorem get_instance_capacity_lru:
  assumes "cache_inv m"
  shows "(\<forall>inst. fst (get_instance e m t p) = Inr inst \<longrightarrow>
            dict_keys (instances (snd (get_instance e m t p))) =
              (if live_hit e m (t, p) \<or>
                  int (length (lru_touch (t, p) (dict_keys (instances m)))) \<le> max_instances m
               then lru_touch (t, p) (dict_keys (instances m))
               else tl (lru_touch (t, p) (dict_keys (instances m))))) \<and>
         (\<forall>ex. fst (get_instance e m t p) = Inl ex \<longrightarrow>
            dict_keys (instances (snd (get_instance e m t p))) =
              removeAll (t, p) (dict_keys (instances m))) \<and>
         (int (length (instances m)) \<le> max_instances m \<longrightarrow>
            (\<forall>cs. int (length (instances (run_calls m cs))) \<le> max_instances m)) \<and>
         (0 \<le> cap \<longrightarrow>
            (\<forall>cs. int (length (instances (run_calls (manager_init bc svc cap mins) cs))) \<le> cap))"
proof (intro conjI allI impI)
  fix inst assume ok: "fst (get_instance e m t p) = Inr inst"
  show "dict_keys (instances (snd (get_instance e m t p))) =
              (if live_hit e m (t, p) \<or>
                  int (length (lru_touch (t, p) (dict_keys (instances m)))) \<le> max_instances m
               then lru_touch (t, p) (dict_keys (instances m))
               else tl (lru_touch (t, p) (dict_keys (instances m))))"
    by (simp add: get_instance_keys_ok [OF assms ok] lru_evict_def)
next
  fix ex assume "fst (get_instance e m t p) = Inl ex"
  then show "dict_keys (instances (snd (get_instance e m t p))) =
              removeAll (t, p) (dict_keys (instances m))"
    by (rule get_instance_keys_fail(1) [OF assms])
next
  fix cs assume "int (length (instances m)) \<le> max_instances m"
  with assms show "int (length (instances (run_calls m cs))) \<le> max_instances m"
    by (rule run_calls_count)
next
  fix cs assume "0 \<le> cap"
  then have "int (length (instances (manager_init bc svc cap mins))) \<le>
               max_instances (manager_init bc svc cap mins)"
    by (simp add: manager_init_def)
  from run_calls_count [OF manager_init_inv this, of cs]
  show "int (length (instances (run_calls (manager_init bc svc cap mins) cs))) \<le> cap"
    by (simp add: manager_init_def)
qed

theorem get_instance_capacity_lru_witness:
  "cache_inv example_manager \<and>
   int (length (instances example_manager)) \<le> max_instances example_manager \<and>
   lru_touch (''acme'', ''c'') (dict_keys (instances example_manager)) =
     [(''acme'', ''a''), (''acme'', ''b''), (''acme'', ''c'')] \<and>
   dict_keys (instances (snd (get_instance (example_env 60) example_manager ''acme'' ''c''))) =
     [(''acme'', ''b''), (''acme'', ''c'')] \<and>
   dict_keys (instances (snd (get_instance (example_env 60) example_manager ''acme'' ''b''))) =
     [(''acme'', ''a''), (''acme'', ''b'')] \<and>
   int (length (instances (run_calls example_manager
          [GetInstance (example_env 60) ''acme'' ''c'', GetInstance (example_env 70) ''acme'' ''d'']))) \<le> 2"
proof -
  have inv: "cache_inv example_manager"
    by (simp add: cache_inv_def example_manager_def dict_keys_def)
  have le: "int (length (instances example_manager)) \<le> max_instances example_manager"
    by (simp add: example_manager_def)
  have mx: "max_instances example_manager = 2" by (simp add: example_manager_def)
  have tc: "lru_touch (''acme'', ''c'') (dict_keys (instances example_manager)) =
     [(''acme'', ''a''), (''acme'', ''b''), (''acme'', ''c'')]"
    by (simp add: lru_touch_def example_manager_def dict_keys_def)
  have tb: "lru_touch (''acme'', ''b'') (dict_keys (instances example_manager)) =
     [(''acme'', ''a''), (''acme'', ''b'')]"
    by (simp add: lru_touch_def example_manager_def dict_keys_def)
  have "\<not> isl (fst (get_instance (example_env 60) example_manager ''acme'' ''c''))"
    by code_simp
  then have okc: "\<exists>inst. fst (get_instance (example_env 60) example_manager ''acme'' ''c'') = Inr inst"
    by (cases "fst (get_instance (example_env 60) example_manager ''acme'' ''c'')") simp_all
  have "\<not> isl (fst (get_instance (example_env 60) example_manager ''acme'' ''b''))"
    by code_simp
  then have okb: "\<exists>inst. fst (get_instance (example_env 60) example_manager ''acme'' ''b'') = Inr inst"
    by (cases "fst (get_instance (example_env 60) example_manager ''acme'' ''b'')") simp_all
  have nl: "\<not> live_hit (example_env 60) example_manager (''acme'', ''c'')"
    by (simp add: live_hit_def dict_contains_def dict_keys_def example_manager_def)
  note c = get_instance_capacity_lru [OF inv, of "example_env 60" "''acme''" "''c''"]
  note b = get_instance_capacity_lru [OF inv, of "example_env 60" "''acme''" "''b''"]
  from c okc nl tc mx
  have kc: "dict_keys (instances (snd (get_instance (example_env 60) example_manager ''acme'' ''c''))) =
     [(''acme'', ''b''), (''acme'', ''c'')]" by auto
  from b okb tb mx
  have kb: "dict_keys (instances (snd (get_instance (example_env 60) example_manager ''acme'' ''b''))) =
     [(''acme'', ''a''), (''acme'', ''b'')]" by auto
  from c le mx have "int (length (instances (run_calls example_manager
          [GetInstance (example_env 60) ''acme'' ''c'', GetInstance (example_env 70) ''acme'' ''d'']))) \<le> 2"
    by simp
  with inv le tc kc kb show ?thesis by simp
qed

lemma length_delete_present:
  assumes "distinct (map fst d)" and "k \<in> set (map fst d)"
  shows "length (AList.delete k d) + 1 = length d"
proof -
  have "length (AList.delete k d) = length (removeAll k (map fst d))"
    by (simp add: AList.delete_keys [symmetric])
  also have "\<dots> = length (remove1 k (map fst d))"
    using assms(1) by (simp add: distinct_remove1_removeAll)
  also have "\<dots> = length d - 1"
    using assms(2) by (simp add: length_remove1)
  finally show ?thesis using assms(2) length_pos_if_in_set [of k "map fst d"] by simp
qed

lemma expired_entry_path:
  assumes inv: "cache_inv m"
    and old: "dict_get (instances m) (t, p) = Some old"
    and la: "dict_get (last_access m) (t, p) = Some la"
    and idle: "now_check e - la > ttl m"
  shows "remove_instance m (t, p) =
           (Inr (), m\<lparr>trace := trace m @ finalize_storages (t, p) old storage_order,
                      instances := AList.delete (t, p) (instances m),
                      last_access := AList.delete (t, p) (last_access m)\<rparr>)"
    and "get_instance e m t p = get_instance_miss e (snd (remove_instance m (t, p))) t p"
    and "get_instance e m t p = get_instance e (snd (remove_instance m (t, p))) t p"
    and "fst (get_instance e m t p) = build_instance e m t p"
proof -
  from old have c: "dict_contains (t, p) (instances m)"
    using dict_get_None_iff [of "instances m" "(t, p)"] by simp
  from la idle have ex: "is_expired m (t, p) (now_check e)" by (simp add: is_expired_def)
  let ?m1 = "snd (remove_instance m (t, p))"
  note inv1 = remove_instance_inv [OF inv, of "(t, p)"]
  note fresh1 = removed_not_contained [OF inv, of "(t, p)"]
  note st = remove_instance_state [OF inv, of "(t, p)"]
  show "remove_instance m (t, p) =
           (Inr (), m\<lparr>trace := trace m @ finalize_storages (t, p) old storage_order,
                      instances := AList.delete (t, p) (instances m),
                      last_access := AList.delete (t, p) (last_access m)\<rparr>)"
    by (rule remove_instance_present [OF inv old])
  show g: "get_instance e m t p = get_instance_miss e ?m1 t p"
    by (rule get_instance_expired [OF inv c ex])
  show "get_instance e m t p = get_instance e ?m1 t p"
    by (simp add: g get_instance_absent [OF fresh1])
  show "fst (get_instance e m t p) = build_instance e m t p"
    by (simp add: g get_instance_miss_fst [OF inv1 fresh1] build_instance_cong [OF st(7) st(6)])
qed

lemma expired_entry_rebuilt:
  assumes inv: "cache_inv m"
    and old: "dict_get (instances m) (t, p) = Some old"
    and la: "dict_get (last_access m) (t, p) = Some la"
    and idle: "now_check e - la > ttl m"
    and build: "build_instance e m t p = Inr inst"
    and cap: "int (length (instances m)) \<le> max_instances m"
  shows "dict_get (instances (snd (get_instance e m t p))) (t, p) = Some inst"
    and "dict_get (last_access (snd (get_instance e m t p))) (t, p) = Some (now_touch e)"
proof -
  from old have c: "dict_contains (t, p) (instances m)"
    using dict_get_None_iff [of "instances m" "(t, p)"] by simp
  let ?m1 = "snd (remove_instance m (t, p))"
  note inv1 = remove_instance_inv [OF inv, of "(t, p)"]
  note fresh1 = removed_not_contained [OF inv, of "(t, p)"]
  note st = remove_instance_state [OF inv, of "(t, p)"]
  note g = expired_entry_path(2) [OF inv old la idle]
  have b1: "build_instance e ?m1 t p = Inr inst"
    using build by (simp add: build_instance_cong [OF st(7) st(6)])
  from inv c have "length (AList.delete (t, p) (instances m)) + 1 = length (instances m)"
    by (intro length_delete_present) (simp_all add: cache_inv_def dict_contains_def dict_keys_def)
  with cap have nover: "\<not> int (length (instances ?m1)) + 1 > max_instances ?m1"
    by (simp add: st)
  note ok = get_instance_miss_ok [OF inv1 fresh1 b1]
  from fresh1 have n1: "map_of (instances ?m1) (t, p) = None"
    using dict_get_None_iff [of "instances ?m1" "(t, p)"] by (simp add: dict_get_def)
  from fresh1 inv1 have "\<not> dict_contains (t, p) (last_access ?m1)"
    by (simp add: cache_inv_def dict_contains_def)
  then have n2: "map_of (last_access ?m1) (t, p) = None"
    using dict_get_None_iff [of "last_access ?m1" "(t, p)"] by (simp add: dict_get_def)
  show "dict_get (instances (snd (get_instance e m t p))) (t, p) = Some inst"
    using nover n1 by (simp add: g ok(2) dict_get_def map_add_def)
  show "dict_get (last_access (snd (get_instance e m t p))) (t, p) = Some (now_touch e)"
    using nover n2 by (simp add: g ok(3) dict_get_def map_add_def)
qed

lemma build_instance_no_service:
  assumes "\<not> llm_config_service m"
  shows "build_instance e m t p =
           new_LightRAG e \<lparr>base = base_config m, llm_model_func = None, embedding_func = None\<rparr> t p"
  using assms by (simp add: build_instance_def fetch_llm_config_def make_instance_config_def)

lemma build_instance_with_config:
  assumes "llm_config_service m" and "get_default_config e p = Inr (Some cfg)"
    and "dict_contains ''provider'' cfg" and "dict_contains ''model_name'' cfg"
    and "create_llm_from_config e cfg = Inr f" and "create_embedding_from_config e cfg = Inr g"
  shows "build_instance e m t p =
           new_LightRAG e \<lparr>base = base_config m, llm_model_func = Some f, embedding_func = g\<rparr> t p"
proof -
  from assms(3) obtain c cs where cfg: "cfg = c # cs"
    by (cases cfg) (simp_all add: dict_contains_def dict_keys_def)
  have f: "fetch_llm_config e m p = Inr (Some cfg)"
    using assms(1-4) by (simp add: fetch_llm_config_def cfg)
  have "make_instance_config e m (Some cfg) =
          Inr \<lparr>base = base_config m, llm_model_func = Some f, embedding_func = g\<rparr>"
    using assms(5,6) by (cases g) (simp_all add: make_instance_config_def cfg)
  with f show ?thesis by (simp add: build_instance_def)
qed

lemma build_instance_missing_config:
  assumes "llm_config_service m" and "get_default_config e p = Inr None"
  shows "build_instance e m t p =
           Inl (ValueError (''Failed to fetch LLM configuration: '' @
                  ''No default LLM configuration found for project '' @ p @
                  ''. Please create an LLM configuration via /llm-configs endpoint.''))"
  using assms by (simp add: build_instance_def fetch_llm_config_def)

lemma build_instance_service_raises:
  assumes "llm_config_service m" and "get_default_config e p = Inl ex"
  shows "build_instance e m t p =
           Inl (ValueError (''Failed to fetch LLM configuration: '' @ str_of_exn ex))"
  using assms by (simp add: build_instance_def fetch_llm_config_def)

lemma get_instance_fail_absent:
  assumes "cache_inv m" and "fst (get_instance e m t p) = Inl ex"
  shows "\<not> dict_contains (t, p) (instances (snd (get_instance e m t p)))"
  by (simp add: dict_contains_def get_instance_keys_fail(1) [OF assms])

text \<open>
  Claim C5.  An entry whose last access lies more than \<open>ttl\<close> before the clock reading
  of the next \<open>get_instance\<close> for its key is torn down: its storages are finalized in
  order and it leaves the index and the map of stamps.  The call then is the call on the
  cache without the entry, that is the path of a miss, and what it returns is what the
  \<open>LightRAG\<close> constructor makes in this call for the tenant and the project: from the
  base configuration alone when no configuration service is set, and from the base
  configuration with the functions the factories make of the project's default
  configuration when one is.  The instance returned is the one then cached under the key,
  with the new stamp, when the capacity allows.  When the service has no configuration
  for the project, or raises, the call raises \<open>ValueError\<close>, and after a call that raises
  the key is absent.  After a sweep by \<open>cleanup_expired\<close>, which returns without
  raising, the entries that remain are those not idle for more than \<open>ttl\<close> at the
  sweep's clock reading.
\<close>

theorem expired_entry_torn_down_and_rebuilt:
  assumes "cache_inv m"
  shows "(\<forall>old la. dict_get (instances m) (t, p) = Some old \<and>
                   dict_get (last_access m) (t, p) = Some la \<and>
                   now_check e - la > ttl m \<longrightarrow>
            remove_instance m (t, p) =
              (Inr (), m\<lparr>trace := trace m @ finalize_storages (t, p) old storage_order,
                         instances := AList.delete (t, p) (instances m),
                         last_access := AList.delete (t, p) (last_access m)\<rparr>) \<and>
            \<not> dict_contains (t, p) (instances (snd (remove_instance m (t, p)))) \<and>
            get_instance e m t p = get_instance e (snd (remove_instance m (t, p))) t p \<and>
            get_instance e m t p = get_instance_miss e (snd (remove_instance m (t, p))) t p \<and>
            fst (get_instance e m t p) = build_instance e m t p \<and>
            (\<not> llm_config_service m \<longrightarrow>
               fst (get_instance e m t p) =
                 new_LightRAG e
                   \<lparr>base = base_config m, llm_model_func = None, embedding_func = None\<rparr> t p) \<and>
            (\<forall>cfg f g. llm_config_service m \<and> get_default_config e p = Inr (Some cfg) \<and>
                    dict_contains ''provider'' cfg \<and> dict_contains ''model_name'' cfg \<and>
                    create_llm_from_config e cfg = Inr f \<and>
                    create_embedding_from_config e cfg = Inr g \<longrightarrow>
               fst (get_instance e m t p) =
                 new_LightRAG e
                   \<lparr>base = base_config m, llm_model_func = Some f, embedding_func = g\<rparr> t p) \<and>
            (llm_config_service m \<and> get_default_config e p = Inr None \<longrightarrow>
               fst (get_instance e m t p) =
                 Inl (ValueError (''Failed to fetch LLM configuration: '' @
                        ''No default LLM configuration found for project '' @ p @
                        ''. Please create an LLM configuration via /llm-configs endpoint.''))) \<and>
            (\<forall>ex. llm_config_service m \<and> get_default_config e p = Inl ex \<longrightarrow>
               fst (get_instance e m t p) =
                 Inl (ValueError (''Failed to fetch LLM configuration: '' @ str_of_exn ex))) \<and>
            (\<forall>ex. fst (get_instance e m t p) = Inl ex \<longrightarrow>
               \<not> dict_contains (t, p) (instances (snd (get_instance e m t p)))) \<and>
            (\<forall>inst. fst (get_instance e m t p) = Inr inst \<and>
                    int (length (instances m)) \<le> max_instances m \<longrightarrow>
               dict_get (instances (snd (get_instance e m t p))) (t, p) = Some inst \<and>
               dict_get (last_access (snd (get_instance e m t p))) (t, p) = Some (now_touch e))) \<and>
         fst (cleanup_expired m now) = Inr () \<and>
         instances (snd (cleanup_expired m now)) =
           filter (\<lambda>(k, v). k \<notin> set (expired_keys m now)) (instances m) \<and>
         (\<forall>k \<in> set (dict_keys (instances (snd (cleanup_expired m now)))).
            \<not> is_expired (snd (cleanup_expired m now)) k now) \<and>
         (\<forall>(k, la) \<in> set (last_access (snd (cleanup_expired m now))). \<not> now - la > ttl m)"
proof (intro conjI allI impI; (elim conjE)?)
  fix old la
  assume a: "dict_get (instances m) (t, p) = Some old"
    "dict_get (last_access m) (t, p) = Some la" "now_check e - la > ttl m"
  note pth = expired_entry_path [OF assms a]
  show "remove_instance m (t, p) =
              (Inr (), m\<lparr>trace := trace m @ finalize_storages (t, p) old storage_order,
                         instances := AList.delete (t, p) (instances m),
                         last_access := AList.delete (t, p) (last_access m)\<rparr>)"
    by (rule pth(1))
  show "\<not> dict_contains (t, p) (instances (snd (remove_instance m (t, p))))"
    by (rule removed_not_contained [OF assms])
  show "get_instance e m t p = get_instance e (snd (remove_instance m (t, p))) t p"
    by (rule pth(3))
  show "get_instance e m t p = get_instance_miss e (snd (remove_instance m (t, p))) t p"
    by (rule pth(2))
  show "fst (get_instance e m t p) = build_instance e m t p"
    by (rule pth(4))
  show "fst (get_instance e m t p) =
          new_LightRAG e \<lparr>base = base_config m, llm_model_func = None, embedding_func = None\<rparr> t p"
    if "\<not> llm_config_service m"
    using that by (simp add: pth(4) build_instance_no_service)
  show "fst (get_instance e m t p) =
          new_LightRAG e \<lparr>base = base_config m, llm_model_func = Some f, embedding_func = g\<rparr> t p"
    if "llm_config_service m" "get_default_config e p = Inr (Some cfg)"
      "dict_contains ''provider'' cfg" "dict_contains ''model_name'' cfg"
      "create_llm_from_config e cfg = Inr f" "create_embedding_from_config e cfg = Inr g"
    for cfg f g
    by (simp only: pth(4) build_instance_with_config [OF that])
  show "fst (get_instance e m t p) =
          Inl (ValueError (''Failed to fetch LLM configuration: '' @
                 ''No default LLM configuration found for project '' @ p @
                 ''. Please create an LLM configuration via /llm-configs endpoint.''))"
    if "llm_config_service m" "get_default_config e p = Inr None"
    by (simp only: pth(4) build_instance_missing_config [OF that])
  show "fst (get_instance e m t p) =
          Inl (ValueError (''Failed to fetch LLM configuration: '' @ str_of_exn ex))"
    if "llm_config_service m" "get_default_config e p = Inl ex" for ex
    by (simp only: pth(4) build_instance_service_raises [OF that])
  show "\<not> dict_contains (t, p) (instances (snd (get_instance e m t p)))"
    if "fst (get_instance e m t p) = Inl ex" for ex
    by (rule get_instance_fail_absent [OF assms that])
  show "dict_get (instances (snd (get_instance e m t p))) (t, p) = Some inst"
    if "fst (get_instance e m t p) = Inr inst" "int (length (instances m)) \<le> max_instances m"
    for inst
  proof -
    from that(1) have "build_instance e m t p = Inr inst" by (simp add: pth(4))
    from expired_entry_rebuilt(1) [OF assms a this that(2)] show ?thesis .
  qed
  show "dict_get (last_access (snd (get_instance e m t p))) (t, p) = Some (now_touch e)"
    if "fst (get_instance e m t p) = Inr inst" "int (length (instances m)) \<le> max_instances m"
    for inst
  proof -
    from that(1) have "build_instance e m t p = Inr inst" by (simp add: pth(4))
    from expired_entry_rebuilt(2) [OF assms a this that(2)] show ?thesis .
  qed
next
  show "fst (cleanup_expired m now) = Inr ()"
    by (rule cleanup_expired_sweeps(1) [OF assms])
  show "instances (snd (cleanup_expired m now)) =
           filter (\<lambda>(k, v). k \<notin> set (expired_keys m now)) (instances m)"
    using remove_instances_state [OF assms, of "expired_keys m now"]
    by (simp add: cleanup_expired_def)
  show "\<forall>k \<in> set (dict_keys (instances (snd (cleanup_expired m now)))).
            \<not> is_expired (snd (cleanup_expired m now)) k now"
    by (rule cleanup_expired_sweeps(4) [OF assms])
  show "\<forall>(k, la) \<in> set (last_access (snd (cleanup_expired m now))). \<not> now - la > ttl m"
    by (rule cleanup_expired_sweeps(2) [OF assms])
qed

theorem expired_entry_torn_down_and_rebuilt_witness:
  "cache_inv example_manager \<and>
   dict_get (instances example_manager) (''acme'', ''a'') =
     Some (example_rag ''acme'' ''a'' text_chunks_broken) \<and>
   dict_get (last_access example_manager) (''acme'', ''a'') = Some 0 \<and>
   now_check (example_env 160) - 0 > ttl example_manager \<and>
   trace (snd (remove_instance example_manager (''acme'', ''a''))) =
     [Finalized (''acme'', ''a'') llm_response_cache, FinalizeWarning (''acme'', ''a'') ''closed''] \<and>
   fst (get_instance (example_env 160) example_manager ''acme'' ''a'') =
     Inr \<lparr>rag_config = \<lparr>base = [(''working_dir'', ''/data'')], llm_model_func = None,
                         embedding_func = None\<rparr>,
          rag_tenant_id = ''acme'', rag_project_id = ''a'', storages = all_ok\<rparr> \<and>
   dict_get (instances (snd (get_instance (example_env 160) example_manager ''acme'' ''a'')))
     (''acme'', ''a'') =
     Some \<lparr>rag_config = \<lparr>base = [(''working_dir'', ''/data'')], llm_model_func = None,
                           embedding_func = None\<rparr>,
           rag_tenant_id = ''acme'', rag_project_id = ''a'', storages = all_ok\<rparr> \<and>
   dict_get (last_access (snd (get_instance (example_env 160) example_manager ''acme'' ''a'')))
     (''acme'', ''a'') = Some 160 \<and>
   fst (get_instance (example_config_env 160) example_service_manager ''acme'' ''a'') =
     Inr \<lparr>rag_config = \<lparr>base = [(''working_dir'', ''/data'')], llm_model_func = Some ''llm-gpt'',
                         embedding_func = Some ''emb-gpt''\<rparr>,
          rag_tenant_id = ''acme'', rag_project_id = ''a'', storages = all_ok\<rparr> \<and>
   fst (get_instance (example_config_env 160) example_service_manager ''acme'' ''b'') =
     Inl (ValueError (''Failed to fetch LLM configuration: '' @
            ''No default LLM configuration found for project b'' @
            ''. Please create an LLM configuration via /llm-configs endpoint.'')) \<and>
   instances (snd (cleanup_expired example_manager 120)) =
     [((''acme'', ''b''), example_rag ''acme'' ''b'' all_ok)]"
proof -
  let ?new = "\<lparr>rag_config = \<lparr>base = [(''working_dir'', ''/data'')], llm_model_func = None,
                         embedding_func = None\<rparr>,
          rag_tenant_id = ''acme'', rag_project_id = ''a'', storages = all_ok\<rparr>"
  have inv: "cache_inv example_manager"
    by (simp add: cache_inv_def example_manager_def dict_keys_def)
  have old: "dict_get (instances example_manager) (''acme'', ''a'') =
     Some (example_rag ''acme'' ''a'' text_chunks_broken)"
    by (simp add: dict_get_def example_manager_def)
  have la: "dict_get (last_access example_manager) (''acme'', ''a'') = Some 0"
    by (simp add: dict_get_def example_manager_def)
  have idle: "now_check (example_env 160) - 0 > ttl example_manager"
    by (simp add: example_env_def example_manager_def)
  have ns: "\<not> llm_config_service example_manager" by (simp add: example_manager_def)
  have bc: "base_config example_manager = [(''working_dir'', ''/data'')]"
    by (simp add: example_manager_def)
  have nl: "new_LightRAG (example_env 160)
              \<lparr>base = [(''working_dir'', ''/data'')], llm_model_func = None, embedding_func = None\<rparr>
              ''acme'' ''a'' = Inr ?new"
    by (simp add: example_env_def)
  have cap: "int (length (instances example_manager)) \<le> max_instances example_manager"
    by (simp add: example_manager_def)
  have fin: "finalize_storages (''acme'', ''a'') (example_rag ''acme'' ''a'' text_chunks_broken)
               storage_order =
     [Finalized (''acme'', ''a'') llm_response_cache, FinalizeWarning (''acme'', ''a'') ''closed'']"
    by (simp add: storage_order_def example_rag_def text_chunks_broken_def)
  have ek: "expired_keys example_manager 120 = [(''acme'', ''a'')]"
    by (simp add: expired_keys_def example_manager_def)
  note th = expired_entry_torn_down_and_rebuilt [OF inv, of "''acme''" "''a''" "example_env 160" 120]
  note a = th [THEN conjunct1, rule_format, OF conjI [OF old conjI [OF la idle]]]
  have "trace (snd (remove_instance example_manager (''acme'', ''a''))) =
          trace example_manager @
          finalize_storages (''acme'', ''a'') (example_rag ''acme'' ''a'' text_chunks_broken)
            storage_order"
    by (simp add: a [THEN conjunct1])
  then have tr: "trace (snd (remove_instance example_manager (''acme'', ''a''))) =
     [Finalized (''acme'', ''a'') llm_response_cache, FinalizeWarning (''acme'', ''a'') ''closed'']"
    by (simp add: fin example_manager_def)
  note a5 = a [THEN conjunct2, THEN conjunct2, THEN conjunct2, THEN conjunct2, THEN conjunct2]
  from a5 [THEN conjunct1, THEN mp, OF ns]
  have ret: "fst (get_instance (example_env 160) example_manager ''acme'' ''a'') = Inr ?new"
    by (simp only: bc nl)
  note a10 = a5 [THEN conjunct2, THEN conjunct2, THEN conjunct2, THEN conjunct2, THEN conjunct2]
  from a10 [THEN spec, THEN mp, OF conjI [OF ret cap]]
  have cached: "dict_get (instances (snd (get_instance (example_env 160) example_manager ''acme'' ''a'')))
     (''acme'', ''a'') = Some ?new"
    and "dict_get (last_access (snd (get_instance (example_env 160) example_manager ''acme'' ''a'')))
     (''acme'', ''a'') = Some (now_touch (example_env 160))"
    by simp_all
  then have st: "dict_get (last_access (snd (get_instance (example_env 160) example_manager ''acme'' ''a'')))
     (''acme'', ''a'') = Some 160"
    by (simp add: example_env_def)
  from th have "instances (snd (cleanup_expired example_manager 120)) =
           filter (\<lambda>(k, v). k \<notin> set (expired_keys example_manager 120)) (instances example_manager)"
    by blast
  moreover have "instances example_manager =
     [((''acme'', ''a''), example_rag ''acme'' ''a'' text_chunks_broken),
      ((''acme'', ''b''), example_rag ''acme'' ''b'' all_ok)]"
    by (simp add: example_manager_def)
  ultimately have sw: "instances (snd (cleanup_expired example_manager 120)) =
     [((''acme'', ''b''), example_rag ''acme'' ''b'' all_ok)]"
    by (simp add: ek)
  have inv2: "cache_inv example_service_manager"
    by (simp add: cache_inv_def example_service_manager_def example_manager_def dict_keys_def)
  have old2: "dict_get (instances example_service_manager) (''acme'', ''a'') =
     Some (example_rag ''acme'' ''a'' text_chunks_broken)"
    by (simp add: dict_get_def example_service_manager_def example_manager_def)
  have la2: "dict_get (last_access example_service_manager) (''acme'', ''a'') = Some 0"
    by (simp add: dict_get_def example_service_manager_def example_manager_def)
  have idle2: "now_check (example_config_env 160) - 0 > ttl example_service_manager"
    by (simp add: example_config_env_def example_service_manager_def example_manager_def)
  have sv: "llm_config_service example_service_manager"
    by (simp add: example_service_manager_def)
  have bc2: "base_config example_service_manager = [(''working_dir'', ''/data'')]"
    by (simp add: example_service_manager_def example_manager_def)
  have gd: "get_default_config (example_config_env 160) ''a'' =
              Inr (Some [(''provider'', ''openai''), (''model_name'', ''gpt'')])"
    by (simp add: example_config_env_def)
  have pv: "dict_contains ''provider'' [(''provider'', ''openai''), (''model_name'', ''gpt'')]"
    and mn: "dict_contains ''model_name'' [(''provider'', ''openai''), (''model_name'', ''gpt'')]"
    by (simp_all add: dict_contains_def dict_keys_def)
  have cl: "create_llm_from_config (example_config_env 160)
              [(''provider'', ''openai''), (''model_name'', ''gpt'')] = Inr ''llm-gpt''"
    and ce: "create_embedding_from_config (example_config_env 160)
              [(''provider'', ''openai''), (''model_name'', ''gpt'')] = Inr (Some ''emb-gpt'')"
    by (simp_all add: example_config_env_def)
  have nl2: "new_LightRAG (example_config_env 160)
              \<lparr>base = [(''working_dir'', ''/data'')], llm_model_func = Some ''llm-gpt'',
                embedding_func = Some ''emb-gpt''\<rparr> ''acme'' ''a'' =
            Inr \<lparr>rag_config = \<lparr>base = [(''working_dir'', ''/data'')],
                                llm_model_func = Some ''llm-gpt'',
                                embedding_func = Some ''emb-gpt''\<rparr>,
                 rag_tenant_id = ''acme'', rag_project_id = ''a'', storages = all_ok\<rparr>"
    by (simp add: example_config_env_def)
  note th2 = expired_entry_torn_down_and_rebuilt [OF inv2, of "''acme''" "''a''"
      "example_config_env 160" 120]
  note b = th2 [THEN conjunct1, rule_format, OF conjI [OF old2 conjI [OF la2 idle2]]]
  note b6 = b [THEN conjunct2, THEN conjunct2, THEN conjunct2, THEN conjunct2, THEN conjunct2,
      THEN conjunct2]
  from b6 [THEN conjunct1, rule_format,
      OF conjI [OF sv conjI [OF gd conjI [OF pv conjI [OF mn conjI [OF cl ce]]]]]]
  have ret2: "fst (get_instance (example_config_env 160) example_service_manager ''acme'' ''a'') =
     Inr \<lparr>rag_config = \<lparr>base = [(''working_dir'', ''/data'')], llm_model_func = Some ''llm-gpt'',
                         embedding_func = Some ''emb-gpt''\<rparr>,
          rag_tenant_id = ''acme'', rag_project_id = ''a'', storages = all_ok\<rparr>"
    by (simp only: bc2 nl2)
  have old3: "dict_get (instances example_service_manager) (''acme'', ''b'') =
     Some (example_rag ''acme'' ''b'' all_ok)"
    by (simp add: dict_get_def example_service_manager_def example_manager_def)
  have la3: "dict_get (last_access example_service_manager) (''acme'', ''b'') = Some 50"
    by (simp add: dict_get_def example_service_manager_def example_manager_def)
  have idle3: "now_check (example_config_env 160) - 50 > ttl example_service_manager"
    by (simp add: example_config_env_def example_service_manager_def example_manager_def)
  have gd3: "get_default_config (example_config_env 160) ''b'' = Inr None"
    by (simp add: example_config_env_def)
  note th3 = expired_entry_torn_down_and_rebuilt [OF inv2, of "''acme''" "''b''"
      "example_config_env 160" 120]
  note c = th3 [THEN conjunct1, rule_format, OF conjI [OF old3 conjI [OF la3 idle3]]]
  note c7 = c [THEN conjunct2, THEN conjunct2, THEN conjunct2, THEN conjunct2, THEN conjunct2,
      THEN conjunct2, THEN conjunct2]
  from c7 [THEN conjunct1, THEN mp, OF conjI [OF sv gd3]]
  have ret3: "fst (get_instance (example_config_env 160) example_service_manager ''acme'' ''b'') =
     Inl (ValueError (''Failed to fetch LLM configuration: '' @
            ''No default LLM configuration found for project b'' @
            ''. Please create an LLM configuration via /llm-configs endpoint.''))"
    by simp
  show ?thesis
    by (intro conjI) (rule inv, rule old, rule la, rule idle, rule tr, rule ret, rule cached,
        rule st, rule ret2, rule ret3, rule sw)
qed

text \<open>
  Claim C10.  After \<open>get_instance\<close> (returning or raising), \<open>cleanup_expired\<close> and
  \<open>shutdown\<close>, and so after every sequence of these calls on a manager in which the
  two maps have the same keys, in particular on a new manager, the index
  \<open>_instances\<close> and the map \<open>_last_access\<close> have the same set of keys.  The storages
  of the instances are arbitrary, so this includes removals in which \<open>finalize()\<close>
  raises.
\<close>

theorem index_and_last_access_keys_agree:
  assumes "cache_inv m"
  shows "set (dict_keys (instances (snd (get_instance e m t p)))) =
           set (dict_keys (last_access (snd (get_instance e m t p)))) \<and>
         set (dict_keys (instances (snd (cleanup_expired m now)))) =
           set (dict_keys (last_access (snd (cleanup_expired m now)))) \<and>
         set (dict_keys (instances (snd (shutdown m)))) =
           set (dict_keys (last_access (snd (shutdown m)))) \<and>
         set (dict_keys (instances (run_calls m cs))) =
           set (dict_keys (last_access (run_calls m cs))) \<and>
         set (dict_keys (instances (run_calls (manager_init bc svc cap mins) cs))) =
           set (dict_keys (last_access (run_calls (manager_init bc svc cap mins) cs)))"
proof (intro conjI)
  show "set (dict_keys (instances (snd (get_instance e m t p)))) =
           set (dict_keys (last_access (snd (get_instance e m t p))))"
    using get_instance_inv [OF assms, of e t p] by (simp add: cache_inv_def)
  show "set (dict_keys (instances (snd (cleanup_expired m now)))) =
           set (dict_keys (last_access (snd (cleanup_expired m now))))"
    using cleanup_expired_sweeps(3) [OF assms, of now] by (simp add: cache_inv_def)
  show "set (dict_keys (instances (snd (shutdown m)))) =
           set (dict_keys (last_access (snd (shutdown m))))"
    using shutdown_state(4) [OF assms] by (simp add: cache_inv_def)
  show "set (dict_keys (instances (run_calls m cs))) =
           set (dict_keys (last_access (run_calls m cs)))"
    using run_calls_inv [OF assms, of cs] by (simp add: cache_inv_def)
  show "set (dict_keys (instances (run_calls (manager_init bc svc cap mins) cs))) =
           set (dict_keys (last_access (run_calls (manager_init bc svc cap mins) cs)))"
    using run_calls_inv [OF manager_init_inv, of bc svc cap mins cs] by (simp add: cache_inv_def)
qed

theorem index_and_last_access_keys_agree_witness:
  "cache_inv example_manager \<and>
   trace (run_calls example_manager [CleanupExpired 120]) =
     [Finalized (''acme'', ''a'') llm_response_cache, FinalizeWarning (''acme'', ''a'') ''closed''] \<and>
   set (dict_keys (instances (run_calls example_manager [CleanupExpired 120]))) =
     set (dict_keys (last_access (run_calls example_manager [CleanupExpired 120]))) \<and>
   dict_keys (last_access (run_calls example_manager [CleanupExpired 120])) = [(''acme'', ''b'')]"
proof -
  have inv: "cache_inv example_manager"
    by (simp add: cache_inv_def example_manager_def dict_keys_def)
  have tr: "trace (run_calls example_manager [CleanupExpired 120]) =
     [Finalized (''acme'', ''a'') llm_response_cache, FinalizeWarning (''acme'', ''a'') ''closed'']"
    by code_simp
  have ks: "dict_keys (last_access (run_calls example_manager [CleanupExpired 120])) = [(''acme'', ''b'')]"
    by code_simp
  from index_and_last_access_keys_agree [OF inv, of undefined undefined undefined 0 "[CleanupExpired 120]"]
    inv tr ks
  show ?thesis by simp
qed

section \<open>Proofs: project membership\<close>

lemma length_filter_unique:
  "distinct (map f xs) \<Longrightarrow> length (filter (\<lambda>x. f x = k) xs) \<le> 1"
proof (induction xs)
  case Nil
  then show ?case by simp
next
  case (Cons x xs)
  show ?case
  proof (cases "f x = k")
    case True
    from Cons.prems have "f x \<notin> f ` set xs" by simp
    with True have "\<forall>y \<in> set xs. f y \<noteq> k" by blast
    then have "filter (\<lambda>x. f x = k) xs = []"
      by (simp add: filter_empty_conv)
    with True show ?thesis by simp
  next
    case False
    with Cons show ?thesis by simp
  qed
qed

lemma filter_unique_find:
  "distinct (map f xs) \<Longrightarrow>
   filter (\<lambda>x. f x = k) xs = (case find (\<lambda>x. f x = k) xs of None \<Rightarrow> [] | Some r \<Rightarrow> [r])"
proof (induction xs)
  case Nil
  then show ?case by simp
next
  case (Cons x xs)
  show ?case
  proof (cases "f x = k")
    case True
    from Cons.prems have "f x \<notin> f ` set xs" by simp
    with True have "\<forall>y \<in> set xs. f y \<noteq> k" by blast
    then have "filter (\<lambda>x. f x = k) xs = []"
      by (simp add: filter_empty_conv)
    with True show ?thesis by simp
  next
    case False
    with Cons show ?thesis by simp
  qed
qed

lemma length_filter_split:
  "length (filter Q xs) =
     length (filter Q (filter P xs)) + length (filter Q (filter (\<lambda>x. \<not> P x) xs))"
  by (induction xs) auto

lemma member_key_eq:
  "(pm_project_id r = pid \<and> pm_user_id r = uid) \<longleftrightarrow> (pm_project_id r, pm_user_id r) = (pid, uid)"
  by simp

lemma member_rows_of:
  assumes "members_unique db"
  shows "filter (\<lambda>r. pm_project_id r = pid \<and> pm_user_id r = uid) (project_members db) =
           (case find (\<lambda>r. pm_project_id r = pid \<and> pm_user_id r = uid) (project_members db) of
              None \<Rightarrow> [] | Some r \<Rightarrow> [r])"
  using filter_unique_find [of "\<lambda>r. (pm_project_id r, pm_user_id r)" "project_members db" "(pid, uid)"]
    assms by (simp add: members_unique_def)

lemma remove_member_last_owner:
  assumes "select_member_role db pid remover = Some ''owner''"
    and "select_member_role db pid target = Some ''owner''"
    and "owner_count db pid \<le> 1"
  shows "remove_member db pid target remover = (Inl (ValueError ''Cannot remove the last owner''), db)"
  using assms by (simp add: remove_member_def owner_count_def)

lemma remove_member_success:
  assumes "select_member_role db pid remover = Some ''owner''"
    and "select_member_role db pid target \<noteq> Some ''owner'' \<or> owner_count db pid \<ge> 2"
  shows "remove_member db pid target remover =
           (Inr (), db\<lparr>project_members :=
                     filter (\<lambda>r. \<not> (pm_project_id r = pid \<and> pm_user_id r = target))
                       (project_members db)\<rparr>)"
  using assms by (auto simp: remove_member_def owner_count_def)

lemma remove_member_keeps_owner:
  assumes uniq: "members_unique db" and own: "owner_count db pid \<ge> 1"
  shows "owner_count (snd (remove_member db pid target remover)) pid \<ge> 1"
proof (cases "select_member_role db pid remover = Some ''owner''")
  case False
  then show ?thesis using own by (simp add: remove_member_def)
next
  case rem: True
  let ?P = "\<lambda>r. pm_project_id r = pid \<and> pm_user_id r = target"
  let ?O = "\<lambda>r. pm_project_id r = pid \<and> pm_role r = ''owner''"
  let ?rows = "project_members db"
  note split = length_filter_split [of ?O ?rows ?P]
  show ?thesis
  proof (cases "select_member_role db pid target = Some ''owner''")
    case tgt: True
    show ?thesis
    proof (cases "owner_count db pid \<le> 1")
      case True
      then show ?thesis using own by (simp add: remove_member_last_owner [OF rem tgt])
    next
      case False
      then have two: "owner_count db pid \<ge> 2" by simp
      have "length (filter ?O (filter ?P ?rows)) \<le> length (filter ?P ?rows)"
        by (rule length_filter_le)
      also have "\<dots> \<le> 1"
        using length_filter_unique [of "\<lambda>r. (pm_project_id r, pm_user_id r)" ?rows "(pid, target)"]
          uniq by (simp add: members_unique_def)
      finally have "length (filter ?O (filter (\<lambda>r. \<not> ?P r) ?rows)) \<ge> 1"
        using split two by (simp add: owner_count_def count_members_with_role_def)
      then show ?thesis
        using rem two
        by (simp add: remove_member_success owner_count_def count_members_with_role_def)
    qed
  next
    case ntgt: False
    have "filter ?O (filter ?P ?rows) = []"
    proof (cases "find ?P ?rows")
      case None
      then show ?thesis by (simp add: member_rows_of [OF uniq])
    next
      case (Some r)
      with ntgt have "pm_role r \<noteq> ''owner''" by (simp add: select_member_role_def)
      with Some show ?thesis by (simp add: member_rows_of [OF uniq])
    qed
    then have "length (filter ?O (filter (\<lambda>r. \<not> ?P r) ?rows)) = owner_count db pid"
      using split by (simp add: owner_count_def count_members_with_role_def)
    then show ?thesis
      using rem ntgt own
      by (simp add: remove_member_success owner_count_def count_members_with_role_def)
  qed
qed

text \<open>
  Claim C3.  \<open>remove_member\<close> keeps an owner (lemma \<open>remove_member_keeps_owner\<close>),
  refuses to remove the sole owner and leaves the table as it was (lemma
  \<open>remove_member_last_owner\<close>), and removes an owner beside whom another remains
  (lemma \<open>remove_member_success\<close>).  \<open>update_member_role\<close> has no such guard: in a
  project whose sole owner is \<open>u1\<close>, \<open>u1\<close> changing the role of \<open>u1\<close> to member
  returns the updated member and leaves the project with no owner, while
  \<open>remove_member\<close> on the same state is refused.
\<close>

theorem update_member_role_demotes_last_owner:
  "owner_count example_db ''proj1'' = 1 \<and>
   select_member_role example_db ''proj1'' ''u1'' = Some ''owner'' \<and>
   fst (update_member_role example_db ''proj1'' ''u1'' MEMBER ''u1'') =
     Inr \<lparr>pmr_id = ''m1'', pmr_user_id = ''u1'', pmr_user_email = ''alice@x.com'',
          pmr_user_name = ''Alice'', pmr_role = MEMBER, pmr_joined_at = 0\<rparr> \<and>
   owner_count (snd (update_member_role example_db ''proj1'' ''u1'' MEMBER ''u1'')) ''proj1'' = 0 \<and>
   remove_member example_db ''proj1'' ''u1'' ''u1'' =
     (Inl (ValueError ''Cannot remove the last owner''), example_db)"
  by (simp add: owner_count_def count_members_with_role_def select_member_role_def
      update_member_role_def select_member_with_user_def UserRole_of_def remove_member_def
      example_db_def Let_def)

section \<open>Proofs: sessions\<close>

text \<open>
  What \<open>decode_access_token\<close> does with each outcome of \<open>jwt.decode\<close>: an accepted
  payload is returned when its type marker is \<open>access\<close> and gives \<open>None\<close> otherwise;
  \<open>InvalidTokenError\<close> and its subclasses give \<open>None\<close>; every other exception is
  raised to the caller, since the two \<open>except\<close> clauses name no other class.
\<close>

lemma decode_access_token_outcomes:
  "decode_access_token svc lib token =
     (case jwt_decode lib token (secret_key svc) [algorithm svc] of
        Inr pl \<Rightarrow> if dict_get pl ''type'' = Some (JStr ''access'') then Inr (Some pl) else Inr None
      | Inl ex \<Rightarrow> (case ex of InvalidTokenError kind msg \<Rightarrow> Inr None | _ \<Rightarrow> Inl ex))"
  by (simp add: decode_access_token_def split: sum.splits exn.splits jwt_error.splits)

lemma decode_access_token_raises_iff:
  "(\<exists>ex. decode_access_token svc lib token = Inl ex) \<longleftrightarrow>
   (\<exists>ex. jwt_decode lib token (secret_key svc) [algorithm svc] = Inl ex \<and>
         (\<forall>kind msg. ex \<noteq> InvalidTokenError kind msg))"
  by (simp add: decode_access_token_outcomes split: sum.splits exn.splits)

lemma decode_access_token_on_token_errors:
  assumes "\<forall>ex. jwt_decode lib token (secret_key svc) [algorithm svc] = Inl ex \<longrightarrow>
                (\<exists>kind msg. ex = InvalidTokenError kind msg)"
  shows "(\<exists>r. decode_access_token svc lib token = Inr r) \<and>
         (\<forall>kind msg. jwt_decode lib token (secret_key svc) [algorithm svc] =
                        Inl (InvalidTokenError kind msg) \<longrightarrow>
            decode_access_token svc lib token = Inr None) \<and>
         (\<forall>pl. jwt_decode lib token (secret_key svc) [algorithm svc] = Inr pl \<and>
               dict_get pl ''type'' \<noteq> Some (JStr ''access'') \<longrightarrow>
            decode_access_token svc lib token = Inr None) \<and>
         (\<forall>pl. decode_access_token svc lib token = Inr (Some pl) \<longrightarrow>
            jwt_decode lib token (secret_key svc) [algorithm svc] = Inr pl \<and>
            dict_get pl ''type'' = Some (JStr ''access''))"
proof -
  let ?d = "jwt_decode lib token (secret_key svc) [algorithm svc]"
  have inv: "\<And>kind msg. ?d = Inl (InvalidTokenError kind msg) \<Longrightarrow>
               decode_access_token svc lib token = Inr None"
    by (simp add: decode_access_token_def split: jwt_error.splits)
  have pl: "\<And>pl. ?d = Inr pl \<Longrightarrow>
               decode_access_token svc lib token =
                 (if dict_get pl ''type'' \<noteq> Some (JStr ''access'') then Inr None else Inr (Some pl))"
    by (simp add: decode_access_token_def)
  have ret: "\<exists>r. decode_access_token svc lib token = Inr r"
  proof (cases ?d)
    case (Inl ex)
    with assms obtain kind msg where "ex = InvalidTokenError kind msg" by blast
    with Inl inv show ?thesis by blast
  next
    case (Inr p)
    then show ?thesis by (simp add: pl)
  qed
  have some: "\<And>p. decode_access_token svc lib token = Inr (Some p) \<Longrightarrow>
               ?d = Inr p \<and> dict_get p ''type'' = Some (JStr ''access'')"
  proof -
    fix p assume a: "decode_access_token svc lib token = Inr (Some p)"
    show "?d = Inr p \<and> dict_get p ''type'' = Some (JStr ''access'')"
    proof (cases ?d)
      case (Inl ex)
      with assms obtain kind msg where "ex = InvalidTokenError kind msg" by blast
      with Inl inv a show ?thesis by simp
    next
      case (Inr q)
      with a pl [OF Inr] show ?thesis by (simp split: if_splits)
    qed
  qed
  show ?thesis
  proof (intro conjI allI impI)
    show "\<exists>r. decode_access_token svc lib token = Inr r" by (rule ret)
  next
    fix kind msg assume "?d = Inl (InvalidTokenError kind msg)"
    then show "decode_access_token svc lib token = Inr None" by (rule inv)
  next
    fix p assume "?d = Inr p \<and> dict_get p ''type'' \<noteq> Some (JStr ''access'')"
    then show "decode_access_token svc lib token = Inr None" by (simp add: pl)
  next
    fix p assume "decode_access_token svc lib token = Inr (Some p)"
    from some [OF this] show "?d = Inr p" by (rule conjunct1)
  next
    fix p assume "decode_access_token svc lib token = Inr (Some p)"
    from some [OF this] show "dict_get p ''type'' = Some (JStr ''access'')" by (rule conjunct2)
  qed
qed

text \<open>
  Claim C6.  \<open>decode_access_token\<close> gives \<open>None\<close> for a tampered signature, a past
  expiry and a type marker other than \<open>access\<close> (lemmas
  \<open>decode_access_token_on_token_errors\<close> and \<open>decode_access_token_outcomes\<close>), but it does
  not return for every input string: its \<open>except\<close> clauses catch \<open>InvalidTokenError\<close>
  only.  For the token whose header segment decodes to a thousand nested arrays the
  library raises \<open>RecursionError\<close>, and the function raises it to its caller instead of
  returning \<open>None\<close>; the tampered token of the same run still gives \<open>None\<close>.
\<close>

theorem decode_access_token_raises_recursion_error:
  "length example_nested_token = 1340 \<and>
   jwt_decode example_pyjwt_libs example_nested_token (secret_key example_auth_service)
     [algorithm example_auth_service] =
     Inl (RecursionError ''maximum recursion depth exceeded while decoding a JSON array'') \<and>
   decode_access_token example_auth_service example_pyjwt_libs example_nested_token =
     Inl (RecursionError ''maximum recursion depth exceeded while decoding a JSON array'') \<and>
   decode_access_token example_auth_service example_libs ''tampered'' = Inr None \<and>
   decode_access_token example_auth_service example_libs ''jwt-old'' = Inr None \<and>
   decode_access_token example_auth_service example_libs ''jwt-refresh'' = Inr None"
proof -
  have l: "length example_nested_token = 1340"
    by (simp add: example_nested_token_def length_concat sum_list_replicate)
  have d: "jwt_decode example_pyjwt_libs example_nested_token (secret_key example_auth_service)
     [algorithm example_auth_service] =
     Inl (RecursionError ''maximum recursion depth exceeded while decoding a JSON array'')"
    by (simp add: example_pyjwt_libs_def)
  have r: "decode_access_token example_auth_service example_pyjwt_libs example_nested_token =
     Inl (RecursionError ''maximum recursion depth exceeded while decoding a JSON array'')"
    by (simp add: decode_access_token_outcomes d)
  have t: "decode_access_token example_auth_service example_libs ''tampered'' = Inr None"
    by (simp add: decode_access_token_outcomes example_libs_def)
  have o: "decode_access_token example_auth_service example_libs ''jwt-old'' = Inr None"
    by (simp add: decode_access_token_outcomes example_libs_def)
  have f: "decode_access_token example_auth_service example_libs ''jwt-refresh'' = Inr None"
    by (simp add: decode_access_token_outcomes example_libs_def dict_get_def)
  show ?thesis
    by (intro conjI) (rule l, rule d, rule r, rule t, rule o, rule f)
qed

text \<open>
  Claim C9.  The body the handler of the reset request sends is the same for every store,
  environment and address, so in particular for two runs that differ in whether an
  active account with the address exists: it is always the one fixed message.  (What
  differs between such runs is the store and the server's log, which the caller does not
  see.)
\<close>

theorem request_password_reset_response_uniform:
  "response_body (request_password_reset_route db e email) =
     response_body (request_password_reset_route db' e' email') \<and>
   response_body (request_password_reset_route db e email) =
     [(''message'', ''If the email exists, a password reset link has been sent'')]"
proof -
  have "\<And>db e email. response_body (request_password_reset_route db e email) =
     [(''message'', ''If the email exists, a password reset link has been sent'')]"
    by (simp add: request_password_reset_route_def split: prod.splits sum.splits)
  then show ?thesis by simp
qed

lemma find_filter_hd:
  "(case filter Q vs of [] \<Rightarrow> None | u # _ \<Rightarrow> Some u) = find Q vs"
  by (induction vs) auto

lemma join_row:
  "concat (map (\<lambda>u. if J r u then if P r then [(r, u)] else [] else []) vs) =
     (if P r then map (\<lambda>u. (r, u)) (filter (J r) vs) else [])"
  by (induction vs) auto

lemma join_first:
  "(case [(r, u). r \<leftarrow> rs, u \<leftarrow> us, J r u, P r] of [] \<Rightarrow> None | x # _ \<Rightarrow> Some x) =
   (case find (\<lambda>r. P r \<and> (\<exists>u \<in> set us. J r u)) rs of
      None \<Rightarrow> None
    | Some r \<Rightarrow> (case find (\<lambda>u. J r u) us of None \<Rightarrow> None | Some u \<Rightarrow> Some (r, u)))"
proof -
  define row where "row = (\<lambda>r. if P r then map (\<lambda>u. (r, u)) (filter (J r) us) else [])"
  have compr: "\<And>xs. [(r, u). r \<leftarrow> xs, u \<leftarrow> us, J r u, P r] = concat (map row xs)"
    by (simp add: row_def join_row)
  have "(case concat (map row rs) of [] \<Rightarrow> None | x # _ \<Rightarrow> Some x) =
        (case find (\<lambda>r. P r \<and> (\<exists>u \<in> set us. J r u)) rs of
           None \<Rightarrow> None
         | Some r \<Rightarrow> (case find (\<lambda>u. J r u) us of None \<Rightarrow> None | Some u \<Rightarrow> Some (r, u)))"
  proof (induction rs)
    case Nil
    then show ?case by simp
  next
    case (Cons r rs)
    show ?case
    proof (cases "P r \<and> (\<exists>u \<in> set us. J r u)")
      case True
      then obtain u where "u \<in> set us" "J r u" by blast
      then have "filter (J r) us \<noteq> []" by (auto simp: filter_empty_conv)
      then obtain v vs where f: "filter (J r) us = v # vs" by (cases "filter (J r) us") auto
      with find_filter_hd [of "J r" us] have fv: "find (J r) us = Some v" by simp
      from True f have "row r = (r, v) # map (\<lambda>u. (r, u)) vs" by (simp add: row_def)
      with True fv show ?thesis by simp
    next
      case False
      then have e: "row r = []" by (auto simp: row_def filter_empty_conv)
      have f2: "find (\<lambda>r. P r \<and> (\<exists>u \<in> set us. J r u)) (r # rs) =
                find (\<lambda>r. P r \<and> (\<exists>u \<in> set us. J r u)) rs"
        by (simp only: find.simps False if_False)
      show ?thesis by (simp only: f2 list.map concat.simps e append_Nil Cons.IH)
    qed
  qed
  then show ?thesis by (simp only: compr)
qed

lemma select_refresh_token_find:
  "select_refresh_token db tok now =
     (case find (\<lambda>rt. (rt_token rt = tok \<and> rt_expires_at rt > now \<and> rt_revoked_at rt = None) \<and>
                      (\<exists>u \<in> set (users db). u_id u = rt_user_id rt)) (refresh_tokens db) of
        None \<Rightarrow> None
      | Some rt \<Rightarrow> (case find (\<lambda>u. u_id u = rt_user_id rt) (users db) of
                     None \<Rightarrow> None | Some u \<Rightarrow> Some (rt, u)))"
  unfolding select_refresh_token_def
  by (rule join_first [where J = "\<lambda>rt u. u_id u = rt_user_id rt" and us = "users db"
        and P = "\<lambda>rt. rt_token rt = tok \<and> rt_expires_at rt > now \<and> rt_revoked_at rt = None"
        and rs = "refresh_tokens db"])

lemma find_unique_key:
  assumes "distinct (map f xs)" and "x \<in> set xs" and "P x" and "\<And>y. P y \<Longrightarrow> f y = f x"
  shows "find P xs = Some x"
  using assms(1,2)
proof (induction xs)
  case Nil
  then show ?case by simp
next
  case (Cons y ys)
  show ?case
  proof (cases "y = x")
    case True
    with assms(3) show ?thesis by simp
  next
    case False
    with Cons.prems have xin: "x \<in> set ys" by simp
    from Cons.prems have "f y \<notin> f ` set ys" by simp
    with xin have "f y \<noteq> f x" by blast
    with assms(4) have "\<not> P y" by blast
    moreover from Cons.prems Cons.IH xin have "find P ys = Some x" by simp
    ultimately show ?thesis by simp
  qed
qed

lemma find_SomeD: "find P xs = Some x \<Longrightarrow> x \<in> set xs \<and> P x"
  by (induction xs) (auto split: if_splits)

lemma refresh_access_token_none:
  assumes "\<forall>rt \<in> set (refresh_tokens db). rt_token rt = tok \<longrightarrow>
             rt_revoked_at rt \<noteq> None \<or> rt_expires_at rt \<le> now_lookup e"
  shows "refresh_access_token svc lib db e tok = (None, db)"
proof -
  have "find (\<lambda>rt. (rt_token rt = tok \<and> rt_expires_at rt > now_lookup e \<and> rt_revoked_at rt = None) \<and>
                   (\<exists>u \<in> set (users db). u_id u = rt_user_id rt)) (refresh_tokens db) = None"
    using assms by (fastforce simp: find_None_iff)
  then have "select_refresh_token db tok (now_lookup e) = None"
    by (simp add: select_refresh_token_find)
  then show ?thesis by (simp add: refresh_access_token_def)
qed

lemma select_refresh_token_valid:
  assumes uniq: "distinct (map rt_token (refresh_tokens db))"
    and row: "row \<in> set (refresh_tokens db)" "rt_token row = tok"
      "rt_expires_at row > now" "rt_revoked_at row = None"
    and usr: "find (\<lambda>u. u_id u = rt_user_id row) (users db) = Some u"
  shows "select_refresh_token db tok now = Some (row, u)"
proof -
  from find_SomeD [OF usr] have "\<exists>u \<in> set (users db). u_id u = rt_user_id row"
    by blast
  with row have "find (\<lambda>rt. (rt_token rt = tok \<and> rt_expires_at rt > now \<and> rt_revoked_at rt = None) \<and>
                   (\<exists>u \<in> set (users db). u_id u = rt_user_id rt)) (refresh_tokens db) = Some row"
    by (intro find_unique_key [OF uniq]) simp_all
  with usr show ?thesis by (simp add: select_refresh_token_find)
qed

lemma refresh_access_token_some:
  assumes "select_refresh_token db tok (now_lookup e) = Some (row, u)"
  shows "fst (refresh_access_token svc lib db e tok) =
           Some \<lparr>access_token =
                   create_access_token svc lib (now_exp e) (now_iat e) (rt_user_id row) (u_email u),
                 refresh_token = token_urlsafe_64 e, token_type = ''bearer'',
                 expires_in = access_token_expire_minutes svc * 60,
                 user = \<lparr>ur_id = rt_user_id row, ur_email = u_email u, ur_name = u_name u,
                         ur_phone = u_phone u, ur_is_active = u_is_active u,
                         ur_is_verified = u_is_verified u, ur_created_at = u_created_at u,
                         ur_last_login_at = u_last_login_at u\<rparr>\<rparr>"
    and "snd (refresh_access_token svc lib db e tok) =
           db\<lparr>refresh_tokens :=
                map (revoke_row e row) (refresh_tokens db @ [successor_row svc e row])\<rparr>"
  using assms
  by (simp_all add: refresh_access_token_def Let_def revoke_row_def [abs_def] successor_row_def)

lemma rotated_tokens_dead:
  assumes uniq: "distinct (map rt_token rows)"
    and row: "row \<in> set rows" "rt_token row = tok"
    and fresh: "token_urlsafe_64 e \<noteq> tok"
    and r: "r \<in> set (map (revoke_row e row) (rows @ [successor_row svc e row]))"
      "rt_token r = tok"
  shows "rt_revoked_at r \<noteq> None"
proof -
  from r(1) obtain r0 where r0: "r0 \<in> set rows \<or> r0 = successor_row svc e row"
    and rr: "r = revoke_row e row r0" by auto
  have tk: "rt_token r = rt_token r0" by (simp add: rr revoke_row_def)
  with r(2) fresh have "r0 \<noteq> successor_row svc e row" by (auto simp: successor_row_def)
  with r0 have in0: "r0 \<in> set rows" by simp
  from uniq in0 row(1) tk r(2) row(2) have "r0 = row"
    by (metis distinct_map inj_onD)
  then show ?thesis by (simp add: rr revoke_row_def)
qed

text \<open>
  Claim C7.  When the presented token is the token of a stored row that is not revoked
  and expires after the clock reading of the lookup (token texts being unique in the
  table, and the row's user being stored), \<open>refresh_access_token\<close> returns a response
  whose access token is \<open>jwt.encode\<close> of the payload for that user (subject, email,
  expiry, issue time, the marker \<open>access\<close>) under the service's key and algorithm, and
  whose refresh token is the newly drawn text; it appends the successor row and marks
  the presented row revoked with \<open>replaced_by\<close> the successor's identifier, changing no
  other table.  The presented token then is refused by every later call (it is
  single-use), the drawn token being a different text.  When every stored row with the
  presented token is revoked or expired, which includes there being none, the result is
  \<open>None\<close> and the store is unchanged.
\<close>

theorem refresh_access_token_rotates:
  "(\<forall>row u. distinct (map rt_token (refresh_tokens db)) \<and>
             row \<in> set (refresh_tokens db) \<and> rt_token row = tok \<and>
             rt_expires_at row > now_lookup e \<and> rt_revoked_at row = None \<and>
             find (\<lambda>u. u_id u = rt_user_id row) (users db) = Some u \<longrightarrow>
      fst (refresh_access_token svc lib db e tok) =
        Some \<lparr>access_token =
                jwt_encode lib
                  [(''sub'', JStr (rt_user_id row)), (''email'', JStr (u_email u)),
                   (''exp'', JTime (now_exp e + access_token_expire_minutes svc * 60 * 1000000)),
                   (''iat'', JTime (now_iat e)), (''type'', JStr ''access'')]
                  (secret_key svc) (algorithm svc),
              refresh_token = token_urlsafe_64 e, token_type = ''bearer'',
              expires_in = access_token_expire_minutes svc * 60,
              user = \<lparr>ur_id = rt_user_id row, ur_email = u_email u, ur_name = u_name u,
                      ur_phone = u_phone u, ur_is_active = u_is_active u,
                      ur_is_verified = u_is_verified u, ur_created_at = u_created_at u,
                      ur_last_login_at = u_last_login_at u\<rparr>\<rparr> \<and>
      snd (refresh_access_token svc lib db e tok) =
        db\<lparr>refresh_tokens :=
             map (\<lambda>r. if rt_id r = rt_id row
                       then r\<lparr>rt_revoked_at := Some (now_revoke e),
                              rt_replaced_by := Some (returned_id e)\<rparr>
                       else r)
               (refresh_tokens db @
                [\<lparr>rt_id = returned_id e, rt_user_id = rt_user_id row,
                  rt_token = token_urlsafe_64 e,
                  rt_expires_at = now_store e + refresh_token_expire_days svc * 86400 * 1000000,
                  rt_revoked_at = None, rt_replaced_by = None\<rparr>])\<rparr> \<and>
      row\<lparr>rt_revoked_at := Some (now_revoke e), rt_replaced_by := Some (returned_id e)\<rparr>
        \<in> set (refresh_tokens (snd (refresh_access_token svc lib db e tok))) \<and>
      (returned_id e \<noteq> rt_id row \<longrightarrow>
         \<lparr>rt_id = returned_id e, rt_user_id = rt_user_id row, rt_token = token_urlsafe_64 e,
          rt_expires_at = now_store e + refresh_token_expire_days svc * 86400 * 1000000,
          rt_revoked_at = None, rt_replaced_by = None\<rparr>
           \<in> set (refresh_tokens (snd (refresh_access_token svc lib db e tok)))) \<and>
      (token_urlsafe_64 e \<noteq> tok \<longrightarrow>
         (\<forall>e'. refresh_access_token svc lib (snd (refresh_access_token svc lib db e tok)) e' tok =
                 (None, snd (refresh_access_token svc lib db e tok))))) \<and>
   ((\<forall>rt \<in> set (refresh_tokens db). rt_token rt = tok \<longrightarrow>
        rt_revoked_at rt \<noteq> None \<or> rt_expires_at rt \<le> now_lookup e) \<longrightarrow>
      refresh_access_token svc lib db e tok = (None, db))"
proof (intro conjI allI impI; (elim conjE)?)
  fix row u
  assume uniq: "distinct (map rt_token (refresh_tokens db))"
    and row: "row \<in> set (refresh_tokens db)" "rt_token row = tok"
      "rt_expires_at row > now_lookup e" "rt_revoked_at row = None"
    and usr: "find (\<lambda>u. u_id u = rt_user_id row) (users db) = Some u"
  note sel = select_refresh_token_valid [OF uniq row usr]
  note res = refresh_access_token_some [OF sel, of svc lib]
  let ?db' = "snd (refresh_access_token svc lib db e tok)"
  let ?succ = "\<lparr>rt_id = returned_id e, rt_user_id = rt_user_id row, rt_token = token_urlsafe_64 e,
          rt_expires_at = now_store e + refresh_token_expire_days svc * 86400 * 1000000,
          rt_revoked_at = None, rt_replaced_by = None\<rparr>"
  have succ: "successor_row svc e row = ?succ"
    by (simp add: successor_row_def days_def)
  have rev: "revoke_row e row =
               (\<lambda>r. if rt_id r = rt_id row
                     then r\<lparr>rt_revoked_at := Some (now_revoke e),
                            rt_replaced_by := Some (returned_id e)\<rparr>
                     else r)"
    by (rule ext) (simp add: revoke_row_def)
  show "fst (refresh_access_token svc lib db e tok) =
        Some \<lparr>access_token =
                jwt_encode lib
                  [(''sub'', JStr (rt_user_id row)), (''email'', JStr (u_email u)),
                   (''exp'', JTime (now_exp e + access_token_expire_minutes svc * 60 * 1000000)),
                   (''iat'', JTime (now_iat e)), (''type'', JStr ''access'')]
                  (secret_key svc) (algorithm svc),
              refresh_token = token_urlsafe_64 e, token_type = ''bearer'',
              expires_in = access_token_expire_minutes svc * 60,
              user = \<lparr>ur_id = rt_user_id row, ur_email = u_email u, ur_name = u_name u,
                      ur_phone = u_phone u, ur_is_active = u_is_active u,
                      ur_is_verified = u_is_verified u, ur_created_at = u_created_at u,
                      ur_last_login_at = u_last_login_at u\<rparr>\<rparr>"
    by (simp add: res(1) create_access_token_def minutes_def Let_def)
  show db': "?db' = db\<lparr>refresh_tokens :=
             map (\<lambda>r. if rt_id r = rt_id row
                       then r\<lparr>rt_revoked_at := Some (now_revoke e),
                              rt_replaced_by := Some (returned_id e)\<rparr>
                       else r)
               (refresh_tokens db @ [?succ])\<rparr>"
    by (simp only: res(2) succ rev)
  have "revoke_row e row row \<in> set (refresh_tokens ?db')"
    using row(1) by (simp add: res(2))
  then show "row\<lparr>rt_revoked_at := Some (now_revoke e), rt_replaced_by := Some (returned_id e)\<rparr>
        \<in> set (refresh_tokens ?db')"
    by (simp add: revoke_row_def)
  show "?succ \<in> set (refresh_tokens ?db')" if "returned_id e \<noteq> rt_id row"
  proof -
    from that have "revoke_row e row (successor_row svc e row) = successor_row svc e row"
      by (simp add: revoke_row_def successor_row_def)
    then have "successor_row svc e row \<in> set (refresh_tokens ?db')" by (simp add: res(2))
    then show ?thesis by (simp only: succ)
  qed
  show "refresh_access_token svc lib ?db' e' tok = (None, ?db')"
    if fresh: "token_urlsafe_64 e \<noteq> tok" for e'
  proof (rule refresh_access_token_none, intro ballI impI)
    fix rt assume "rt \<in> set (refresh_tokens ?db')" and "rt_token rt = tok"
    then have "rt_revoked_at rt \<noteq> None"
      using rotated_tokens_dead [OF uniq row(1,2) fresh, of rt svc] by (simp add: res(2))
    then show "rt_revoked_at rt \<noteq> None \<or> rt_expires_at rt \<le> now_lookup e'" by simp
  qed
next
  assume "\<forall>rt \<in> set (refresh_tokens db). rt_token rt = tok \<longrightarrow>
        rt_revoked_at rt \<noteq> None \<or> rt_expires_at rt \<le> now_lookup e"
  then show "refresh_access_token svc lib db e tok = (None, db)"
    by (rule refresh_access_token_none)
qed

theorem refresh_access_token_rotates_witness:
  "distinct (map rt_token (refresh_tokens example_db)) \<and>
   hd (refresh_tokens example_db) \<in> set (refresh_tokens example_db) \<and>
   rt_token (hd (refresh_tokens example_db)) = ''tok1'' \<and>
   rt_expires_at (hd (refresh_tokens example_db)) > now_lookup example_refresh_env \<and>
   rt_revoked_at (hd (refresh_tokens example_db)) = None \<and>
   find (\<lambda>u. u_id u = rt_user_id (hd (refresh_tokens example_db))) (users example_db) =
     Some (hd (users example_db)) \<and>
   token_urlsafe_64 example_refresh_env \<noteq> ''tok1'' \<and>
   fst (refresh_access_token example_auth_service example_libs example_db
          example_refresh_env ''tok1'') =
     Some \<lparr>access_token = ''jwt-for-u1'',
            refresh_token = ''tok2'', token_type = ''bearer'', expires_in = 3600,
            user = \<lparr>ur_id = ''u1'', ur_email = ''alice@x.com'', ur_name = ''Alice'',
                    ur_phone = None, ur_is_active = True, ur_is_verified = True,
                    ur_created_at = 0, ur_last_login_at = None\<rparr>\<rparr> \<and>
   refresh_tokens (snd (refresh_access_token example_auth_service example_libs example_db
                          example_refresh_env ''tok1'')) =
     [\<lparr>rt_id = ''r1'', rt_user_id = ''u1'', rt_token = ''tok1'', rt_expires_at = 1000,
       rt_revoked_at = Some 104, rt_replaced_by = Some ''r2''\<rparr>,
      \<lparr>rt_id = ''r2'', rt_user_id = ''u1'', rt_token = ''tok2'',
       rt_expires_at = 2592000000103, rt_revoked_at = None, rt_replaced_by = None\<rparr>] \<and>
   refresh_access_token example_auth_service example_libs
     (snd (refresh_access_token example_auth_service example_libs example_db
             example_refresh_env ''tok1''))
     example_refresh_env ''tok1'' =
     (None, snd (refresh_access_token example_auth_service example_libs example_db
                   example_refresh_env ''tok1'')) \<and>
   ''nope'' \<notin> set (map rt_token (refresh_tokens example_db)) \<and>
   refresh_access_token example_auth_service example_libs example_db example_refresh_env ''nope'' =
     (None, example_db)"
proof -
  have h1: "distinct (map rt_token (refresh_tokens example_db))"
    by (simp add: example_db_def)
  have h2: "hd (refresh_tokens example_db) \<in> set (refresh_tokens example_db)"
    by (simp add: example_db_def)
  have h3: "rt_token (hd (refresh_tokens example_db)) = ''tok1''"
    by (simp add: example_db_def)
  have h4: "rt_expires_at (hd (refresh_tokens example_db)) > now_lookup example_refresh_env"
    by (simp add: example_db_def example_refresh_env_def)
  have h5: "rt_revoked_at (hd (refresh_tokens example_db)) = None"
    by (simp add: example_db_def)
  have h6: "find (\<lambda>u. u_id u = rt_user_id (hd (refresh_tokens example_db))) (users example_db) =
     Some (hd (users example_db))"
    by (simp add: example_db_def)
  have h7: "token_urlsafe_64 example_refresh_env \<noteq> ''tok1''"
    by (simp add: example_refresh_env_def)
  have h8: "\<forall>rt \<in> set (refresh_tokens example_db). rt_token rt = ''nope'' \<longrightarrow>
        rt_revoked_at rt \<noteq> None \<or> rt_expires_at rt \<le> now_lookup example_refresh_env"
    by (simp add: example_db_def)
  note th = refresh_access_token_rotates [where db = example_db and tok = "''tok1''"
      and e = example_refresh_env and svc = example_auth_service and lib = example_libs]
  note a = th [THEN conjunct1, rule_format,
      OF conjI [OF h1 conjI [OF h2 conjI [OF h3 conjI [OF h4 conjI [OF h5 h6]]]]]]
  have c1: "fst (refresh_access_token example_auth_service example_libs example_db
          example_refresh_env ''tok1'') =
     Some \<lparr>access_token = ''jwt-for-u1'',
            refresh_token = ''tok2'', token_type = ''bearer'', expires_in = 3600,
            user = \<lparr>ur_id = ''u1'', ur_email = ''alice@x.com'', ur_name = ''Alice'',
                    ur_phone = None, ur_is_active = True, ur_is_verified = True,
                    ur_created_at = 0, ur_last_login_at = None\<rparr>\<rparr>"
    by (rule trans [OF a [THEN conjunct1]])
      (simp add: example_db_def example_refresh_env_def example_auth_service_def
        example_libs_def)
  have c1b: "refresh_tokens (snd (refresh_access_token example_auth_service example_libs example_db
                          example_refresh_env ''tok1'')) =
     [\<lparr>rt_id = ''r1'', rt_user_id = ''u1'', rt_token = ''tok1'', rt_expires_at = 1000,
       rt_revoked_at = Some 104, rt_replaced_by = Some ''r2''\<rparr>,
      \<lparr>rt_id = ''r2'', rt_user_id = ''u1'', rt_token = ''tok2'',
       rt_expires_at = 2592000000103, rt_revoked_at = None, rt_replaced_by = None\<rparr>]"
    by (rule trans [OF arg_cong [where f = refresh_tokens, OF a [THEN conjunct2, THEN conjunct1]]])
      (simp add: example_db_def example_refresh_env_def example_auth_service_def)
  from a h7 have c2: "refresh_access_token example_auth_service example_libs
     (snd (refresh_access_token example_auth_service example_libs example_db
             example_refresh_env ''tok1''))
     example_refresh_env ''tok1'' =
     (None, snd (refresh_access_token example_auth_service example_libs example_db
                   example_refresh_env ''tok1''))"
    by blast
  note th' = refresh_access_token_rotates [where db = example_db and tok = "''nope''"
      and e = example_refresh_env and svc = example_auth_service and lib = example_libs]
  from th' h8 have c3: "refresh_access_token example_auth_service example_libs example_db
      example_refresh_env ''nope'' = (None, example_db)"
    by blast
  have h9: "''nope'' \<notin> set (map rt_token (refresh_tokens example_db))"
    by (simp add: example_db_def)
  show ?thesis
    by (intro conjI) (rule h1, rule h2, rule h3, rule h4, rule h5, rule h6, rule h7, rule c1,
        rule c1b, rule c2, rule h9, rule c3)
qed

section \<open>Proofs: API keys\<close>

lemma check_each_key_skip:
  "\<forall>r \<in> set pre. \<not> verify_api_key lib key (ak_key_hash r) \<Longrightarrow>
   check_each_key lib db now_used key (pre @ rest) = check_each_key lib db now_used key rest"
  by (induction pre) simp_all

lemma check_each_key_none:
  "\<forall>r \<in> set rows. \<not> verify_api_key lib key (ak_key_hash r) \<Longrightarrow>
   check_each_key lib db now_used key rows = (None, db)"
  by (induction rows) simp_all

lemma validate_api_key_none:
  assumes "\<forall>r \<in> set (active_api_keys db now_query). \<not> bcrypt_checkpw lib key (ak_key_hash r)"
  shows "validate_api_key lib db now_query now_used key = (None, db)"
  using assms by (simp add: validate_api_key_def check_each_key_none verify_api_key_def)

lemma create_api_key_ok:
  assumes "create_api_key lib db e user_id project_id name scopes expires_at = (Inr resp, db1)"
  shows "\<exists>p. find (\<lambda>p. p_id p = project_id) (projects db) = Some p \<and>
             db1 = insert_api_key db e user_id (p_tenant_id p) project_id name
                     (take 12 (''lrag_'' @ token_urlsafe_32k e) @ ''...'')
                     (bcrypt_hashpw lib (''lrag_'' @ token_urlsafe_32k e) (gensalt e))
                     (json_dumps lib (map scope_value scopes)) expires_at"
    and "akr_key resp = ''lrag_'' @ token_urlsafe_32k e"
  using assms
  by (auto simp: create_api_key_def generate_api_key_def Let_def
      split: option.splits if_splits)

lemma active_after_insert:
  assumes "case expires_at of None \<Rightarrow> True | Some x \<Rightarrow> x > now"
  shows "active_api_keys
           (insert_api_key db e user_id tenant_id project_id name key_prefix key_hash scope_json
              expires_at) now =
         active_api_keys db now @
           [\<lparr>ak_id = returned_key_id e, ak_user_id = user_id, ak_tenant_id = tenant_id,
             ak_project_id = project_id, ak_name = name, ak_key_prefix = key_prefix,
             ak_key_hash = key_hash, ak_scopes = ScopesText scope_json,
             ak_expires_at = expires_at, ak_is_active = True, ak_revoked_at = None,
             ak_revoked_by = None, ak_last_used_at = None, ak_created_at = store_now e\<rparr>]"
  using assms by (simp add: active_api_keys_def insert_api_key_def)

lemma validate_created_key:
  assumes cr: "create_api_key lib db e user_id project_id name scopes expires_at = (Inr resp, db1)"
    and ok: "bcrypt_checkpw lib (akr_key resp) (bcrypt_hashpw lib (akr_key resp) (gensalt e))"
    and others: "\<forall>r \<in> set (api_keys db). \<not> bcrypt_checkpw lib (akr_key resp) (ak_key_hash r)"
    and js: "json_loads lib (json_dumps lib (map scope_value scopes)) = map scope_value scopes"
    and ex: "case expires_at of None \<Rightarrow> True | Some x \<Rightarrow> x > now_query"
  shows "\<exists>p. find (\<lambda>p. p_id p = project_id) (projects db) = Some p \<and>
             fst (validate_api_key lib db1 now_query now_used (akr_key resp)) =
               Some \<lparr>ctx_key_id = returned_key_id e, ctx_user_id = user_id,
                      ctx_tenant_id = p_tenant_id p, ctx_project_id = project_id,
                      ctx_scopes = map scope_value scopes\<rparr>"
proof -
  from create_api_key_ok [OF cr] obtain p where
    p: "find (\<lambda>p. p_id p = project_id) (projects db) = Some p" and
    db1: "db1 = insert_api_key db e user_id (p_tenant_id p) project_id name
                     (take 12 (''lrag_'' @ token_urlsafe_32k e) @ ''...'')
                     (bcrypt_hashpw lib (''lrag_'' @ token_urlsafe_32k e) (gensalt e))
                     (json_dumps lib (map scope_value scopes)) expires_at" and
    key: "akr_key resp = ''lrag_'' @ token_urlsafe_32k e" by blast
  have sw: "startswith (akr_key resp) ''lrag_''" by (simp add: key startswith_def)
  have pre: "\<forall>r \<in> set (active_api_keys db now_query).
               \<not> verify_api_key lib (akr_key resp) (ak_key_hash r)"
    using others by (simp add: active_api_keys_def verify_api_key_def)
  have "fst (validate_api_key lib db1 now_query now_used (akr_key resp)) =
          Some \<lparr>ctx_key_id = returned_key_id e, ctx_user_id = user_id,
                 ctx_tenant_id = p_tenant_id p, ctx_project_id = project_id,
                 ctx_scopes = map scope_value scopes\<rparr>"
    using ok js sw pre [THEN check_each_key_skip]
    by (simp add: validate_api_key_def db1 active_after_insert [OF ex]
        verify_api_key_def key parse_scopes_def)
  with p show ?thesis by blast
qed

lemma revoked_key_inactive:
  assumes rv: "revoke_api_key db now key_id owner = (Inr True, db2)"
    and only: "\<forall>r \<in> set (api_keys db). bcrypt_checkpw lib key (ak_key_hash r) \<longrightarrow> ak_id r = key_id"
  shows "validate_api_key lib db2 now_query now_used key = (None, db2)"
proof (rule validate_api_key_none, rule ballI)
  fix r assume r: "r \<in> set (active_api_keys db2 now_query)"
  from rv have db2: "db2 = db\<lparr>api_keys :=
      map (\<lambda>r. if ak_id r = key_id
                then r\<lparr>ak_is_active := False, ak_revoked_at := Some now,
                       ak_revoked_by := Some owner\<rparr>
                else r) (api_keys db)\<rparr>"
    by (auto simp: revoke_api_key_def split: if_splits)
  from r obtain r0 where r0: "r0 \<in> set (api_keys db)" and
    rr: "r = (if ak_id r0 = key_id
              then r0\<lparr>ak_is_active := False, ak_revoked_at := Some now, ak_revoked_by := Some owner\<rparr>
              else r0)" and act: "ak_is_active r"
    by (auto simp: db2 active_api_keys_def)
  from rr act have ne: "ak_id r0 \<noteq> key_id" by (auto split: if_splits)
  with rr have "r = r0" by simp
  with r0 ne only show "\<not> bcrypt_checkpw lib key (ak_key_hash r)" by blast
qed

lemma expired_key_inactive:
  assumes "\<forall>r \<in> set (api_keys db). bcrypt_checkpw lib key (ak_key_hash r) \<longrightarrow>
             (\<exists>x. ak_expires_at r = Some x \<and> x \<le> now_query)"
  shows "validate_api_key lib db now_query now_used key = (None, db)"
proof (rule validate_api_key_none, rule ballI)
  fix r assume "r \<in> set (active_api_keys db now_query)"
  then have "r \<in> set (api_keys db)" and "case ak_expires_at r of None \<Rightarrow> True | Some x \<Rightarrow> x > now_query"
    by (simp_all add: active_api_keys_def)
  with assms show "\<not> bcrypt_checkpw lib key (ak_key_hash r)"
    by (auto split: option.splits)
qed

text \<open>
  Claim C8.  A key that \<open>create_api_key\<close> has just returned validates to the
  identifier of the stored row, the user, the tenant of the project it was created for,
  that project, and the scopes it was created with, when it is validated before its
  expiry.  The hypotheses are the contracts of the libraries and of the random source:
  \<open>bcrypt.checkpw\<close> accepts a key against the hash \<open>bcrypt.hashpw\<close> made of it and
  against no hash stored before, and \<open>json.loads\<close> reads back what \<open>json.dumps\<close>
  wrote.  After its owner has revoked a key, and from the moment its expiry has passed,
  \<open>validate_api_key\<close> answers \<open>None\<close> for it (the key verifying against no other
  row's hash) and leaves the store as it is.
\<close>

theorem api_key_round_trip:
  "(\<forall>resp db1.
      create_api_key lib db e user_id project_id name scopes expires_at = (Inr resp, db1) \<and>
      bcrypt_checkpw lib (akr_key resp) (bcrypt_hashpw lib (akr_key resp) (gensalt e)) \<and>
      (\<forall>r \<in> set (api_keys db). \<not> bcrypt_checkpw lib (akr_key resp) (ak_key_hash r)) \<and>
      json_loads lib (json_dumps lib (map scope_value scopes)) = map scope_value scopes \<and>
      (case expires_at of None \<Rightarrow> True | Some x \<Rightarrow> x > now_query) \<longrightarrow>
      (\<exists>p. find (\<lambda>p. p_id p = project_id) (projects db) = Some p \<and>
           fst (validate_api_key lib db1 now_query now_used (akr_key resp)) =
             Some \<lparr>ctx_key_id = returned_key_id e, ctx_user_id = user_id,
                    ctx_tenant_id = p_tenant_id p, ctx_project_id = project_id,
                    ctx_scopes = map scope_value scopes\<rparr>)) \<and>
   (\<forall>now key_id owner db2.
      revoke_api_key db now key_id owner = (Inr True, db2) \<and>
      (\<forall>r \<in> set (api_keys db). bcrypt_checkpw lib key (ak_key_hash r) \<longrightarrow> ak_id r = key_id) \<longrightarrow>
      validate_api_key lib db2 now_query now_used key = (None, db2)) \<and>
   ((\<forall>r \<in> set (api_keys db). bcrypt_checkpw lib key (ak_key_hash r) \<longrightarrow>
        (\<exists>x. ak_expires_at r = Some x \<and> x \<le> now_query)) \<longrightarrow>
      validate_api_key lib db now_query now_used key = (None, db))"
proof (intro conjI allI impI; (elim conjE)?)
  fix resp db1
  assume "create_api_key lib db e user_id project_id name scopes expires_at = (Inr resp, db1)"
    and "bcrypt_checkpw lib (akr_key resp) (bcrypt_hashpw lib (akr_key resp) (gensalt e))"
    and "\<forall>r \<in> set (api_keys db). \<not> bcrypt_checkpw lib (akr_key resp) (ak_key_hash r)"
    and "json_loads lib (json_dumps lib (map scope_value scopes)) = map scope_value scopes"
    and "case expires_at of None \<Rightarrow> True | Some x \<Rightarrow> x > now_query"
  then show "\<exists>p. find (\<lambda>p. p_id p = project_id) (projects db) = Some p \<and>
           fst (validate_api_key lib db1 now_query now_used (akr_key resp)) =
             Some \<lparr>ctx_key_id = returned_key_id e, ctx_user_id = user_id,
                    ctx_tenant_id = p_tenant_id p, ctx_project_id = project_id,
                    ctx_scopes = map scope_value scopes\<rparr>"
    by (rule validate_created_key)
next
  fix now key_id owner db2
  assume "revoke_api_key db now key_id owner = (Inr True, db2)"
    and "\<forall>r \<in> set (api_keys db). bcrypt_checkpw lib key (ak_key_hash r) \<longrightarrow> ak_id r = key_id"
  then show "validate_api_key lib db2 now_query now_used key = (None, db2)"
    by (rule revoked_key_inactive)
next
  assume "\<forall>r \<in> set (api_keys db). bcrypt_checkpw lib key (ak_key_hash r) \<longrightarrow>
        (\<exists>x. ak_expires_at r = Some x \<and> x \<le> now_query)"
  then show "validate_api_key lib db now_query now_used key = (None, db)"
    by (rule expired_key_inactive)
qed

lemma example_key_db_keys:
  "api_keys example_key_db =
     [\<lparr>ak_id = ''k1'', ak_user_id = ''u1'', ak_tenant_id = ''acme'', ak_project_id = ''proj1'',
       ak_name = ''ci'', ak_key_prefix = ''lrag_abc...'', ak_key_hash = ''saltlrag_abc'',
       ak_scopes = ScopesText ''query;'', ak_expires_at = Some 100, ak_is_active = True,
       ak_revoked_at = None, ak_revoked_by = None, ak_last_used_at = None,
       ak_created_at = 10\<rparr>]"
  by (simp add: example_key_db_def create_api_key_def generate_api_key_def insert_api_key_def
      example_db_def example_libs_def example_create_env_def Let_def)

theorem api_key_round_trip_witness:
  "fst (create_api_key example_libs example_db example_create_env ''u1'' ''proj1'' ''ci''
          [QUERY] (Some 100)) =
     Inr \<lparr>akr_id = ''k1'', akr_name = ''ci'', akr_key = ''lrag_abc'',
          akr_key_prefix = ''lrag_abc...'', akr_project_id = ''proj1'',
          akr_tenant_id = ''acme'', akr_scopes = [''query''],
          akr_expires_at = Some 100, akr_created_at = 10\<rparr> \<and>
   fst (validate_api_key example_libs example_key_db 20 21 ''lrag_abc'') =
     Some \<lparr>ctx_key_id = ''k1'', ctx_user_id = ''u1'', ctx_tenant_id = ''acme'',
            ctx_project_id = ''proj1'', ctx_scopes = [''query'']\<rparr> \<and>
   fst (revoke_api_key example_key_db 30 ''k1'' ''u1'') = Inr True \<and>
   fst (validate_api_key example_libs (snd (revoke_api_key example_key_db 30 ''k1'' ''u1''))
          40 41 ''lrag_abc'') = None \<and>
   fst (validate_api_key example_libs example_key_db 100 101 ''lrag_abc'') = None"
proof -
  let ?resp = "\<lparr>akr_id = ''k1'', akr_name = ''ci'', akr_key = ''lrag_abc'',
          akr_key_prefix = ''lrag_abc...'', akr_project_id = ''proj1'',
          akr_tenant_id = ''acme'', akr_scopes = [''query''],
          akr_expires_at = Some 100, akr_created_at = 10\<rparr>"
  have cr: "create_api_key example_libs example_db example_create_env ''u1'' ''proj1'' ''ci''
          [QUERY] (Some 100) = (Inr ?resp, example_key_db)"
    by (simp add: example_key_db_def create_api_key_def generate_api_key_def insert_api_key_def
        example_db_def example_libs_def example_create_env_def parse_scopes_def Let_def)
  have h2: "bcrypt_checkpw example_libs (akr_key ?resp)
              (bcrypt_hashpw example_libs (akr_key ?resp) (gensalt example_create_env))"
    by (simp add: example_libs_def example_create_env_def)
  have h3: "\<forall>r \<in> set (api_keys example_db). \<not> bcrypt_checkpw example_libs (akr_key ?resp) (ak_key_hash r)"
    by (simp add: example_db_def)
  have h4: "json_loads example_libs (json_dumps example_libs (map scope_value [QUERY])) =
              map scope_value [QUERY]"
    by (simp add: example_libs_def)
  have h5: "case Some (100::int) of None \<Rightarrow> True | Some x \<Rightarrow> x > 20" by simp
  have pr: "find (\<lambda>p. p_id p = ''proj1'') (projects example_db) =
              Some \<lparr>p_id = ''proj1'', p_tenant_id = ''acme''\<rparr>"
    by (simp add: example_db_def)
  note th = api_key_round_trip [where lib = example_libs and db = example_db
      and e = example_create_env and user_id = "''u1''" and project_id = "''proj1''"
      and name = "''ci''" and scopes = "[QUERY]" and expires_at = "Some 100"
      and now_query = 20 and now_used = 21]
  note a = th [THEN conjunct1, rule_format,
      OF conjI [OF cr conjI [OF h2 conjI [OF h3 conjI [OF h4 h5]]]]]
  from a pr have c1: "fst (validate_api_key example_libs example_key_db 20 21 ''lrag_abc'') =
     Some \<lparr>ctx_key_id = ''k1'', ctx_user_id = ''u1'', ctx_tenant_id = ''acme'',
            ctx_project_id = ''proj1'', ctx_scopes = [''query'']\<rparr>"
    by (auto simp: example_create_env_def)
  have rv1: "fst (revoke_api_key example_key_db 30 ''k1'' ''u1'') = Inr True"
    by (simp add: revoke_api_key_def select_is_owner_def example_key_db_keys)
  then have rv: "revoke_api_key example_key_db 30 ''k1'' ''u1'' =
              (Inr True, snd (revoke_api_key example_key_db 30 ''k1'' ''u1''))"
    by (metis prod.collapse)
  have only: "\<forall>r \<in> set (api_keys example_key_db).
                bcrypt_checkpw example_libs ''lrag_abc'' (ak_key_hash r) \<longrightarrow> ak_id r = ''k1''"
    by (simp add: example_key_db_keys)
  note th2 = api_key_round_trip [where lib = example_libs and db = example_key_db
      and key = "''lrag_abc''" and now_query = 40 and now_used = 41]
  from th2 [THEN conjunct2, THEN conjunct1, rule_format, OF conjI [OF rv only]]
  have c2: "fst (validate_api_key example_libs (snd (revoke_api_key example_key_db 30 ''k1'' ''u1''))
          40 41 ''lrag_abc'') = None"
    by simp
  have exp: "\<forall>r \<in> set (api_keys example_key_db).
               bcrypt_checkpw example_libs ''lrag_abc'' (ak_key_hash r) \<longrightarrow>
               (\<exists>x. ak_expires_at r = Some x \<and> x \<le> 100)"
    by (simp add: example_key_db_keys)
  note th3 = api_key_round_trip [where lib = example_libs and db = example_key_db
      and key = "''lrag_abc''" and now_query = 100 and now_used = 101]
  from th3 [THEN conjunct2, THEN conjunct2, THEN mp, OF exp]
  have c3: "fst (validate_api_key example_libs example_key_db 100 101 ''lrag_abc'') = None"
    by simp
  from cr c1 rv1 c2 c3 show ?thesis by simp
qed

section \<open>Proofs: access control\<close>

lemma check_each_key_find:
  "check_each_key lib db now_used key rows =
     (case find (\<lambda>r. bcrypt_checkpw lib key (ak_key_hash r)) rows of
        None \<Rightarrow> (None, db)
      | Some row \<Rightarrow>
          (Some \<lparr>ctx_key_id = ak_id row, ctx_user_id = ak_user_id row,
                 ctx_tenant_id = ak_tenant_id row, ctx_project_id = ak_project_id row,
                 ctx_scopes = parse_scopes lib (ak_scopes row)\<rparr>,
           db\<lparr>api_keys := map (\<lambda>r. if ak_id r = ak_id row
                                     then r\<lparr>ak_last_used_at := Some now_used\<rparr> else r)
                                (api_keys db)\<rparr>))"
  by (induction rows) (simp_all add: verify_api_key_def)

lemma find_Some_first: "find P xs = Some x \<Longrightarrow> x \<in> set xs \<and> P x"
  by (induction xs) (auto split: if_splits)

lemma validate_api_key_find:
  assumes "validate_api_key lib db now_query now_used key = (Some ctx, db')"
  shows "\<exists>row. find (\<lambda>r. bcrypt_checkpw lib key (ak_key_hash r)) (active_api_keys db now_query) =
                 Some row \<and>
               ctx = \<lparr>ctx_key_id = ak_id row, ctx_user_id = ak_user_id row,
                      ctx_tenant_id = ak_tenant_id row, ctx_project_id = ak_project_id row,
                      ctx_scopes = parse_scopes lib (ak_scopes row)\<rparr>"
proof -
  from assms have c: "check_each_key lib db now_used key (active_api_keys db now_query) = (Some ctx, db')"
    by (simp add: validate_api_key_def split: if_splits)
  show ?thesis
  proof (cases "find (\<lambda>r. bcrypt_checkpw lib key (ak_key_hash r)) (active_api_keys db now_query)")
    case None
    with c show ?thesis by (simp add: check_each_key_find)
  next
    case (Some row)
    with c show ?thesis by (simp add: check_each_key_find)
  qed
qed

lemma check_project_access_other_project:
  assumes "st_auth_type st = Some ''api_key''"
    and "st_tenant_id st \<noteq> Some tenant_id \<or> st_project_id st \<noteq> Some project_id"
  shows "check_project_access st db tenant_id project_id required_roles =
           Inl (HTTPException 403 ''API key is not authorized for this project'')"
  using assms by (auto simp: check_project_access_def Let_def)

lemma dispatch_api_key_state:
  assumes d: "dispatch mw lib db now_query now_used path authorization = (st, db')"
    and a: "st_auth_type st = Some ''api_key''"
  shows "\<exists>ctx h.
           authorization = Some h \<and>
           validate_api_key lib db now_query now_used (str_replace ''Bearer '' [] h) =
             (Some ctx, db') \<and>
           st = empty_state\<lparr>st_user_id := Some (ctx_user_id ctx),
                             st_tenant_id := Some (ctx_tenant_id ctx),
                             st_project_id := Some (ctx_project_id ctx),
                             st_scopes := Some (ctx_scopes ctx),
                             st_auth_type := Some ''api_key''\<rparr>"
proof -
  have e: "st_auth_type empty_state \<noteq> Some ''api_key''" by (simp add: empty_state_def)
  have ne: "dispatch mw lib db now_query now_used path authorization \<noteq> (empty_state, x)" for x
    using d a e by auto
  show ?thesis
  proof (cases "list_ex (\<lambda>p. startswith path p) public_paths")
    case True
    then have "dispatch mw lib db now_query now_used path authorization = (empty_state, db)"
      by (simp add: dispatch_def)
    with ne show ?thesis by blast
  next
    case np: False
    show ?thesis
    proof (cases authorization)
      case None
      with np have "dispatch mw lib db now_query now_used path authorization = (empty_state, db)"
        by (simp add: dispatch_def)
      with ne show ?thesis by blast
    next
      case (Some h)
      show ?thesis
      proof (cases "h = [] \<or> \<not> startswith h ''Bearer ''")
        case True
        with np Some
        have "dispatch mw lib db now_query now_used path authorization = (empty_state, db)"
          by (simp add: dispatch_def)
        with ne show ?thesis by blast
      next
        case hd: False
        let ?token = "str_replace ''Bearer '' [] h"
        show ?thesis
        proof (cases "startswith ?token ''lrag_'' \<and> mw_api_key_service mw")
          case True
          obtain r db1 where v: "validate_api_key lib db now_query now_used ?token = (r, db1)"
            by (cases "validate_api_key lib db now_query now_used ?token")
          show ?thesis
          proof (cases r)
            case None
            with np Some hd True v
            have "dispatch mw lib db now_query now_used path authorization = (empty_state, db1)"
              by (simp add: dispatch_def Let_def)
            with ne show ?thesis by blast
          next
            case (Some ctx)
            with np \<open>authorization = Some h\<close> hd True v
            have "dispatch mw lib db now_query now_used path authorization =
                    (empty_state\<lparr>st_user_id := Some (ctx_user_id ctx),
                                  st_tenant_id := Some (ctx_tenant_id ctx),
                                  st_project_id := Some (ctx_project_id ctx),
                                  st_scopes := Some (ctx_scopes ctx),
                                  st_auth_type := Some ''api_key''\<rparr>, db1)"
              by (simp add: dispatch_def Let_def)
            with d have "st = empty_state\<lparr>st_user_id := Some (ctx_user_id ctx),
                                  st_tenant_id := Some (ctx_tenant_id ctx),
                                  st_project_id := Some (ctx_project_id ctx),
                                  st_scopes := Some (ctx_scopes ctx),
                                  st_auth_type := Some ''api_key''\<rparr>" and "db' = db1"
              by simp_all
            with v Some \<open>authorization = Some h\<close> show ?thesis by blast
          qed
        next
          case nk: False
          have "dispatch mw lib db now_query now_used path authorization =
                  (case decode_access_token (mw_auth_service mw) lib ?token of
                     Inr (Some pl) \<Rightarrow>
                       (if pl = [] then (empty_state, db)
                        else (empty_state\<lparr>st_user_id := text_claim pl ''sub'',
                                          st_user_email := text_claim pl ''email'',
                                          st_auth_type := Some ''jwt''\<rparr>, db))
                   | Inr None \<Rightarrow> (empty_state, db)
                   | Inl ex \<Rightarrow> (empty_state, db))"
            using np Some hd by (simp add: dispatch_def Let_def nk)
          then have "st_auth_type (fst (dispatch mw lib db now_query now_used path authorization))
                       \<noteq> Some ''api_key''"
            using e by (simp split: sum.splits option.splits)
          with d a show ?thesis by simp
        qed
      qed
    qed
  qed
qed


text \<open>
  Claim C4.  For a request authenticated by an API key, \<open>check_project_access\<close> for a
  tenant and project other than the pair the request state carries raises Forbidden
  (status 403), whatever the scopes and the required roles, so also when the scopes
  contain \<open>admin\<close>.  The pair in the state is never taken from the caller: when
  \<open>dispatch\<close> marks a request as authenticated by an API key, the request carried an
  \<open>Authorization\<close> header, and the user, the tenant, the project and the scopes of its
  state are those of the first stored key row that is active, not revoked and not
  expired and whose hash verifies the token of that header; every check against another
  pair is refused.
\<close>

theorem api_key_bound_to_its_project:
  "(st_auth_type st = Some ''api_key'' \<and>
    (st_tenant_id st \<noteq> Some tenant_id \<or> st_project_id st \<noteq> Some project_id) \<longrightarrow>
      check_project_access st db tenant_id project_id required_roles =
        Inl (HTTPException 403 ''API key is not authorized for this project'')) \<and>
   (\<forall>st' db'.
      dispatch mw lib db now_query now_used path authorization = (st', db') \<and>
      st_auth_type st' = Some ''api_key'' \<longrightarrow>
      (\<exists>h row.
         authorization = Some h \<and>
         find (\<lambda>r. bcrypt_checkpw lib (str_replace ''Bearer '' [] h) (ak_key_hash r))
           (active_api_keys db now_query) = Some row \<and>
         row \<in> set (active_api_keys db now_query) \<and>
         row \<in> set (api_keys db) \<and>
         verify_api_key lib (str_replace ''Bearer '' [] h) (ak_key_hash row) \<and>
         bcrypt_checkpw lib (str_replace ''Bearer '' [] h) (ak_key_hash row) \<and>
         ak_is_active row \<and> ak_revoked_at row = None \<and>
         (case ak_expires_at row of None \<Rightarrow> True | Some x \<Rightarrow> x > now_query) \<and>
         st_user_id st' = Some (ak_user_id row) \<and>
         st_tenant_id st' = Some (ak_tenant_id row) \<and>
         st_project_id st' = Some (ak_project_id row) \<and>
         st_scopes st' = Some (parse_scopes lib (ak_scopes row)) \<and>
         (\<forall>t p rr dbx. t \<noteq> ak_tenant_id row \<or> p \<noteq> ak_project_id row \<longrightarrow>
            check_project_access st' dbx t p rr =
              Inl (HTTPException 403 ''API key is not authorized for this project''))))"
proof (intro conjI allI impI; (elim conjE)?)
  assume "st_auth_type st = Some ''api_key''"
    and "st_tenant_id st \<noteq> Some tenant_id \<or> st_project_id st \<noteq> Some project_id"
  then show "check_project_access st db tenant_id project_id required_roles =
        Inl (HTTPException 403 ''API key is not authorized for this project'')"
    by (rule check_project_access_other_project)
next
  fix st' db'
  assume d: "dispatch mw lib db now_query now_used path authorization = (st', db')"
    and a: "st_auth_type st' = Some ''api_key''"
  from dispatch_api_key_state [OF d a] obtain ctx h where
    h: "authorization = Some h" and
    v: "validate_api_key lib db now_query now_used (str_replace ''Bearer '' [] h) = (Some ctx, db')" and
    st: "st' = empty_state\<lparr>st_user_id := Some (ctx_user_id ctx),
                             st_tenant_id := Some (ctx_tenant_id ctx),
                             st_project_id := Some (ctx_project_id ctx),
                             st_scopes := Some (ctx_scopes ctx),
                             st_auth_type := Some ''api_key''\<rparr>" by blast
  let ?token = "str_replace ''Bearer '' [] h"
  from validate_api_key_find [OF v] obtain row where
    f: "find (\<lambda>r. bcrypt_checkpw lib ?token (ak_key_hash r)) (active_api_keys db now_query) =
          Some row" and
    ctx: "ctx = \<lparr>ctx_key_id = ak_id row, ctx_user_id = ak_user_id row,
                  ctx_tenant_id = ak_tenant_id row, ctx_project_id = ak_project_id row,
                  ctx_scopes = parse_scopes lib (ak_scopes row)\<rparr>"
    by blast
  from find_Some_first [OF f] have act: "row \<in> set (active_api_keys db now_query)"
    and ver: "bcrypt_checkpw lib ?token (ak_key_hash row)" by simp_all
  from act have inn: "row \<in> set (api_keys db)" and ia: "ak_is_active row"
    and rv: "ak_revoked_at row = None"
    and ex: "case ak_expires_at row of None \<Rightarrow> True | Some x \<Rightarrow> x > now_query"
    by (simp_all add: active_api_keys_def)
  from ver have ver': "verify_api_key lib ?token (ak_key_hash row)"
    by (simp add: verify_api_key_def)
  have u: "st_user_id st' = Some (ak_user_id row)"
    and t: "st_tenant_id st' = Some (ak_tenant_id row)"
    and p: "st_project_id st' = Some (ak_project_id row)"
    and s: "st_scopes st' = Some (parse_scopes lib (ak_scopes row))"
    by (simp_all add: st ctx)
  have deny: "\<forall>t p rr dbx. t \<noteq> ak_tenant_id row \<or> p \<noteq> ak_project_id row \<longrightarrow>
            check_project_access st' dbx t p rr =
              Inl (HTTPException 403 ''API key is not authorized for this project'')"
  proof (intro allI impI)
    fix t' p' rr dbx
    assume "t' \<noteq> ak_tenant_id row \<or> p' \<noteq> ak_project_id row"
    with t p have "st_tenant_id st' \<noteq> Some t' \<or> st_project_id st' \<noteq> Some p'" by auto
    with a show "check_project_access st' dbx t' p' rr =
              Inl (HTTPException 403 ''API key is not authorized for this project'')"
      by (rule check_project_access_other_project)
  qed
  show "\<exists>h row.
         authorization = Some h \<and>
         find (\<lambda>r. bcrypt_checkpw lib (str_replace ''Bearer '' [] h) (ak_key_hash r))
           (active_api_keys db now_query) = Some row \<and>
         row \<in> set (active_api_keys db now_query) \<and>
         row \<in> set (api_keys db) \<and>
         verify_api_key lib (str_replace ''Bearer '' [] h) (ak_key_hash row) \<and>
         bcrypt_checkpw lib (str_replace ''Bearer '' [] h) (ak_key_hash row) \<and>
         ak_is_active row \<and> ak_revoked_at row = None \<and>
         (case ak_expires_at row of None \<Rightarrow> True | Some x \<Rightarrow> x > now_query) \<and>
         st_user_id st' = Some (ak_user_id row) \<and>
         st_tenant_id st' = Some (ak_tenant_id row) \<and>
         st_project_id st' = Some (ak_project_id row) \<and>
         st_scopes st' = Some (parse_scopes lib (ak_scopes row)) \<and>
         (\<forall>t p rr dbx. t \<noteq> ak_tenant_id row \<or> p \<noteq> ak_project_id row \<longrightarrow>
            check_project_access st' dbx t p rr =
              Inl (HTTPException 403 ''API key is not authorized for this project''))"
    by (intro exI [of _ h] exI [of _ row] conjI)
      (rule h, rule f, rule act, rule inn, rule ver', rule ver, rule ia, rule rv, rule ex,
       rule u, rule t, rule p, rule s, rule deny)
qed

theorem api_key_bound_to_its_project_witness:
  "fst (dispatch example_middleware example_libs example_two_keys_db 20 21 ''/query''
          (Some ''Bearer lrag_abc'')) =
     \<lparr>st_user_id = Some ''u1'', st_user_email = None, st_tenant_id = Some ''acme'',
      st_project_id = Some ''proj1'', st_scopes = Some [''admin''],
      st_auth_type = Some ''api_key''\<rparr> \<and>
   check_project_access
     (fst (dispatch example_middleware example_libs example_two_keys_db 20 21 ''/query''
             (Some ''Bearer lrag_abc'')))
     example_two_keys_db ''acme'' ''proj2'' (Some [''owner'']) =
     Inl (HTTPException 403 ''API key is not authorized for this project'') \<and>
   check_project_access
     (fst (dispatch example_middleware example_libs example_two_keys_db 20 21 ''/query''
             (Some ''Bearer lrag_abc'')))
     example_two_keys_db ''other'' ''proj1'' None =
     Inl (HTTPException 403 ''API key is not authorized for this project'') \<and>
   check_project_access
     (fst (dispatch example_middleware example_libs example_two_keys_db 20 21 ''/query''
             (Some ''Bearer lrag_abc'')))
     example_two_keys_db ''acme'' ''proj1'' (Some [''owner'']) = Inr ApiKeyAccess \<and>
   map ak_id (active_api_keys example_two_keys_db 20) = [''k0'', ''k1''] \<and>
   (\<exists>row.
      find (\<lambda>r. bcrypt_checkpw example_libs ''lrag_abc'' (ak_key_hash r))
        (active_api_keys example_two_keys_db 20) = Some row \<and>
      ak_id row = ''k1'' \<and>
      st_tenant_id (fst (dispatch example_middleware example_libs example_two_keys_db 20 21
                           ''/query'' (Some ''Bearer lrag_abc''))) = Some (ak_tenant_id row) \<and>
      st_project_id (fst (dispatch example_middleware example_libs example_two_keys_db 20 21
                           ''/query'' (Some ''Bearer lrag_abc''))) = Some (ak_project_id row))"
proof -
  let ?d = "dispatch example_middleware example_libs example_two_keys_db 20 21 ''/query''
          (Some ''Bearer lrag_abc'')"
  have s: "fst ?d =
     \<lparr>st_user_id = Some ''u1'', st_user_email = None, st_tenant_id = Some ''acme'',
      st_project_id = Some ''proj1'', st_scopes = Some [''admin''],
      st_auth_type = Some ''api_key''\<rparr>"
    by code_simp
  have d: "?d = (fst ?d, snd ?d)" by simp
  have a: "st_auth_type (fst ?d) = Some ''api_key''" by (simp add: s)
  have o: "st_tenant_id (fst ?d) \<noteq> Some ''acme'' \<or> st_project_id (fst ?d) \<noteq> Some ''proj2''"
    by (simp add: s)
  note th = api_key_bound_to_its_project [where mw = example_middleware and lib = example_libs
      and db = example_two_keys_db and now_query = 20 and now_used = 21 and path = "''/query''"
      and authorization = "Some ''Bearer lrag_abc''" and st = "fst ?d" and tenant_id = "''acme''"
      and project_id = "''proj2''" and required_roles = "Some [''owner'']"]
  from th [THEN conjunct1, THEN mp, OF conjI [OF a o]]
  have c1: "check_project_access (fst ?d) example_two_keys_db ''acme'' ''proj2'' (Some [''owner'']) =
     Inl (HTTPException 403 ''API key is not authorized for this project'')" .
  note th2 = api_key_bound_to_its_project [where st = "fst ?d" and tenant_id = "''other''"
      and project_id = "''proj1''" and required_roles = None and db = example_two_keys_db]
  have o2: "st_tenant_id (fst ?d) \<noteq> Some ''other'' \<or> st_project_id (fst ?d) \<noteq> Some ''proj1''"
    by (simp add: s)
  from th2 [THEN conjunct1, THEN mp, OF conjI [OF a o2]]
  have c2: "check_project_access (fst ?d) example_two_keys_db ''other'' ''proj1'' None =
     Inl (HTTPException 403 ''API key is not authorized for this project'')" .
  have c3: "check_project_access (fst ?d) example_two_keys_db ''acme'' ''proj1'' (Some [''owner'']) =
     Inr ApiKeyAccess"
    by (simp add: s check_project_access_def)
  have ids: "map ak_id (active_api_keys example_two_keys_db 20) = [''k0'', ''k1'']"
    by code_simp
  have sr: "str_replace ''Bearer '' [] ''Bearer lrag_abc'' = ''lrag_abc''"
    by code_simp
  from th [THEN conjunct2, rule_format, OF conjI [OF d a]] obtain h row where
    hh: "Some ''Bearer lrag_abc'' = Some h" and
    f: "find (\<lambda>r. bcrypt_checkpw example_libs (str_replace ''Bearer '' [] h) (ak_key_hash r))
           (active_api_keys example_two_keys_db 20) = Some row" and
    t: "st_tenant_id (fst ?d) = Some (ak_tenant_id row)" and
    p: "st_project_id (fst ?d) = Some (ak_project_id row)"
    by (elim exE conjE) (rule that)
  from hh have "h = ''Bearer lrag_abc''" by simp
  with f sr have f': "find (\<lambda>r. bcrypt_checkpw example_libs ''lrag_abc'' (ak_key_hash r))
        (active_api_keys example_two_keys_db 20) = Some row"
    by simp
  have "find (\<lambda>r. bcrypt_checkpw example_libs ''lrag_abc'' (ak_key_hash r))
        (active_api_keys example_two_keys_db 20) =
        Some (active_api_keys example_two_keys_db 20 ! 1)"
    by code_simp
  with f' have "row = active_api_keys example_two_keys_db 20 ! 1" by simp
  moreover have "ak_id (active_api_keys example_two_keys_db 20 ! 1) = ''k1''"
    by code_simp
  ultimately have idr: "ak_id row = ''k1''" by simp
  have c4: "\<exists>row.
      find (\<lambda>r. bcrypt_checkpw example_libs ''lrag_abc'' (ak_key_hash r))
        (active_api_keys example_two_keys_db 20) = Some row \<and>
      ak_id row = ''k1'' \<and>
      st_tenant_id (fst ?d) = Some (ak_tenant_id row) \<and>
      st_project_id (fst ?d) = Some (ak_project_id row)"
    by (intro exI [of _ row] conjI) (rule f', rule idr, rule t, rule p)
  show ?thesis
    by (intro conjI) (rule s, rule c1, rule c2, rule c3, rule ids, rule c4)
qed

end
